theory Spec2Isabelle
  imports Complex_Main "HOL-Library.AList"
begin

section \<open>Memory manager: rendering the prompt enrichment (memory/manager.go)\<close>

text \<open>
  \<^verbatim>\<open>FormatContext\<close> of memory/memory.go. \<^verbatim>\<open>MaxLength\<close> is a Go \<^verbatim>\<open>int\<close>; the only
  values the manager puts there lie between 100 and 2000, so no wrap-around is involved.
\<close>

record FormatContext =
  fc_UserID :: string
  fc_Query :: string
  fc_MaxLength :: int

text \<open>
  The \<^verbatim>\<open>Memory\<close> interface of memory/memory.go, as the record of what its methods return.
  The metadata map is an association list (a Go map has no duplicate keys), its values are
  either strings (\<open>Inl\<close>) or some other value (\<open>Inr\<close>). \<open>'c\<close> is the type of opaque
  content values, \<open>'t\<close> the type of time stamps and \<open>'e\<close> the type of embedding vectors.
\<close>

record ('c, 't, 'e) Memory =
  ID :: string
  OwnerID :: string
  ConversationID :: string
  Type :: string
  Content :: 'c
  Metadata :: "(string \<times> (string + 'c)) list"
  CreatedAt :: 't
  Format :: "FormatContext \<Rightarrow> string"
  Embedding :: 'e

text \<open>\<^verbatim>\<open>fmt.Sprintf("%d", n)\<close> for a non-negative \<open>n\<close>: the decimal digits, most significant first.\<close>

definition digit_char :: "nat \<Rightarrow> char" where
  "digit_char d = ''0123456789'' ! d"

function decimal :: "nat \<Rightarrow> string" where
  "decimal n = (if n < 10 then [digit_char n] else decimal (n div 10) @ [digit_char (n mod 10)])"
  by pat_completeness auto
termination
  by (relation "measure id") auto

text \<open>\<^verbatim>\<open>strings.Join(parts, sep)\<close>.\<close>

fun strings_Join :: "string list \<Rightarrow> string \<Rightarrow> string" where
  "strings_Join [] sep = []"
| "strings_Join [p] sep = p"
| "strings_Join (p # q # ps) sep = p @ sep @ strings_Join (q # ps) sep"

text \<open>
  The loop of \<^verbatim>\<open>formatMemories\<close>: \<open>i\<close> is the loop index, \<open>parts\<close> the slice built so far,
  \<open>fc\<close> the format context (the same for every memory).
\<close>

fun formatMemories_loop ::
  "FormatContext \<Rightarrow> nat \<Rightarrow> ('c, 't, 'e) Memory list \<Rightarrow> string list \<Rightarrow> string list" where
  "formatMemories_loop fc i [] parts = parts"
| "formatMemories_loop fc i (mem # mems) parts =
     formatMemories_loop fc (i + 1) mems
       (parts @ [decimal (i + 1) @ ''. '' @ Format mem fc @ [CHR 0x0A]])"

definition formatMemories :: "('c, 't, 'e) Memory list \<Rightarrow> string \<Rightarrow> string \<Rightarrow> string" where
  "formatMemories memories userID query =
     (if length memories = 0 then ''''
      else
        let parts = [''=== RELEVANT PAST ACTIONS ==='' @ [CHR 0x0A]];
            maxLengthPerMemory = 2000 div int (length memories);
            maxLengthPerMemory = (if maxLengthPerMemory < 100 then 100 else maxLengthPerMemory);
            parts = formatMemories_loop
                      \<lparr>fc_UserID = userID, fc_Query = query, fc_MaxLength = maxLengthPerMemory\<rparr>
                      0 memories parts
        in strings_Join parts [CHR 0x0A])"

text \<open>
  \<^verbatim>\<open>SimpleManager.Retrieve\<close>. The embedder and the store are interfaces: \<open>embedder\<close> and
  \<open>store_query\<close> are what \<^verbatim>\<open>m.embedder.Embed\<close> and \<^verbatim>\<open>m.store.Query\<close> return (\<open>Inl\<close> an
  error message). The error of \<^verbatim>\<open>Retrieve\<close> wraps the message with \<^verbatim>\<open>fmt.Errorf\<close>.
\<close>

definition Retrieve ::
  "bool \<Rightarrow> (string \<Rightarrow> string + 'e) \<Rightarrow> (string \<Rightarrow> 'e \<Rightarrow> nat \<Rightarrow> string + ('c, 't, 'e) Memory list)
     \<Rightarrow> string \<Rightarrow> string \<Rightarrow> string + string" where
  "Retrieve enabled embedder store_query userID userMessage =
     (if \<not> enabled then Inr ''''
      else case embedder userMessage of
        Inl err \<Rightarrow> Inl (''embed query: '' @ err)
      | Inr embedding \<Rightarrow>
          (case store_query userID embedding 10 of
             Inl err \<Rightarrow> Inl (''query store: '' @ err)
           | Inr memories \<Rightarrow>
               if length memories = 0 then Inr ''''
               else Inr (formatMemories memories userID userMessage)))"

text \<open>
  The enrichment as the specification words it: nothing for no memories; otherwise the
  header, then for the \<open>k\<close>-th memory (counting from 1) the line
  \<^verbatim>\<open>k. <its own format(context)>\<close>, the context holding the owner, the user text and
  \<open>\<lfloor>2000 / count\<rfloor>\<close> clamped to at least 100; the pieces joined by newlines.
\<close>

definition max_chars_per_record :: "nat \<Rightarrow> int" where
  "max_chars_per_record count = max 100 (2000 div int count)"

definition enrichment_spec :: "('c, 't, 'e) Memory list \<Rightarrow> string \<Rightarrow> string \<Rightarrow> string" where
  "enrichment_spec memories owner user_text =
     (if memories = [] then ''''
      else strings_Join
             ((''=== RELEVANT PAST ACTIONS ==='' @ [CHR 0x0A]) #
              map (\<lambda>(k, mem). decimal (k + 1) @ ''. '' @
                     Format mem \<lparr>fc_UserID = owner, fc_Query = user_text,
                                  fc_MaxLength = max_chars_per_record (length memories)\<rparr> @ [CHR 0x0A])
                  (enumerate 0 memories))
             [CHR 0x0A])"

text \<open>Two concrete memories whose \<^verbatim>\<open>Format\<close> shows the context it was called with.\<close>

definition memA :: "(unit, unit, nat) Memory" where
  "memA = \<lparr>ID = ''m1'', OwnerID = ''alice'', ConversationID = ''c1'', Type = ''trace'',
     Content = (), Metadata = [], CreatedAt = (),
     Format = (\<lambda>fc. fc_Query fc @ ''/'' @ decimal (nat (fc_MaxLength fc))), Embedding = 0\<rparr>"

definition memB :: "(unit, unit, nat) Memory" where
  "memB = \<lparr>ID = ''m2'', OwnerID = ''alice'', ConversationID = ''c2'', Type = ''trace'',
     Content = (), Metadata = [], CreatedAt = (),
     Format = (\<lambda>fc. ''for '' @ fc_UserID fc), Embedding = 1\<rparr>"

section \<open>Schema builder (tools/schema.go)\<close>

text \<open>
  A schema is a Go \<^verbatim>\<open>map[string]interface{}\<close>, and a Go map value is a reference to a
  mutable map object: copying the value (into a variable, into another map) shares the
  object. The model keeps the objects in an explicit store, a list of maps indexed by
  address; \<^verbatim>\<open>make(map...)\<close> and map literals allocate at the end of the list.

  The values an \<^verbatim>\<open>interface{}\<close> holds here: a string, a \<^verbatim>\<open>[]string\<close> (the \<^verbatim>\<open>required\<close> and
  \<^verbatim>\<open>enum\<close> lists), a reference to a map object, the nil map of type
  \<^verbatim>\<open>map[string]interface{}\<close>, or any other value (\<open>VOther\<close>, opaque). The type assertions
  of the source succeed on exactly one constructor each.

  A \<^verbatim>\<open>[]string\<close> is modelled by its elements: \<^verbatim>\<open>append\<close> never changes the elements seen
  through the slice it is given, and nothing in this file writes to a slice by index.
\<close>

type_synonym addr = nat

datatype val = VString string | VStrings "string list" | VMap addr | VNilMap | VOther string

type_synonym gomap = "string \<rightharpoonup> val"

type_synonym heap = "gomap list"

definition alloc :: "heap \<Rightarrow> gomap \<Rightarrow> heap \<times> addr" where
  "alloc h m = (h @ [m], length h)"

text \<open>\<^verbatim>\<open>m[k] = v\<close> on the map object at address \<open>a\<close>.\<close>

definition map_store :: "heap \<Rightarrow> addr \<Rightarrow> string \<Rightarrow> val \<Rightarrow> heap" where
  "map_store h a k v = h[a := (h ! a)(k \<mapsto> v)]"

text \<open>A map argument is either the nil map or a reference.\<close>

definition map_val :: "addr option \<Rightarrow> val" where
  "map_val r = (case r of None \<Rightarrow> VNilMap | Some a \<Rightarrow> VMap a)"

definition ObjectSchema :: "heap \<Rightarrow> addr option \<Rightarrow> string list \<Rightarrow> heap \<times> addr" where
  "ObjectSchema h properties required =
     (let (h, schema) = alloc h [''type'' \<mapsto> VString ''object'', ''properties'' \<mapsto> map_val properties]
      in if length required > 0 then (map_store h schema ''required'' (VStrings required), schema)
         else (h, schema))"

definition StringProperty :: "heap \<Rightarrow> string \<Rightarrow> heap \<times> addr" where
  "StringProperty h description =
     alloc h [''type'' \<mapsto> VString ''string'', ''description'' \<mapsto> VString description]"

definition thought_description :: string where
  "thought_description =
     ''Your reasoning about why you're using this tool and what you expect to accomplish. '' @
     ''For write operations, explain your decision-making process.''"

text \<open>
  \<^verbatim>\<open>WithThought\<close>. The result is \<open>None\<close> where the Go code panics: the schema holds the nil
  map under \<^verbatim>\<open>"properties"\<close> (the type assertion succeeds on it, and the assignment
  \<^verbatim>\<open>props["thought"] = ...\<close> to a nil map panics). The clone loop copies every entry of the
  argument into a fresh map object; ranging over a nil map copies nothing.
\<close>

definition WithThought :: "heap \<Rightarrow> addr option \<Rightarrow> bool \<Rightarrow> (heap \<times> addr) option" where
  "WithThought h schema requireThought =
     (let (h, result) = alloc h (case schema of None \<Rightarrow> Map.empty | Some s \<Rightarrow> h ! s);
          (h, props) =
             (case (h ! result) ''properties'' of
                Some (VMap p) \<Rightarrow> (h, Some p)
              | Some VNilMap \<Rightarrow> (h, None)
              | _ \<Rightarrow> (let (h, p) = alloc h Map.empty
                      in (map_store h result ''properties'' (VMap p), Some p)))
      in case props of
           None \<Rightarrow> None
         | Some props \<Rightarrow>
             (let (h, sp) = StringProperty h thought_description;
                  h = map_store h props ''thought'' (VMap sp);
                  h = (if requireThought then
                         (let required = (case (h ! result) ''required'' of
                                            Some (VStrings r) \<Rightarrow> r
                                          | _ \<Rightarrow> [])
                          in map_store h result ''required'' (VStrings (required @ [''thought''])))
                       else h)
              in Some (h, result)))"

definition BuildSchemaWithThought ::
  "heap \<Rightarrow> addr option \<Rightarrow> bool \<Rightarrow> string list \<Rightarrow> (heap \<times> addr) option" where
  "BuildSchemaWithThought h properties requireThought required =
     (let (h, schema) = ObjectSchema h properties required
      in WithThought h (Some schema) requireThought)"

text \<open>Reading a schema: an entry of the map object at an address, and its \<^verbatim>\<open>required\<close> list.\<close>

definition entry :: "heap \<Rightarrow> addr \<Rightarrow> string \<Rightarrow> val option" where
  "entry h a k = (h ! a) k"

definition required_list :: "heap \<Rightarrow> addr \<Rightarrow> string list" where
  "required_list h a = (case entry h a ''required'' of Some (VStrings r) \<Rightarrow> r | _ \<Rightarrow> [])"

text \<open>
  References are to allocated objects: the schema's address, and the address of its
  properties map if it has one.
\<close>

definition valid_schema :: "heap \<Rightarrow> addr option \<Rightarrow> bool" where
  "valid_schema h schema =
     (case schema of
        None \<Rightarrow> True
      | Some s \<Rightarrow> s < length h \<and>
          (case entry h s ''properties'' of Some (VMap p) \<Rightarrow> p < length h | _ \<Rightarrow> True))"

text \<open>Applying \<^verbatim>\<open>WithThought\<close> to its own result: the final store and both results.\<close>

definition WithThought_twice :: "heap \<Rightarrow> addr option \<Rightarrow> bool \<Rightarrow> (heap \<times> addr \<times> addr) option" where
  "WithThought_twice h schema requireThought =
     (case WithThought h schema requireThought of
        None \<Rightarrow> None
      | Some (h1, s1) \<Rightarrow>
          (case WithThought h1 (Some s1) requireThought of
             None \<Rightarrow> None
           | Some (h2, s2) \<Rightarrow> Some (h2, s1, s2)))"

text \<open>
  A concrete composition, as the tools of the repository build their schemas: a properties
  map with one string property, and the object schema over it with that property required.
\<close>

definition ex_props :: "heap \<times> addr" where
  "ex_props = (let (h, r) = StringProperty [] ''Recipient'' in alloc h [''recipient'' \<mapsto> VMap r])"

definition ex_schema :: "heap \<times> addr" where
  "ex_schema = ObjectSchema (fst ex_props) (Some (snd ex_props)) [''recipient'']"

text \<open>
  Two ways of comparing the twice-extended schema \<open>s2\<close> with the once-extended schema \<open>s1\<close>
  in the store left by both calls: entry by entry, and entry by entry except that with
  \<open>requireThought\<close> the \<^verbatim>\<open>required\<close> list of \<open>s2\<close> is that of \<open>s1\<close> with one more
  \<^verbatim>\<open>"thought"\<close> at its end.
\<close>

definition twice_same_as_once :: "heap \<Rightarrow> addr option \<Rightarrow> bool \<Rightarrow> bool" where
  "twice_same_as_once h schema requireThought =
     (case WithThought_twice h schema requireThought of
        None \<Rightarrow> False
      | Some (h2, s1, s2) \<Rightarrow> h2 ! s2 = h2 ! s1)"

definition twice_vs_once :: "heap \<Rightarrow> addr option \<Rightarrow> bool \<Rightarrow> bool" where
  "twice_vs_once h schema requireThought =
     (case WithThought_twice h schema requireThought of
        None \<Rightarrow> False
      | Some (h2, s1, s2) \<Rightarrow>
          h2 ! s2 = (if requireThought
                     then (h2 ! s1)(''required'' \<mapsto> VStrings (required_list h2 s1 @ [''thought'']))
                     else h2 ! s1))"


text \<open>The \<^verbatim>\<open>required\<close> lists of the once- and of the twice-extended schema.\<close>

definition required_after_twice ::
  "heap \<Rightarrow> addr option \<Rightarrow> bool \<Rightarrow> (string list \<times> string list) option" where
  "required_after_twice h schema requireThought =
     (case WithThought_twice h schema requireThought of
        None \<Rightarrow> None
      | Some (h2, s1, s2) \<Rightarrow> Some (required_list h2 s1, required_list h2 s2))"

section \<open>Vector store over chromem-go (memory/store/chromem/chromem.go)\<close>

subsection \<open>Library functions\<close>

text \<open>
  A decoded JSON value, as far as the store inspects one: the type assertions of
  \<^verbatim>\<open>deserializeTraceMemory\<close> succeed on strings and on booleans.
\<close>

datatype json = JString string | JBool bool | JOther

text \<open>
  The functions of the Go standard library and of chromem-go that the store calls and whose
  results it only passes on: JSON encoding and decoding (\<open>None\<close> is an error), RFC 3339
  time formatting and parsing, and chromem-go's vector arithmetic on \<^verbatim>\<open>[]float32\<close>
  (\<^verbatim>\<open>isNormalized\<close>, \<^verbatim>\<open>normalizeVector\<close>, \<^verbatim>\<open>dotProduct\<close> on vectors of one length, and the
  embedding function that a collection created without one falls back to). \<open>'f\<close> is the
  type of vector components, \<open>'s\<close> the type of similarity scores.
\<close>

record ('c, 't, 'f, 's) libs =
  json_Marshal :: "'c \<Rightarrow> string option"
  json_Unmarshal :: "string \<Rightarrow> (string \<rightharpoonup> json) option"
  time_Format :: "'t \<Rightarrow> string"
  time_Parse :: "string \<Rightarrow> 't"
  isNormalized :: "'f list \<Rightarrow> bool"
  normalizeVector :: "'f list \<Rightarrow> 'f list"
  dotProduct :: "'f list \<Rightarrow> 'f list \<Rightarrow> 's"
  default_embedding :: "string \<Rightarrow> 'f list option"

text \<open>A \<^verbatim>\<open>map[string]string\<close> as an association list; a missing key reads as the empty string.\<close>

definition lookup_str :: "(string \<times> string) list \<Rightarrow> string \<Rightarrow> string" where
  "lookup_str m k = (case map_of m k of None \<Rightarrow> '''' | Some v \<Rightarrow> v)"

subsection \<open>chromem-go: documents and collections\<close>

text \<open>
  chromem-go is a library outside this repository; the store uses \<^verbatim>\<open>CreateCollection\<close>,
  \<^verbatim>\<open>AddDocument\<close> and \<^verbatim>\<open>QueryEmbedding\<close>, modelled here after the library's v0.7.0 (the
  version of go.mod). A collection keeps its documents by ID. A query result carries the
  fields of the document (its similarity score is not read by the store and is left out).
\<close>

record 'f Document =
  doc_ID :: string
  doc_Metadata :: "(string \<times> string) list"
  doc_Embedding :: "'f list"
  doc_Content :: string

type_synonym 'f collection = "(string \<times> 'f Document) list"

text \<open>
  \<^verbatim>\<open>AddDocument\<close>: an embedding that is given is normalised unless it is normalised already;
  one that is missing is computed from the content.
\<close>

definition AddDocument ::
  "('c, 't, 'f, 's) libs \<Rightarrow> 'f collection \<Rightarrow> 'f Document \<Rightarrow> string + 'f collection" where
  "AddDocument lib col doc =
     (if doc_ID doc = '''' then Inl ''document ID is empty''
      else if doc_Embedding doc = [] \<and> doc_Content doc = ''''
        then Inl ''either document embedding or content must be filled''
      else case (if doc_Embedding doc = [] then default_embedding lib (doc_Content doc)
                 else if \<not> isNormalized lib (doc_Embedding doc)
                   then Some (normalizeVector lib (doc_Embedding doc))
                 else Some (doc_Embedding doc)) of
             None \<Rightarrow> Inl ''couldn't create embedding of document''
           | Some e \<Rightarrow> Inr (AList.update (doc_ID doc) (doc\<lparr>doc_Embedding := e\<rparr>) col))"

text \<open>A document passes the \<^verbatim>\<open>where\<close> filter if its metadata has every entry of the filter.\<close>

definition matches_where :: "(string \<times> string) list \<Rightarrow> 'f Document \<Rightarrow> bool" where
  "matches_where wh d = list_all (\<lambda>(k, v). lookup_str (doc_Metadata d) k = v) wh"

text \<open>
  \<^verbatim>\<open>QueryEmbedding\<close> (the store passes no \<^verbatim>\<open>whereDocument\<close>): the documents that pass the
  filter, the most similar first, at most \<open>nResults\<close> of them. The query vector is
  normalised unless it is normalised already. The dot product with a stored vector of
  another length is an error; the library names one such document in the message, here the
  first. Documents of equal similarity come in no fixed order in the library, here in the
  reverse of the order in which they were added.
\<close>

definition QueryEmbedding ::
  "('c, 't, 'f, 's::linorder) libs \<Rightarrow> 'f collection \<Rightarrow> 'f list \<Rightarrow> int \<Rightarrow> (string \<times> string) list
     \<Rightarrow> string + 'f Document list" where
  "QueryEmbedding lib col queryEmbedding nResults wh =
     (if queryEmbedding = [] then Inl ''queryEmbedding is empty''
      else if nResults \<le> 0 then Inl ''nResults must be > 0''
      else if nResults > int (length col)
        then Inl ''nResults must be <= the number of documents in the collection''
      else if length col = 0 then Inr []
      else
        let filteredDocs = filter (matches_where wh) (map snd col)
        in if filteredDocs = [] then Inr []
           else
             let queryEmbedding = (if \<not> isNormalized lib queryEmbedding
                                   then normalizeVector lib queryEmbedding else queryEmbedding)
             in case find (\<lambda>d. length (doc_Embedding d) \<noteq> length queryEmbedding) filteredDocs of
                  Some d \<Rightarrow>
                    Inl (''couldn't get most similar docs: couldn't calculate similarity for document ''
                         @ [CHR 0x27] @ doc_ID d @ [CHR 0x27] @ '': vectors must have the same length'')
                | None \<Rightarrow>
                    Inr (take (nat nResults)
                           (rev (sort_key (\<lambda>d. dotProduct lib queryEmbedding (doc_Embedding d))
                                   filteredDocs))))"

subsection \<open>The store\<close>

text \<open>
  \<^verbatim>\<open>ChromemStore\<close>. Collections are objects reached through pointers: \<open>objects\<close> is the
  list of the collections allocated so far, \<open>db_collections\<close> the database's map from
  collection name to collection, \<open>collections\<close> the store's own map from user ID to
  collection. Each operation is modelled as one step; the mutexes of the source make the
  map accesses atomic.
\<close>

record 'f ChromemStore =
  objects :: "'f collection list"
  db_collections :: "(string \<times> nat) list"
  collections :: "(string \<times> nat) list"

definition New :: "'f ChromemStore" where
  "New = \<lparr>objects = [], db_collections = [], collections = []\<rparr>"

text \<open>\<^verbatim>\<open>db.CreateCollection\<close> of chromem-go: a fresh collection, registered under its name.\<close>

definition CreateCollection :: "'f ChromemStore \<Rightarrow> string \<Rightarrow> string + ('f ChromemStore \<times> nat)" where
  "CreateCollection s name =
     (if name = '''' then Inl ''collection name is empty''
      else Inr (s\<lparr>objects := objects s @ [[]],
                  db_collections := AList.update name (length (objects s)) (db_collections s)\<rparr>,
                length (objects s)))"

definition getOrCreateCollection :: "'f ChromemStore \<Rightarrow> string \<Rightarrow> string + ('f ChromemStore \<times> nat)" where
  "getOrCreateCollection s userID =
     (case map_of (collections s) userID of
        Some col \<Rightarrow> Inr (s, col)
      | None \<Rightarrow>
          (let collectionName = (if userID = '''' then ''global'' else ''user_'' @ userID)
           in case CreateCollection s collectionName of
                Inl err \<Rightarrow> Inl (''create collection: '' @ err)
              | Inr (s, col) \<Rightarrow>
                  Inr (s\<lparr>collections := AList.update userID col (collections s)\<rparr>, col)))"

record StoredMemory =
  sm_Type :: string
  ContentJSON :: string
  sm_Metadata :: "(string \<times> string) list"

text \<open>
  \<^verbatim>\<open>serializeMemory\<close>. The custom metadata is written after the four fixed keys, so a custom
  entry under one of those keys replaces it.
\<close>

definition add_custom ::
  "('c, 't, 'f, 's) libs \<Rightarrow> string \<times> (string + 'c) \<Rightarrow> (string \<times> string) list \<Rightarrow> (string \<times> string) list" where
  "add_custom lib kv metadata =
     (case snd kv of
        Inl str \<Rightarrow> AList.update (fst kv) str metadata
      | Inr v \<Rightarrow> (case json_Marshal lib v of
                    Some bytes \<Rightarrow> AList.update (fst kv) bytes metadata
                  | None \<Rightarrow> metadata))"

definition serializeMemory ::
  "('c, 't, 'f, 's) libs \<Rightarrow> ('c, 't, 'f list) Memory \<Rightarrow> string + StoredMemory" where
  "serializeMemory lib mem =
     (case json_Marshal lib (Content mem) of
        None \<Rightarrow> Inl ''marshal content: error''
      | Some contentBytes \<Rightarrow>
          (let metadata = [(''type'', Type mem), (''owner_id'', OwnerID mem),
                           (''conversation_id'', ConversationID mem),
                           (''created_at'', time_Format lib (CreatedAt mem))];
               metadata = fold (add_custom lib) (Metadata mem) metadata
           in Inr \<lparr>sm_Type = Type mem, ContentJSON = contentBytes, sm_Metadata = metadata\<rparr>))"

definition Store ::
  "('c, 't, 'f, 's) libs \<Rightarrow> 'f ChromemStore \<Rightarrow> ('c, 't, 'f list) Memory
     \<Rightarrow> 'f ChromemStore \<times> (string + unit)" where
  "Store lib s mem =
     (case getOrCreateCollection s (OwnerID mem) of
        Inl err \<Rightarrow> (s, Inl err)
      | Inr (s, col) \<Rightarrow>
          (case serializeMemory lib mem of
             Inl err \<Rightarrow> (s, Inl (''serialize memory: '' @ err))
           | Inr stored \<Rightarrow>
               (let doc = \<lparr>doc_ID = ID mem, doc_Metadata = sm_Metadata stored,
                           doc_Embedding = Embedding mem, doc_Content = ContentJSON stored\<rparr>
                in case AddDocument lib (objects s ! col) doc of
                     Inl err \<Rightarrow> (s, Inl (''add document: '' @ err))
                   | Inr c \<Rightarrow> (s\<lparr>objects := (objects s)[col := c]\<rparr>, Inr ()))))"

text \<open>\<^verbatim>\<open>contains\<close> and \<^verbatim>\<open>containsHelper\<close>: the substring test the store writes out by hand.\<close>

function containsHelper_from :: "string \<Rightarrow> string \<Rightarrow> nat \<Rightarrow> bool" where
  "containsHelper_from s substr i =
     (if int i \<le> int (length s) - int (length substr)
      then (if take (length substr) (drop i s) = substr then True
            else containsHelper_from s substr (i + 1))
      else False)"
  by pat_completeness auto
termination
  by (relation "measure (\<lambda>(s, substr, i). nat (int (length s) - int (length substr) + 1 - int i))")
    auto

definition containsHelper :: "string \<Rightarrow> string \<Rightarrow> bool" where
  "containsHelper s substr = containsHelper_from s substr 0"

definition contains :: "string \<Rightarrow> string \<Rightarrow> bool" where
  "contains s substr =
     (length s \<ge> length substr \<and>
      (s = substr \<or> length substr = 0 \<or>
       (length s > 0 \<and> length substr > 0 \<and> containsHelper s substr)))"

definition isInsufficientDocsError :: "string \<Rightarrow> bool" where
  "isInsufficientDocsError errStr =
     (contains errStr ''nResults must be'' \<or> contains errStr ''number of documents'')"

text \<open>
  \<^verbatim>\<open>TraceMemory\<close> of package memory, the concrete memory the store hands back, with its
  fields in the order of the struct. The values of the metadata map are of type
  \<^verbatim>\<open>interface{}\<close>: strings (\<open>Inl\<close>) or other values (\<open>Inr\<close>), as in \<^verbatim>\<open>Memory\<close>. The
  importance is a \<^verbatim>\<open>float64\<close>; the one value written here, \<^verbatim>\<open>0.5\<close>, is the number one half.
\<close>

record ('c, 't, 'f) TraceMemory =
  tm_id :: string
  tm_ownerID :: string
  tm_conversationID :: string
  tm_createdAt :: 't
  tm_embedding :: "'f list"
  tm_importance :: real
  tm_metadata :: "(string \<times> (string + 'c)) list"
  tm_Thought :: string
  tm_Action :: string
  tm_Observation :: string
  tm_Success :: bool

text \<open>\<^verbatim>\<open>NewTraceMemoryFromStorage\<close>: the stored data, and the default importance.\<close>

definition NewTraceMemoryFromStorage ::
  "string \<Rightarrow> string \<Rightarrow> string \<Rightarrow> 't \<Rightarrow> 'f list \<Rightarrow> string \<Rightarrow> string \<Rightarrow> string \<Rightarrow> bool
     \<Rightarrow> (string \<times> (string + 'c)) list \<Rightarrow> ('c, 't, 'f) TraceMemory" where
  "NewTraceMemoryFromStorage id' ownerID conversationID createdAt embedding thought action
       observation success metadata =
     \<lparr>tm_id = id', tm_ownerID = ownerID, tm_conversationID = conversationID,
      tm_createdAt = createdAt, tm_embedding = embedding, tm_importance = 0.5,
      tm_metadata = metadata, tm_Thought = thought, tm_Action = action,
      tm_Observation = observation, tm_Success = success\<rparr>"

text \<open>The methods \<^verbatim>\<open>ID\<close>, \<^verbatim>\<open>OwnerID\<close> and \<^verbatim>\<open>Type\<close> of a \<^verbatim>\<open>TraceMemory\<close>.\<close>

definition TraceMemory_ID :: "('c, 't, 'f) TraceMemory \<Rightarrow> string" where
  "TraceMemory_ID t = tm_id t"

definition TraceMemory_OwnerID :: "('c, 't, 'f) TraceMemory \<Rightarrow> string" where
  "TraceMemory_OwnerID t = tm_ownerID t"

definition TraceMemory_Type :: "('c, 't, 'f) TraceMemory \<Rightarrow> string" where
  "TraceMemory_Type t = ''trace''"

text \<open>The type assertions \<^verbatim>\<open>content[k].(string)\<close> and \<^verbatim>\<open>content[k].(bool)\<close>, with the zero value on failure.\<close>

definition as_string :: "json option \<Rightarrow> string" where
  "as_string v = (case v of Some (JString s) \<Rightarrow> s | _ \<Rightarrow> '''')"

definition as_bool :: "json option \<Rightarrow> bool" where
  "as_bool v = (case v of Some (JBool b) \<Rightarrow> b | _ \<Rightarrow> False)"

text \<open>
  \<^verbatim>\<open>deserializeTraceMemory\<close>. The metadata of the memory are the entries of the document's
  metadata outside the four fixed keys, each value a string.
\<close>

definition deserializeTraceMemory ::
  "('c, 't, 'f, 's) libs \<Rightarrow> 'f Document \<Rightarrow> string + ('c, 't, 'f) TraceMemory" where
  "deserializeTraceMemory lib result =
     (case json_Unmarshal lib (doc_Content result) of
        None \<Rightarrow> Inl ''unmarshal content: error''
      | Some content \<Rightarrow>
          (let thought = as_string (content ''thought'');
               action = as_string (content ''action'');
               observation = as_string (content ''observation'');
               success = as_bool (content ''success'');
               createdAt = time_Parse lib (lookup_str (doc_Metadata result) ''created_at'');
               metadata = map (\<lambda>(k, v). (k, Inl v))
                            (filter (\<lambda>(k, v). k \<noteq> ''type'' \<and> k \<noteq> ''owner_id'' \<and>
                                               k \<noteq> ''conversation_id'' \<and> k \<noteq> ''created_at'')
                               (doc_Metadata result))
           in Inr (NewTraceMemoryFromStorage (doc_ID result)
                     (lookup_str (doc_Metadata result) ''owner_id'')
                     (lookup_str (doc_Metadata result) ''conversation_id'')
                     createdAt (doc_Embedding result) thought action observation success metadata)))"

definition deserializeMemory ::
  "('c, 't, 'f, 's) libs \<Rightarrow> 'f Document \<Rightarrow> string + ('c, 't, 'f) TraceMemory" where
  "deserializeMemory lib result =
     (let memType = lookup_str (doc_Metadata result) ''type''
      in if memType = ''trace'' then deserializeTraceMemory lib result
         else Inl (''unknown memory type: '' @ memType))"

text \<open>
  The retry loop of \<^verbatim>\<open>Query\<close>: \<open>Inl\<close> is the error returned, \<open>Inr\<close> the raw results the loop
  leaves (none when the loop body never runs, and none where the source returns
  \<^verbatim>\<open>nil, nil\<close> for an empty collection).
\<close>

function Query_retry ::
  "('c, 't, 'f, 's::linorder) libs \<Rightarrow> 'f collection \<Rightarrow> 'f list \<Rightarrow> (string \<times> string) list \<Rightarrow> int
     \<Rightarrow> string + 'f Document list" where
  "Query_retry lib col embedding wh currentLimit =
     (if currentLimit \<ge> 1 then
        (case QueryEmbedding lib col embedding currentLimit wh of
           Inr results \<Rightarrow> Inr results
         | Inl err \<Rightarrow>
             if isInsufficientDocsError err then
               (if currentLimit = 1 then Inr []
                else Query_retry lib col embedding wh (currentLimit - 1))
             else Inl (''chromem query: '' @ err))
      else Inr [])"
  by pat_completeness auto
termination
  by (relation "measure (\<lambda>(lib, col, embedding, wh, currentLimit). nat currentLimit)") auto

text \<open>The conversion loop of \<^verbatim>\<open>Query\<close>: results that do not deserialize are skipped.\<close>

fun convert_results ::
  "('c, 't, 'f, 's) libs \<Rightarrow> 'f Document list \<Rightarrow> ('c, 't, 'f) TraceMemory list \<Rightarrow> ('c, 't, 'f) TraceMemory list" where
  "convert_results lib [] memories = memories"
| "convert_results lib (result # results) memories =
     (case deserializeMemory lib result of
        Inl err \<Rightarrow> convert_results lib results memories
      | Inr mem \<Rightarrow> convert_results lib results (memories @ [mem]))"

definition Query ::
  "('c, 't, 'f, 's::linorder) libs \<Rightarrow> 'f ChromemStore \<Rightarrow> string \<Rightarrow> 'f list \<Rightarrow> int
     \<Rightarrow> 'f ChromemStore \<times> (string + ('c, 't, 'f) TraceMemory list)" where
  "Query lib s userID embedding limit =
     (case getOrCreateCollection s userID of
        Inl err \<Rightarrow> (s, Inl err)
      | Inr (s, col) \<Rightarrow>
          (let wh = [(''owner_id'', userID)]
           in case Query_retry lib (objects s ! col) embedding wh limit of
                Inl err \<Rightarrow> (s, Inl err)
              | Inr results \<Rightarrow> (s, Inr (convert_results lib results []))))"

subsection \<open>Histories of store operations\<close>

datatype ('c, 't, 'f) store_op =
  OpStore "('c, 't, 'f list) Memory"
| OpQuery string "'f list" int

fun apply_store_op ::
  "('c, 't, 'f, 's::linorder) libs \<Rightarrow> 'f ChromemStore \<Rightarrow> ('c, 't, 'f) store_op \<Rightarrow> 'f ChromemStore" where
  "apply_store_op lib s (OpStore mem) = fst (Store lib s mem)"
| "apply_store_op lib s (OpQuery userID embedding limit) = fst (Query lib s userID embedding limit)"

definition run_store_ops ::
  "('c, 't, 'f, 's::linorder) libs \<Rightarrow> ('c, 't, 'f) store_op list \<Rightarrow> 'f ChromemStore" where
  "run_store_ops lib ops = foldl (apply_store_op lib) New ops"

text \<open>The document that \<^verbatim>\<open>Store\<close> hands to chromem-go for a memory, up to the stored embedding.\<close>

definition stored_doc :: "('c, 't, 'f, 's) libs \<Rightarrow> ('c, 't, 'f list) Memory \<Rightarrow> 'f Document \<Rightarrow> bool" where
  "stored_doc lib mem d =
     (case serializeMemory lib mem of
        Inl err \<Rightarrow> False
      | Inr stored \<Rightarrow> doc_ID d = ID mem \<and> doc_Metadata d = sm_Metadata stored \<and>
                      doc_Content d = ContentJSON stored)"

text \<open>
  What holds of every store reached by storing the memories \<open>M\<close>: the store's map sends
  users to allocated collections, different users to different collections, and every
  document in a user's collection was stored for a memory of that owner.
\<close>

definition store_inv ::
  "('c, 't, 'f, 's) libs \<Rightarrow> ('c, 't, 'f list) Memory set \<Rightarrow> 'f ChromemStore \<Rightarrow> bool" where
  "store_inv lib M s =
     ((\<forall>u a. map_of (collections s) u = Some a \<longrightarrow> a < length (objects s)) \<and>
      (\<forall>u v a. map_of (collections s) u = Some a \<longrightarrow> map_of (collections s) v = Some a \<longrightarrow> u = v) \<and>
      (\<forall>u a d. map_of (collections s) u = Some a \<longrightarrow> d \<in> snd ` set (objects s ! a) \<longrightarrow>
         (\<exists>mem\<in>M. OwnerID mem = u \<and> stored_doc lib mem d)))"

text \<open>
  A concrete instance. The content of a trace memory is the map of its four content
  fields, and its JSON text is what \<^verbatim>\<open>json.Marshal\<close> writes for that map (keys in order,
  no character that needs escaping); encoding and decoding are taken on the contents of
  this instance and are errors elsewhere. Times are their RFC 3339 text. Vector components
  are real numbers with chromem-go's formulas; on the vectors of this instance, whose
  components are 0, 1 and 2, they are what the \<^verbatim>\<open>float32\<close> operations compute. The fallback
  embedding function is never called, as every memory brings its embedding.
\<close>

definition ex_content :: "string \<Rightarrow> string \<Rightarrow> string \<Rightarrow> (string \<times> json) list" where
  "ex_content thought action observation =
     [(''action'', JString action), (''observation'', JString observation),
      (''success'', JBool True), (''thought'', JString thought)]"

definition ex_content_json :: "string \<Rightarrow> string \<Rightarrow> string \<Rightarrow> string" where
  "ex_content_json thought action observation =
     ''{\"action\":\"'' @ action @ ''\",\"observation\":\"'' @ observation @
     ''\",\"success\":true,\"thought\":\"'' @ thought @ ''\"}''"

definition ex_contents :: "(string \<times> string \<times> string) list" where
  "ex_contents = [(''paid bob'', ''send_money'', ''sent''),
                  (''paid carol'', ''send_money'', ''sent''),
                  (''shared'', ''get_rates'', ''ok''),
                  (''asked balance'', ''get_balance'', ''5 USDC'')]"

definition sum_squares :: "real list \<Rightarrow> real" where
  "sum_squares v = sum_list (map (\<lambda>x. x * x) v)"

definition ex_lib :: "((string \<times> json) list, string, real, real) libs" where
  "ex_lib =
     \<lparr>json_Marshal =
        map_of (map (\<lambda>(t, a, ob). (ex_content t a ob, ex_content_json t a ob)) ex_contents),
      json_Unmarshal =
        (\<lambda>s. map_option map_of
                (map_of (map (\<lambda>(t, a, ob). (ex_content_json t a ob, ex_content t a ob)) ex_contents) s)),
      time_Format = (\<lambda>t. t), time_Parse = (\<lambda>s. s),
      isNormalized = (\<lambda>v. \<bar>sqrt (sum_squares v) - 1\<bar> < 1 / 1000000),
      normalizeVector = (\<lambda>v. map (\<lambda>x. x / sqrt (sum_squares v)) v),
      dotProduct = (\<lambda>a b. sum_list (map2 (*) a b)),
      default_embedding = (\<lambda>s. None)\<rparr>"

definition ex_memory ::
  "string \<Rightarrow> string \<Rightarrow> string \<times> string \<times> string \<Rightarrow> real list
     \<Rightarrow> ((string \<times> json) list, string, real list) Memory" where
  "ex_memory i owner c e =
     (case c of (thought, action, observation) \<Rightarrow>
        \<lparr>ID = i, OwnerID = owner, ConversationID = ''conv'', Type = ''trace'',
         Content = ex_content thought action observation,
         Metadata = [(''confirmed'', Inl ''true'')], CreatedAt = ''2026-01-01T00:00:00Z'',
         Format = (\<lambda>fc. thought), Embedding = e\<rparr>)"

text \<open>
  Alice stores two memories and Bob one; a further memory is stored without an owner. The
  embedding of Alice's second memory is not normalised when it is stored.
\<close>

definition ex_ops :: "((string \<times> json) list, string, real) store_op list" where
  "ex_ops = [OpStore (ex_memory ''a1'' ''alice'' (''paid bob'', ''send_money'', ''sent'') [1, 0]),
             OpStore (ex_memory ''b1'' ''bob'' (''paid carol'', ''send_money'', ''sent'') [0, 1]),
             OpStore (ex_memory ''g1'' '''' (''shared'', ''get_rates'', ''ok'') [0, 1]),
             OpStore (ex_memory ''a2'' ''alice'' (''asked balance'', ''get_balance'', ''5 USDC'') [0, 2])]"

definition ex_trace_memory ::
  "string \<Rightarrow> string \<Rightarrow> string \<times> string \<times> string \<Rightarrow> real list
     \<Rightarrow> ((string \<times> json) list, string, real) TraceMemory" where
  "ex_trace_memory i owner c e =
     (case c of (thought, action, observation) \<Rightarrow>
        \<lparr>tm_id = i, tm_ownerID = owner, tm_conversationID = ''conv'',
         tm_createdAt = ''2026-01-01T00:00:00Z'', tm_embedding = e, tm_importance = 0.5,
         tm_metadata = [(''confirmed'', Inl ''true'')], tm_Thought = thought,
         tm_Action = action, tm_Observation = observation, tm_Success = True\<rparr>)"

section \<open>Agent loop engine: data (engine.go and the core types it uses)\<close>

text \<open>
  The \<^verbatim>\<open>Data\<close> of a tool result is an \<^verbatim>\<open>interface{}\<close>; \<^verbatim>\<open>formatObservation\<close> tells apart
  a \<^verbatim>\<open>map[string]interface{}\<close>, a string and everything else.
\<close>

datatype data = DataNil | DataMap "(string \<times> json) list" | DataString string | DataOther string

record ToolResult =
  Success :: bool
  Data :: data
  Error :: string

record ToolParams =
  tp_UserID :: string
  tp_Input :: string
  tp_ConfirmationID :: string
  tp_RequestID :: string

text \<open>
  The \<^verbatim>\<open>core.Tool\<close> interface as the record of its methods. \<^verbatim>\<open>Execute\<close> returns the pair
  \<^verbatim>\<open>(result, err)\<close>, either of which may be nil; a tool may have effects and need not be
  deterministic, so its outcome also depends on when it is called (the first argument, the
  run's count of interactions with the outside). \<^verbatim>\<open>FormatObservation\<close> is the optional
  interface that \<^verbatim>\<open>formatObservation\<close> looks for.
\<close>

record Tool =
  RequiresConfirmation :: bool
  Execute :: "nat \<Rightarrow> ToolParams \<Rightarrow> ToolResult option \<times> string option"
  GetSummary :: "string \<Rightarrow> string"
  FormatObservation :: "(ToolResult option \<Rightarrow> string option \<Rightarrow> string) option"

record Trace =
  trace_ID :: string
  trace_SessionID :: string
  TurnNumber :: int
  Thought :: string
  Action :: string
  ActionInput :: string
  Observation :: string
  trace_Success :: bool
  Timestamp :: int
  trace_Metadata :: "(string \<times> string) list"

record PendingAction =
  pa_ID :: string
  IdempotencyKey :: string
  pa_SessionID :: string
  pa_UserID :: string
  pa_Tool :: string
  pa_Input :: string
  pa_Thought :: string
  Summary :: string
  BlockID :: string
  pa_CreatedAt :: int
  ExpiresAt :: int

record ToolExecution =
  te_Tool :: string
  te_Input :: string
  te_Result :: data
  te_Error :: string
  DurationMs :: int

record TokenUsage =
  InputTokens :: int
  OutputTokens :: int

text \<open>A content block of a model response: text, a tool use \<open>(id, name, input)\<close>, or another type.\<close>

datatype block = TextBlock string | ToolUseBlock string string string | OtherBlock string

record Response =
  resp_Content :: "block list"
  usage_InputTokens :: int
  usage_OutputTokens :: int

record ToolResultBlock =
  trb_ToolUseID :: string
  trb_Content :: string
  trb_IsError :: bool

definition NewToolResultBlock :: "string \<Rightarrow> string \<Rightarrow> bool \<Rightarrow> ToolResultBlock" where
  "NewToolResultBlock toolUseID content isError =
     \<lparr>trb_ToolUseID = toolUseID, trb_Content = content, trb_IsError = isError\<rparr>"

datatype Message =
  MsgUser string
| MsgAssistantText string
| MsgAssistantResponse Response
| MsgToolResults "ToolResultBlock list"

record Limits =
  MaxTurns :: int
  CanConfirm :: bool
  Timeout :: int

record Context =
  ctx_UserID :: string
  ctx_ConversationID :: string
  ctx_Limits :: "Limits option"
  AuditParentID :: "string option"

record Input =
  in_UserMessage :: string
  in_Context :: "Context option"
  in_History :: "Message list"
  in_SystemPrompt :: string
  in_Model :: string
  in_MaxTokens :: int
  in_AgentName :: string
  in_AvailableTools :: "string list"
  in_StreamCallback :: bool

datatype OutputType = OutputComplete | OutputConfirmationNeeded | OutputError

text \<open>The errors that \<^verbatim>\<open>Run\<close> puts into an output, one constructor for each \<^verbatim>\<open>fmt.Errorf\<close>.\<close>

datatype run_error =
  GuardrailsCheckFailed string
| BlockedByGuardrails string
| TimedOut string
| ExceededMaximumTurns int
| ClaudeAPIError string

record Output =
  out_Type :: OutputType
  out_Text :: string
  out_PendingAction :: "PendingAction option"
  out_ToolsUsed :: "ToolExecution list"
  out_ResponseBlocks :: "block list"
  out_TokensUsed :: TokenUsage
  out_Error :: "run_error option"

record Request =
  req_Model :: string
  req_MaxTokens :: int
  req_Messages :: "Message list"
  req_System :: string
  req_Tools :: "string list"
  req_Streaming :: bool

record AuditEntry =
  ae_ID :: string
  ae_UserID :: string
  ae_SessionID :: string
  ae_RequestID :: string
  ae_ParentID :: "string option"
  ae_AgentName :: string
  ae_ToolName :: string
  ae_ToolInput :: string
  ae_ToolOutput :: string
  ae_Error :: "string option"
  ae_DurationMs :: int
  ae_IsWriteOp :: bool
  ae_Timestamp :: int

text \<open>
  What a run does to the outside, in order: calls of a tool's \<^verbatim>\<open>Execute\<close>, audit entries,
  the guardrails' \<^verbatim>\<open>RecordSuccess\<close>, the memory manager's \<^verbatim>\<open>RecordTraces\<close> and
  \<^verbatim>\<open>RecordConversation\<close>, and the closing call of the stream callback.
\<close>

datatype event =
  EvExecute string ToolParams
| EvAudit AuditEntry
| EvRecordSuccess string
| EvRecordTraces string "Trace list"
| EvRecordConversation string string string
| EvStreamDone

text \<open>
  The collaborators of the engine. \<^verbatim>\<open>Check\<close> returns an error or \<open>(Allowed, Warning)\<close>;
  \<^verbatim>\<open>Retrieve\<close> an error or the enrichment; the client an error or the model's response. Like
  a tool, each may answer differently at different moments (first argument).
\<close>

record Guardrails =
  Check :: "nat \<Rightarrow> string \<Rightarrow> string + (bool \<times> string)"

record Manager =
  mgr_Retrieve :: "nat \<Rightarrow> string \<Rightarrow> string \<Rightarrow> string + string"

record Engine =
  client :: "nat \<Rightarrow> Request \<Rightarrow> string + Response"
  registry :: "string \<rightharpoonup> Tool"
  guardrails :: "Guardrails option"
  audit :: bool
  memory :: "Manager option"

text \<open>
  The surroundings of a run: the cancellation state of the context, fresh UUIDs, the clock,
  the functions of the standard library that act on JSON text and strings, and the parts of
  the engine package that are not among the sources (the idempotency key, the conversion
  of the registry to the provider's tool list, the default system prompt). Those that are
  not functions of their arguments alone take the moment of the call.
  \<^verbatim>\<open>json_Unmarshal_thought\<close> is \<^verbatim>\<open>json.Unmarshal\<close> into the struct with the single field
  \<^verbatim>\<open>thought\<close>: an error message or the field's value.
\<close>

record World =
  ctx_Err :: "nat \<Rightarrow> string option"
  uuid_New :: "nat \<Rightarrow> string"
  time_Now :: "nat \<Rightarrow> int"
  time_Since_ms :: "nat \<Rightarrow> int"
  json_Unmarshal_thought :: "string \<Rightarrow> string + string"
  json_Marshal_raw :: "string \<Rightarrow> string"
  json_Marshal_data :: "data \<Rightarrow> string"
  Sprintf_v :: "data \<Rightarrow> string"
  strings_TrimSpace :: "string \<Rightarrow> string"
  strings_ToLower :: "string \<Rightarrow> string"
  GenerateIdempotencyKey :: "string \<Rightarrow> string \<Rightarrow> string \<Rightarrow> string"
  ToAPITools :: "string list"
  ToAPIToolsFiltered :: "string list \<Rightarrow> string list"
  DefaultSystemPrompt :: string

text \<open>
  The state of a run: the count of interactions with the outside so far, the effects so
  far, the accumulated token usage, and the session.

  Modelled from the spec: the \<^verbatim>\<open>Session\<close> type of the engine package is not among the
  sources. By the specification a session holds an id, the owner, an append-only message
  log and an append-only trace list; \<^verbatim>\<open>RestoreHistory\<close> replays a prior log verbatim and
  produces no traces; the \<^verbatim>\<open>Add...\<close> methods append one message each. The turn counter is
  the loop variable \<open>turn\<close> of \<open>Run_loop\<close> below.
\<close>

record run_state =
  clock :: nat
  events :: "event list"
  totalTokens :: TokenUsage
  sess_ID :: string
  sess_UserID :: string
  sess_Messages :: "Message list"
  Traces :: "Trace list"

definition init_state :: run_state where
  "init_state = \<lparr>clock = 0, events = [], totalTokens = \<lparr>InputTokens = 0, OutputTokens = 0\<rparr>,
                  sess_ID = '''', sess_UserID = '''', sess_Messages = [], Traces = []\<rparr>"

definition NewSession :: "World \<Rightarrow> string \<Rightarrow> string \<Rightarrow> run_state \<Rightarrow> run_state" where
  "NewSession w userID conversationID st =
     st\<lparr>clock := clock st + 1, sess_ID := uuid_New w (clock st), sess_UserID := userID,
        sess_Messages := [], Traces := []\<rparr>"

definition RestoreHistory :: "Message list \<Rightarrow> run_state \<Rightarrow> run_state" where
  "RestoreHistory history st = st\<lparr>sess_Messages := sess_Messages st @ history\<rparr>"

definition AddMessage :: "Message \<Rightarrow> run_state \<Rightarrow> run_state" where
  "AddMessage m st = st\<lparr>sess_Messages := sess_Messages st @ [m]\<rparr>"

definition AddTrace :: "Trace \<Rightarrow> run_state \<Rightarrow> run_state" where
  "AddTrace trace st = st\<lparr>Traces := Traces st @ [trace]\<rparr>"

definition emit :: "event \<Rightarrow> run_state \<Rightarrow> run_state" where
  "emit e st = st\<lparr>events := events st @ [e]\<rparr>"

definition advance :: "nat \<Rightarrow> run_state \<Rightarrow> run_state" where
  "advance n st = st\<lparr>clock := clock st + n\<rparr>"

subsection \<open>Observations and error categories\<close>

fun has_prefix :: "string \<Rightarrow> string \<Rightarrow> bool" where
  "has_prefix s [] = True"
| "has_prefix [] (c # p) = False"
| "has_prefix (d # s) (c # p) = (d = c \<and> has_prefix s p)"

fun strings_Contains :: "string \<Rightarrow> string \<Rightarrow> bool" where
  "strings_Contains [] substr = (substr = [])"
| "strings_Contains (c # s) substr = (has_prefix (c # s) substr \<or> strings_Contains s substr)"

definition formatObservation :: "World \<Rightarrow> Tool \<Rightarrow> ToolResult option \<Rightarrow> string option \<Rightarrow> string" where
  "formatObservation w tool result err =
     (case FormatObservation tool of
        Some formatter \<Rightarrow> formatter result err
      | None \<Rightarrow>
          (case err of
             Some e \<Rightarrow> ''Error: '' @ e
           | None \<Rightarrow>
               (case result of
                  None \<Rightarrow> ''No result returned''
                | Some r \<Rightarrow>
                    if \<not> Success r then ''Failed: '' @ Error r
                    else (case Data r of
                            DataMap v \<Rightarrow>
                              (case map_of v ''message'' of
                                 Some (JString msg) \<Rightarrow> msg
                               | _ \<Rightarrow> (case map_of v ''status'' of
                                         Some (JString status) \<Rightarrow> ''Success: '' @ status
                                       | _ \<Rightarrow> json_Marshal_data w (DataMap v)))
                          | DataString v \<Rightarrow> v
                          | v \<Rightarrow> ''Success: '' @ Sprintf_v w v))))"

definition categorizeError :: "World \<Rightarrow> string \<Rightarrow> string" where
  "categorizeError w errMsg =
     (if errMsg = '''' then ''unknown''
      else
        let errLower = strings_ToLower w errMsg
        in if strings_Contains errLower ''insufficient'' \<or> strings_Contains errLower ''not enough''
             then ''insufficient_balance''
           else if strings_Contains errLower ''not found'' \<or> strings_Contains errLower ''does not exist''
             then ''not_found''
           else if strings_Contains errLower ''invalid'' \<or> strings_Contains errLower ''malformed''
             then ''invalid_input''
           else if strings_Contains errLower ''unauthorized'' \<or> strings_Contains errLower ''forbidden''
             then ''permission_denied''
           else if strings_Contains errLower ''timeout'' \<or> strings_Contains errLower ''deadline''
             then ''timeout''
           else if strings_Contains errLower ''rate limit'' \<or> strings_Contains errLower ''too many''
             then ''rate_limit''
           else if strings_Contains errLower ''network'' \<or> strings_Contains errLower ''connection''
             then ''network_error''
           else ''unknown'')"

definition preventionMap :: "(string \<times> string) list" where
  "preventionMap =
     [(''send_money:insufficient_balance'', ''Check balance with get_balance before attempting transfer''),
      (''send_money:not_found'', ''Verify recipient exists with search_users before transfer''),
      (''send_money:invalid_input'', ''Validate amount is positive and recipient ID format is correct''),
      (''deposit_savings:insufficient_balance'', ''Check wallet balance before depositing to savings''),
      (''withdraw_savings:insufficient_balance'',
         ''Check savings balance with get_savings_balance before withdrawal'')]"

definition generatePrevention :: "string \<Rightarrow> string \<Rightarrow> string" where
  "generatePrevention action errorType =
     (case map_of preventionMap (action @ '':'' @ errorType) of
        Some prevention \<Rightarrow> prevention
      | None \<Rightarrow>
          if errorType = ''insufficient_balance'' then ''Check balance before attempting operation''
          else if errorType = ''not_found'' then ''Verify the entity exists before referencing it''
          else if errorType = ''invalid_input'' then ''Validate input parameters before submission''
          else if errorType = ''rate_limit'' then ''Implement retry with backoff''
          else if errorType = ''timeout'' then ''Retry operation with timeout handling''
          else ''Review error message and adjust approach accordingly'')"

section \<open>Agent loop engine: \<^verbatim>\<open>Run\<close> and \<^verbatim>\<open>RunConfirmedAction\<close>\<close>

text \<open>
  The variables of the loop over the content blocks of one response. \<open>panicked\<close> is set
  where the Go code dereferences a nil \<^verbatim>\<open>*ToolResult\<close>; nothing runs after that.
\<close>

record block_state =
  toolResults :: "ToolResultBlock list"
  textResponse :: string
  toolsUsed :: "ToolExecution list"
  confirmationNeeded :: "PendingAction option"
  panicked :: bool

definition empty_block_state :: block_state where
  "empty_block_state = \<lparr>toolResults = [], textResponse = '''', toolsUsed = [],
                          confirmationNeeded = None, panicked = False\<rparr>"

definition add_tool_result :: "ToolResultBlock \<Rightarrow> block_state \<Rightarrow> block_state" where
  "add_tool_result r bs = bs\<lparr>toolResults := toolResults bs @ [r]\<rparr>"

text \<open>What stays the same over the turns of one run.\<close>

record run_config =
  cfg_model :: string
  cfg_maxTokens :: int
  cfg_systemPrompt :: string
  cfg_maxTurns :: int
  cfg_canConfirm :: bool
  cfg_apiTools :: "string list"
  cfg_agentName :: string
  cfg_auditParentID :: "string option"

definition missing_thought_message :: string where
  "missing_thought_message =
     ''Error: Missing or empty \"thought\" field. Write operations require explicit reasoning.'' @
     [CHR 0x0A] @ ''Please explain:'' @ [CHR 0x0A] @
     ''1. What you've verified (e.g., \"Balance is $500, sufficient for $100 transfer\")'' @
     [CHR 0x0A] @
     ''2. Why you're taking this action (e.g., \"User requested transfer to Alice\")'' @
     [CHR 0x0A] @
     ''3. What you expect to happen (e.g., \"This will complete the payment\")''"

text \<open>The trace created for a tool use, before the tool is looked at (lines 357 to 367).\<close>

definition new_trace :: "World \<Rightarrow> run_state \<Rightarrow> int \<Rightarrow> string \<Rightarrow> string \<Rightarrow> string \<Rightarrow> Trace" where
  "new_trace w st turn thought toolName inputBytes =
     \<lparr>trace_ID = uuid_New w (clock st), trace_SessionID = sess_ID st, TurnNumber = turn,
      Thought = thought, Action = toolName, ActionInput = inputBytes, Observation = '''',
      trace_Success = False, Timestamp = time_Now w (clock st + 1), trace_Metadata = []\<rparr>"

text \<open>A write operation when the limits do not allow confirmation (lines 371 to 385).\<close>

definition confirmation_blocked ::
  "string \<Rightarrow> Trace \<Rightarrow> run_state \<Rightarrow> block_state \<Rightarrow> run_state \<times> block_state" where
  "confirmation_blocked blockID trace st bs =
     (let trace = trace\<lparr>trace_Success := False,
                        Observation := ''Operation blocked: confirmation not allowed in this context'',
                        trace_Metadata := AList.update ''error'' ''confirmation_disabled''
                                            (trace_Metadata trace)\<rparr>;
          st = AddTrace trace st
      in (st, add_tool_result
                (NewToolResultBlock blockID ''error: this operation requires user confirmation'' True)
                bs))"

text \<open>A write operation that suspends the run (lines 387 to 409).\<close>

definition confirmation_pending ::
  "World \<Rightarrow> Tool \<Rightarrow> string \<Rightarrow> string \<Rightarrow> string \<Rightarrow> string \<Rightarrow> Trace \<Rightarrow> run_state \<Rightarrow> block_state
     \<Rightarrow> run_state \<times> block_state" where
  "confirmation_pending w tool blockID toolName inputBytes thought trace st bs =
     (let pending = \<lparr>pa_ID = uuid_New w (clock st),
                      IdempotencyKey = GenerateIdempotencyKey w (sess_UserID st) toolName inputBytes,
                      pa_SessionID = sess_ID st, pa_UserID = sess_UserID st, pa_Tool = toolName,
                      pa_Input = inputBytes, pa_Thought = thought,
                      Summary = GetSummary tool inputBytes, BlockID = blockID,
                      pa_CreatedAt = time_Now w (clock st + 1),
                      ExpiresAt = time_Now w (clock st + 2) + 600\<rparr>;
          st = advance 3 st;
          trace = trace\<lparr>trace_Success := False, Observation := ''Awaiting user confirmation'',
                        trace_Metadata :=
                          AList.update ''status'' ''pending_confirmation''
                            (AList.update ''confirmation_id'' (pa_ID pending) (trace_Metadata trace))\<rparr>;
          st = AddTrace trace st
      in (st, bs\<lparr>confirmationNeeded := Some pending\<rparr>))"

text \<open>
  The failure context of a trace (lines 432 to 445 and 645 to 655): the error message, its
  category and the prevention hint.
\<close>

definition failure_metadata ::
  "World \<Rightarrow> string \<Rightarrow> ToolResult option \<Rightarrow> string option \<Rightarrow> (string \<times> string) list
     \<Rightarrow> (string \<times> string) list" where
  "failure_metadata w toolName result err metadata =
     (let metadata =
            (case err of
               Some e \<Rightarrow> AList.update ''error'' e metadata
             | None \<Rightarrow> (case result of
                          Some r \<Rightarrow> if \<not> Success r then AList.update ''error'' (Error r) metadata
                                    else metadata
                        | None \<Rightarrow> metadata));
          errorType = categorizeError w (lookup_str metadata ''error'');
          metadata = AList.update ''error_type'' errorType metadata
      in AList.update ''prevention'' (generatePrevention toolName errorType) metadata)"

definition execution_succeeded :: "ToolResult option \<Rightarrow> string option \<Rightarrow> bool" where
  "execution_succeeded result err =
     (err = None \<and> (case result of None \<Rightarrow> False | Some r \<Rightarrow> Success r))"

text \<open>Observing (lines 428 to 445): the trace completed from the outcome of \<^verbatim>\<open>Execute\<close>.\<close>

definition observed_trace ::
  "World \<Rightarrow> Tool \<Rightarrow> string \<Rightarrow> ToolResult option \<Rightarrow> string option \<Rightarrow> Trace \<Rightarrow> Trace" where
  "observed_trace w tool toolName result err trace =
     (let trace = trace\<lparr>trace_Success := execution_succeeded result err,
                        Observation := formatObservation w tool result err\<rparr>
      in if \<not> trace_Success trace then
           trace\<lparr>trace_Metadata := failure_metadata w toolName result err (trace_Metadata trace)\<rparr>
         else trace)"

definition execution_error :: "ToolResult option \<Rightarrow> string option \<Rightarrow> ToolExecution \<Rightarrow> ToolExecution" where
  "execution_error result err execution =
     (case err of
        Some e \<Rightarrow> execution\<lparr>te_Error := e\<rparr>
      | None \<Rightarrow> (case result of
                   Some r \<Rightarrow> if \<not> Success r then execution\<lparr>te_Error := Error r\<rparr> else execution
                 | None \<Rightarrow> execution))"

text \<open>The audit entry of a tool call (lines 454 to 482).\<close>

definition audit_entry ::
  "World \<Rightarrow> run_config \<Rightarrow> Tool \<Rightarrow> string \<Rightarrow> string \<Rightarrow> ToolResult option \<Rightarrow> string option \<Rightarrow> int
     \<Rightarrow> int \<Rightarrow> run_state \<Rightarrow> AuditEntry" where
  "audit_entry w cfg tool toolName inputBytes result err durationMs startTime st =
     \<lparr>ae_ID = uuid_New w (clock st), ae_UserID = sess_UserID st,
      ae_SessionID = sess_ID st, ae_RequestID = sess_ID st,
      ae_ParentID = cfg_auditParentID cfg, ae_AgentName = cfg_agentName cfg,
      ae_ToolName = toolName, ae_ToolInput = inputBytes,
      ae_ToolOutput = (case result of None \<Rightarrow> '''' | Some r \<Rightarrow> json_Marshal_data w (Data r)),
      ae_Error = (case err of
                    Some e \<Rightarrow> Some e
                  | None \<Rightarrow> (case result of
                               Some r \<Rightarrow> if Error r \<noteq> '''' then Some (Error r) else None
                             | None \<Rightarrow> None)),
      ae_DurationMs = durationMs, ae_IsWriteOp = RequiresConfirmation tool,
      ae_Timestamp = startTime\<rparr>"

text \<open>
  The tool result for the model (lines 485 to 500). With no error and no result the code
  reads \<^verbatim>\<open>result.Data\<close> through the nil pointer.
\<close>

definition read_only_tool_result ::
  "World \<Rightarrow> string \<Rightarrow> ToolResult option \<Rightarrow> string option \<Rightarrow> ToolExecution \<Rightarrow> block_state
     \<Rightarrow> block_state" where
  "read_only_tool_result w blockID result err execution bs =
     (case err of
        Some e \<Rightarrow>
          (add_tool_result (NewToolResultBlock blockID e True) bs)
            \<lparr>toolsUsed := toolsUsed bs @ [execution]\<rparr>
      | None \<Rightarrow>
          (case result of
             None \<Rightarrow> bs\<lparr>panicked := True\<rparr>
           | Some r \<Rightarrow>
               if \<not> Success r then
                 (add_tool_result (NewToolResultBlock blockID (Error r) True) bs)
                   \<lparr>toolsUsed := toolsUsed bs @ [execution]\<rparr>
               else
                 (add_tool_result (NewToolResultBlock blockID (json_Marshal_data w (Data r)) False) bs)
                   \<lparr>toolsUsed := toolsUsed bs @ [execution\<lparr>te_Result := Data r\<rparr>]\<rparr>))"

text \<open>A read-only tool: act, observe, audit, and build the tool result (lines 412 to 500).\<close>

definition execute_read_only ::
  "Engine \<Rightarrow> World \<Rightarrow> run_config \<Rightarrow> Tool \<Rightarrow> string \<Rightarrow> string \<Rightarrow> string \<Rightarrow> string \<Rightarrow> Trace
     \<Rightarrow> run_state \<Rightarrow> block_state \<Rightarrow> run_state \<times> block_state" where
  "execute_read_only eng w cfg tool blockID toolName toolInput inputBytes trace st bs =
     (let startTime = time_Now w (clock st);
          params = \<lparr>tp_UserID = sess_UserID st, tp_Input = inputBytes, tp_ConfirmationID = '''',
                    tp_RequestID = sess_ID st\<rparr>;
          (result, err) = Execute tool (clock st + 1) params;
          durationMs = time_Since_ms w (clock st + 2);
          st = emit (EvExecute toolName params) (advance 3 st);
          execution = \<lparr>te_Tool = toolName, te_Input = toolInput, te_Result = DataNil,
                       te_Error = '''', DurationMs = durationMs\<rparr>;
          trace = observed_trace w tool toolName result err trace;
          execution = (if \<not> trace_Success trace then execution_error result err execution
                       else execution);
          st = AddTrace trace st;
          st = (if audit eng then
                  emit (EvAudit (audit_entry w cfg tool toolName inputBytes result err durationMs
                                   startTime st))
                    (advance 1 st)
                else st)
      in (st, read_only_tool_result w blockID result err execution bs))"

text \<open>The \<^verbatim>\<open>tool_use\<close> case of the loop over the blocks (lines 312 to 501).\<close>

definition process_tool_use ::
  "Engine \<Rightarrow> World \<Rightarrow> run_config \<Rightarrow> int \<Rightarrow> string \<Rightarrow> string \<Rightarrow> string \<Rightarrow> run_state \<Rightarrow> block_state
     \<Rightarrow> run_state \<times> block_state" where
  "process_tool_use eng w cfg turn blockID toolName toolInput st bs =
     (case json_Unmarshal_thought w toolInput of
        Inl err \<Rightarrow>
          (st, add_tool_result (NewToolResultBlock blockID (''invalid tool input JSON: '' @ err) True) bs)
      | Inr baseInput_Thought \<Rightarrow>
          (let thought = strings_TrimSpace w baseInput_Thought
           in case registry eng toolName of
                None \<Rightarrow>
                  (st, add_tool_result (NewToolResultBlock blockID (''unknown tool: '' @ toolName) True) bs)
              | Some tool \<Rightarrow>
                  if RequiresConfirmation tool \<and> thought = '''' then
                    (st, add_tool_result (NewToolResultBlock blockID missing_thought_message True) bs)
                  else
                    (let inputBytes = json_Marshal_raw w toolInput;
                         trace = new_trace w st turn thought toolName inputBytes;
                         st = advance 2 st
                     in if RequiresConfirmation tool then
                          (if \<not> cfg_canConfirm cfg then confirmation_blocked blockID trace st bs
                           else confirmation_pending w tool blockID toolName inputBytes thought trace st bs)
                        else execute_read_only eng w cfg tool blockID toolName toolInput inputBytes
                               trace st bs)))"

definition process_block ::
  "Engine \<Rightarrow> World \<Rightarrow> run_config \<Rightarrow> int \<Rightarrow> block \<Rightarrow> run_state \<Rightarrow> block_state
     \<Rightarrow> run_state \<times> block_state" where
  "process_block eng w cfg turn b st bs =
     (case b of
        TextBlock text \<Rightarrow> (st, bs\<lparr>textResponse := textResponse bs @ text\<rparr>)
      | ToolUseBlock blockID toolName toolInput \<Rightarrow>
          process_tool_use eng w cfg turn blockID toolName toolInput st bs
      | OtherBlock ty \<Rightarrow> (st, bs))"

text \<open>
  The loop over the blocks of a response: it ends early when a confirmation is needed
  (the \<^verbatim>\<open>break\<close> of line 504), and the whole run ends where the code panics.
\<close>

fun process_blocks ::
  "Engine \<Rightarrow> World \<Rightarrow> run_config \<Rightarrow> int \<Rightarrow> block list \<Rightarrow> run_state \<Rightarrow> block_state
     \<Rightarrow> run_state \<times> block_state" where
  "process_blocks eng w cfg turn [] st bs = (st, bs)"
| "process_blocks eng w cfg turn (b # blocks) st bs =
     (case process_block eng w cfg turn b st bs of
        (st, bs) \<Rightarrow>
          if panicked bs \<or> confirmationNeeded bs \<noteq> None then (st, bs)
          else process_blocks eng w cfg turn blocks st bs)"

text \<open>\<^verbatim>\<open>responseToBlocks\<close>: text and tool-use blocks, the input re-encoded.\<close>

fun responseToBlocks :: "World \<Rightarrow> block list \<Rightarrow> block list" where
  "responseToBlocks w [] = []"
| "responseToBlocks w (TextBlock text # bs) = TextBlock text # responseToBlocks w bs"
| "responseToBlocks w (ToolUseBlock i n inp # bs) =
     ToolUseBlock i n (json_Marshal_raw w inp) # responseToBlocks w bs"
| "responseToBlocks w (OtherBlock ty # bs) = responseToBlocks w bs"

text \<open>
  How a call ends: it returns an output (and possibly a Go \<^verbatim>\<open>error\<close> beside it), it returns
  no output and an error, or it panics.
\<close>

datatype run_outcome = Returned Output "string option" | ReturnedError string | Panic

definition error_output :: "run_error \<Rightarrow> TokenUsage \<Rightarrow> Output" where
  "error_output e tokens =
     \<lparr>out_Type = OutputError, out_Text = '''', out_PendingAction = None, out_ToolsUsed = [],
      out_ResponseBlocks = [], out_TokensUsed = tokens, out_Error = Some e\<rparr>"

text \<open>The end of a run whose last response used no tool (lines 526 to 565).\<close>

definition complete_run ::
  "Engine \<Rightarrow> Input \<Rightarrow> block_state \<Rightarrow> run_state \<Rightarrow> run_outcome \<times> run_state" where
  "complete_run eng input bs st =
     (let st = AddMessage (MsgAssistantText (textResponse bs)) st;
          st = (if in_StreamCallback input then emit EvStreamDone st else st);
          st = (case (guardrails eng, in_Context input) of
                  (Some g, Some c) \<Rightarrow> emit (EvRecordSuccess (ctx_UserID c)) st
                | _ \<Rightarrow> st);
          st = (case (memory eng, in_Context input) of
                  (Some m, Some c) \<Rightarrow>
                    if length (Traces st) > 0 then emit (EvRecordTraces (ctx_UserID c) (Traces st)) st
                    else st
                | _ \<Rightarrow> st);
          st = (case (memory eng, in_Context input) of
                  (Some m, Some c) \<Rightarrow>
                    if in_UserMessage input \<noteq> '''' \<and> textResponse bs \<noteq> '''' then
                      emit (EvRecordConversation (ctx_UserID c) (in_UserMessage input) (textResponse bs)) st
                    else st
                | _ \<Rightarrow> st)
      in (Returned \<lparr>out_Type = OutputComplete, out_Text = textResponse bs, out_PendingAction = None,
                    out_ToolsUsed = toolsUsed bs, out_ResponseBlocks = [],
                    out_TokensUsed = totalTokens st, out_Error = None\<rparr> None,
          st))"

text \<open>
  The loop of \<^verbatim>\<open>Run\<close> (lines 244 to 570). \<open>turn\<close> is the session's turn count. Each
  iteration that calls the model has raised the count by one below \<open>maxTurns\<close>, so the loop
  ends.
\<close>

function Run_loop ::
  "Engine \<Rightarrow> World \<Rightarrow> Input \<Rightarrow> run_config \<Rightarrow> int \<Rightarrow> run_state \<Rightarrow> run_outcome \<times> run_state" where
  "Run_loop eng w input cfg turn st =
     (case ctx_Err w (clock st) of
        Some e \<Rightarrow> (Returned (error_output (TimedOut e) (totalTokens st)) None, advance 1 st)
      | None \<Rightarrow>
          if turn \<ge> cfg_maxTurns cfg then
            (Returned (error_output (ExceededMaximumTurns (cfg_maxTurns cfg)) (totalTokens st)) None,
             advance 1 st)
          else
            (case client eng (clock st + 1)
                    \<lparr>req_Model = cfg_model cfg, req_MaxTokens = cfg_maxTokens cfg,
                     req_Messages = sess_Messages st, req_System = cfg_systemPrompt cfg,
                     req_Tools = cfg_apiTools cfg, req_Streaming = in_StreamCallback input\<rparr> of
               Inl err \<Rightarrow>
                 (Returned (error_output (ClaudeAPIError err) (totalTokens st)) (Some err), advance 2 st)
             | Inr resp \<Rightarrow>
                 (case process_blocks eng w cfg (turn + 1) (resp_Content resp)
                         ((advance 2 st)
                            \<lparr>totalTokens :=
                               \<lparr>InputTokens = InputTokens (totalTokens st) + usage_InputTokens resp,
                                OutputTokens = OutputTokens (totalTokens st) + usage_OutputTokens resp\<rparr>\<rparr>)
                         empty_block_state of
                    (st, bs) \<Rightarrow>
                      if panicked bs then (Panic, st)
                      else if confirmationNeeded bs \<noteq> None then
                        (Returned \<lparr>out_Type = OutputConfirmationNeeded, out_Text = textResponse bs,
                                   out_PendingAction = confirmationNeeded bs,
                                   out_ToolsUsed = toolsUsed bs,
                                   out_ResponseBlocks = responseToBlocks w (resp_Content resp),
                                   out_TokensUsed = totalTokens st, out_Error = None\<rparr> None,
                         AddMessage (MsgAssistantResponse resp) st)
                      else if length (toolResults bs) = 0 then complete_run eng input bs st
                      else Run_loop eng w input cfg (turn + 1)
                             (AddMessage (MsgToolResults (toolResults bs))
                                (AddMessage (MsgAssistantResponse resp) st)))))"
  by pat_completeness auto
termination
  by (relation "measure (\<lambda>(eng, w, input, cfg, turn, st). nat (cfg_maxTurns cfg - turn))") auto

text \<open>The guardrails check at the start of \<^verbatim>\<open>Run\<close> (lines 140 to 154): an output if the run is refused.\<close>

definition admission :: "Engine \<Rightarrow> Input \<Rightarrow> run_state \<Rightarrow> Output option \<times> run_state" where
  "admission eng input st =
     (case (guardrails eng, in_Context input) of
        (Some g, Some c) \<Rightarrow>
          (case Check g (clock st) (ctx_UserID c) of
             Inl err \<Rightarrow>
               (Some (error_output (GuardrailsCheckFailed err) \<lparr>InputTokens = 0, OutputTokens = 0\<rparr>),
                advance 1 st)
           | Inr (allowed, warning) \<Rightarrow>
               if \<not> allowed then
                 (Some (error_output (BlockedByGuardrails warning) \<lparr>InputTokens = 0, OutputTokens = 0\<rparr>),
                  advance 1 st)
               else (None, advance 1 st))
      | _ \<Rightarrow> (None, st))"

text \<open>Phase 0 (lines 157 to 170): the enrichment; a failed retrieval gives none.\<close>

definition retrieve_enrichment :: "Engine \<Rightarrow> Input \<Rightarrow> run_state \<Rightarrow> string \<times> run_state" where
  "retrieve_enrichment eng input st =
     (case (memory eng, in_Context input) of
        (Some m, Some c) \<Rightarrow>
          if in_UserMessage input \<noteq> '''' then
            (case mgr_Retrieve m (clock st) (ctx_UserID c) (in_UserMessage input) of
               Inl err \<Rightarrow> ('''', advance 1 st)
             | Inr enrichment \<Rightarrow> (enrichment, advance 1 st))
          else ('''', st)
      | _ \<Rightarrow> ('''', st))"

definition make_config :: "World \<Rightarrow> Input \<Rightarrow> string \<Rightarrow> run_config" where
  "make_config w input enrichment =
     (let model = (if in_Model input = '''' then ''claude-sonnet-4-20250514'' else in_Model input);
          maxTokens = (if in_MaxTokens input = 0 then 4096 else in_MaxTokens input);
          systemPrompt = (if in_SystemPrompt input = '''' then DefaultSystemPrompt w
                          else in_SystemPrompt input);
          systemPrompt = (if enrichment \<noteq> '''' then systemPrompt @ [CHR 0x0A, CHR 0x0A] @ enrichment
                          else systemPrompt);
          limits = (case in_Context input of None \<Rightarrow> None | Some c \<Rightarrow> ctx_Limits c);
          maxTurns = (case limits of None \<Rightarrow> 20 | Some l \<Rightarrow> MaxTurns l);
          canConfirm = (case limits of None \<Rightarrow> True | Some l \<Rightarrow> CanConfirm l);
          apiTools = (if length (in_AvailableTools input) > 0
                      then ToAPIToolsFiltered w (in_AvailableTools input) else ToAPITools w);
          agentName = (if in_AgentName input = '''' then ''default'' else in_AgentName input);
          auditParentID = (case in_Context input of None \<Rightarrow> None | Some c \<Rightarrow> AuditParentID c)
      in \<lparr>cfg_model = model, cfg_maxTokens = maxTokens, cfg_systemPrompt = systemPrompt,
          cfg_maxTurns = maxTurns, cfg_canConfirm = canConfirm, cfg_apiTools = apiTools,
          cfg_agentName = agentName, cfg_auditParentID = auditParentID\<rparr>)"

definition start_session :: "World \<Rightarrow> Input \<Rightarrow> run_state \<Rightarrow> run_state" where
  "start_session w input st =
     (let userID = (case in_Context input of None \<Rightarrow> '''' | Some c \<Rightarrow> ctx_UserID c);
          conversationID = (case in_Context input of None \<Rightarrow> '''' | Some c \<Rightarrow> ctx_ConversationID c)
      in RestoreHistory (in_History input) (NewSession w userID conversationID st))"

text \<open>
  \<^verbatim>\<open>Run\<close>. The deadline of \<^verbatim>\<open>Limits.Timeout\<close> is part of the context whose state
  \<open>ctx_Err\<close> reports.
\<close>

definition Run :: "Engine \<Rightarrow> World \<Rightarrow> Input \<Rightarrow> run_outcome \<times> run_state" where
  "Run eng w input =
     (case admission eng input init_state of
        (Some out, st) \<Rightarrow> (Returned out None, st)
      | (None, st) \<Rightarrow>
          (case retrieve_enrichment eng input st of
             (enrichment, st) \<Rightarrow>
               (let cfg = make_config w input enrichment;
                    st = start_session w input st;
                    st = (if in_UserMessage input \<noteq> '''' then AddMessage (MsgUser (in_UserMessage input)) st
                          else st)
                in Run_loop eng w input cfg 0 st)))"

text \<open>
  \<^verbatim>\<open>RunConfirmedAction\<close> (lines 591 to 772), in three parts: acting and observing, the tool
  result for the model, and the closing model call. The closing request carries no tools
  and is never streamed.
\<close>

definition confirmed_trace :: "World \<Rightarrow> PendingAction \<Rightarrow> run_state \<Rightarrow> Trace" where
  "confirmed_trace w action st =
     (let trace = new_trace w st 0 (pa_Thought action) (pa_Tool action) (pa_Input action)
      in trace\<lparr>trace_Metadata :=
                 AList.update ''confirmation_id'' (pa_ID action)
                   (AList.update ''confirmed'' ''true'' (trace_Metadata trace))\<rparr>)"

definition confirmed_act ::
  "World \<Rightarrow> Tool \<Rightarrow> PendingAction \<Rightarrow> run_state
     \<Rightarrow> run_state \<times> ToolResult option \<times> string option \<times> int" where
  "confirmed_act w tool action st =
     (let trace = confirmed_trace w action st;
          st = advance 2 st;
          params = \<lparr>tp_UserID = pa_UserID action, tp_Input = pa_Input action,
                    tp_ConfirmationID = '''', tp_RequestID = sess_ID st\<rparr>;
          (result, toolErr) = Execute tool (clock st + 1) params;
          durationMs = time_Since_ms w (clock st + 2);
          st = emit (EvExecute (pa_Tool action) params) (advance 3 st);
          trace = observed_trace w tool (pa_Tool action) result toolErr trace
      in (AddTrace trace st, result, toolErr, durationMs))"

definition confirmed_tool_result ::
  "World \<Rightarrow> PendingAction \<Rightarrow> ToolResult option \<Rightarrow> string option \<Rightarrow> ToolResultBlock option" where
  "confirmed_tool_result w action result toolErr =
     (case toolErr of
        Some e \<Rightarrow> Some (NewToolResultBlock (BlockID action) e True)
      | None \<Rightarrow>
          (case result of
             None \<Rightarrow> None
           | Some r \<Rightarrow>
               if \<not> Success r then Some (NewToolResultBlock (BlockID action) (Error r) True)
               else Some (NewToolResultBlock (BlockID action) (json_Marshal_data w (Data r)) False)))"

fun text_of_blocks :: "block list \<Rightarrow> string" where
  "text_of_blocks [] = ''''"
| "text_of_blocks (TextBlock str # bs) = str @ text_of_blocks bs"
| "text_of_blocks (b # bs) = text_of_blocks bs"

definition confirmed_execution ::
  "PendingAction \<Rightarrow> ToolResult option \<Rightarrow> string option \<Rightarrow> int \<Rightarrow> ToolExecution" where
  "confirmed_execution action result toolErr durationMs =
     (let execution = \<lparr>te_Tool = pa_Tool action, te_Input = pa_Input action, te_Result = DataNil,
                       te_Error = '''', DurationMs = durationMs\<rparr>
      in case toolErr of
           Some e \<Rightarrow> execution\<lparr>te_Error := e\<rparr>
         | None \<Rightarrow>
             (case result of
                None \<Rightarrow> execution
              | Some r \<Rightarrow> if \<not> Success r then execution\<lparr>te_Error := Error r\<rparr>
                          else execution\<lparr>te_Result := Data r\<rparr>))"

definition confirmed_record :: "Engine \<Rightarrow> Input \<Rightarrow> string \<Rightarrow> run_state \<Rightarrow> run_state" where
  "confirmed_record eng input closingText st =
     (let st = (case (memory eng, in_Context input) of
                  (Some m, Some c) \<Rightarrow>
                    if length (Traces st) > 0 then emit (EvRecordTraces (ctx_UserID c) (Traces st)) st
                    else st
                | _ \<Rightarrow> st)
      in case (memory eng, in_Context input) of
           (Some m, Some c) \<Rightarrow>
             if closingText \<noteq> '''' then emit (EvRecordConversation (ctx_UserID c) '''' closingText) st
             else st
         | _ \<Rightarrow> st)"

definition confirmed_close ::
  "Engine \<Rightarrow> World \<Rightarrow> Input \<Rightarrow> PendingAction \<Rightarrow> ToolResult option \<Rightarrow> string option \<Rightarrow> int
     \<Rightarrow> ToolResultBlock \<Rightarrow> run_state \<Rightarrow> run_outcome \<times> run_state" where
  "confirmed_close eng w input action result toolErr durationMs toolResult st =
     (let st = AddMessage (MsgToolResults [toolResult]) st;
          model = (if in_Model input = '''' then ''claude-sonnet-4-20250514'' else in_Model input);
          maxTokens = (if in_MaxTokens input = 0 then 4096 else in_MaxTokens input);
          systemPrompt = (if in_SystemPrompt input = '''' then DefaultSystemPrompt w
                          else in_SystemPrompt input)
      in case client eng (clock st)
                \<lparr>req_Model = model, req_MaxTokens = maxTokens, req_Messages = sess_Messages st,
                 req_System = systemPrompt, req_Tools = [], req_Streaming = False\<rparr> of
           Inl err \<Rightarrow> (ReturnedError (''claude api error after confirmation: '' @ err), advance 1 st)
         | Inr resp \<Rightarrow>
             (let closingText = text_of_blocks (resp_Content resp);
                  st = AddMessage (MsgAssistantResponse resp) (advance 1 st);
                  st = confirmed_record eng input closingText st
              in (Returned \<lparr>out_Type = OutputComplete, out_Text = closingText,
                            out_PendingAction = None,
                            out_ToolsUsed = [confirmed_execution action result toolErr durationMs],
                            out_ResponseBlocks = responseToBlocks w (resp_Content resp),
                            out_TokensUsed = \<lparr>InputTokens = 0, OutputTokens = 0\<rparr>,
                            out_Error = None\<rparr> None,
                  st)))"

definition RunConfirmedAction ::
  "Engine \<Rightarrow> World \<Rightarrow> Input \<Rightarrow> PendingAction \<Rightarrow> run_outcome \<times> run_state" where
  "RunConfirmedAction eng w input action =
     (let st = start_session w input init_state
      in case registry eng (pa_Tool action) of
           None \<Rightarrow> (ReturnedError (''unknown tool: '' @ pa_Tool action), st)
         | Some tool \<Rightarrow>
             (case confirmed_act w tool action st of
                (st, result, toolErr, durationMs) \<Rightarrow>
                  (case confirmed_tool_result w action result toolErr of
                     None \<Rightarrow> (Panic, st)
                   | Some toolResult \<Rightarrow>
                       confirmed_close eng w input action result toolErr durationMs toolResult st)))"

subsection \<open>What the claims about the engine speak of\<close>

text \<open>Whether a run may ask for confirmation: \<^verbatim>\<open>Limits.CanConfirm\<close>, true without limits.\<close>

definition input_canConfirm :: "Input \<Rightarrow> bool" where
  "input_canConfirm input =
     (case in_Context input of
        None \<Rightarrow> True
      | Some c \<Rightarrow> (case ctx_Limits c of None \<Rightarrow> True | Some l \<Rightarrow> CanConfirm l))"

text \<open>A trace whose action is a registered tool marked as requiring confirmation.\<close>

definition confirmation_trace :: "Engine \<Rightarrow> Trace \<Rightarrow> bool" where
  "confirmation_trace eng t =
     (case registry eng (Action t) of None \<Rightarrow> False | Some tool \<Rightarrow> RequiresConfirmation tool)"

definition awaiting_confirmation :: "Trace \<Rightarrow> bool" where
  "awaiting_confirmation t = (Observation t = ''Awaiting user confirmation'' \<and> \<not> trace_Success t)"

definition blocked_confirmation :: "Trace \<Rightarrow> bool" where
  "blocked_confirmation t =
     (Observation t = ''Operation blocked: confirmation not allowed in this context'' \<and>
      \<not> trace_Success t \<and> lookup_str (trace_Metadata t) ''error'' = ''confirmation_disabled'')"

definition carries_confirmed :: "Trace \<Rightarrow> bool" where
  "carries_confirmed t = (map_of (trace_Metadata t) ''confirmed'' = Some ''true'')"

text \<open>An \<^verbatim>\<open>Execute\<close> call of a tool that is registered as requiring confirmation.\<close>

definition executes_confirmation_tool :: "Engine \<Rightarrow> event \<Rightarrow> bool" where
  "executes_confirmation_tool eng e =
     (case e of
        EvExecute name params \<Rightarrow>
          (case registry eng name of None \<Rightarrow> False | Some tool \<Rightarrow> RequiresConfirmation tool)
      | _ \<Rightarrow> False)"

text \<open>
  What holds of the state throughout \<^verbatim>\<open>Run\<close>: no \<^verbatim>\<open>Execute\<close> of a confirmation-required
  tool has happened, and every trace of such a tool is the pending one, or the blocked one
  if the run may not ask for confirmation.
\<close>

definition run_inv :: "Engine \<Rightarrow> bool \<Rightarrow> run_state \<Rightarrow> bool" where
  "run_inv eng canConfirm st =
     ((\<forall>e\<in>set (events st). \<not> executes_confirmation_tool eng e) \<and>
      (\<forall>t\<in>set (Traces st). confirmation_trace eng t \<longrightarrow>
          (if canConfirm then awaiting_confirmation t else blocked_confirmation t)))"

text \<open>
  The claim about traces as the specification words it: pending, or confirmed.
\<close>

definition pending_or_confirmed :: "Trace \<Rightarrow> bool" where
  "pending_or_confirmed t = (awaiting_confirmation t \<or> carries_confirmed t)"

text \<open>A tool input that decodes and carries a thought that is not blank.\<close>

definition has_thought :: "World \<Rightarrow> string \<Rightarrow> bool" where
  "has_thought w toolInput =
     (case json_Unmarshal_thought w toolInput of
        Inl err \<Rightarrow> False
      | Inr thought \<Rightarrow> strings_TrimSpace w thought \<noteq> '''')"

text \<open>
  The two ways in which the processing of a tool use can end without an execution: the run
  is suspended on a pending action for this block, or an error result for this block is
  added for the model.
\<close>

definition suspended_on :: "string \<Rightarrow> string \<Rightarrow> block_state \<Rightarrow> block_state \<Rightarrow> bool" where
  "suspended_on blockID toolName bs bs' =
     (toolResults bs' = toolResults bs \<and>
      (case confirmationNeeded bs' of
         None \<Rightarrow> False
       | Some pending \<Rightarrow> pa_Tool pending = toolName \<and> BlockID pending = blockID))"

definition answered_with_error :: "string \<Rightarrow> block_state \<Rightarrow> block_state \<Rightarrow> bool" where
  "answered_with_error blockID bs bs' =
     (confirmationNeeded bs' = confirmationNeeded bs \<and>
      (case drop (length (toolResults bs)) (toolResults bs') of
         [r] \<Rightarrow> take (length (toolResults bs)) (toolResults bs') = toolResults bs \<and>
                trb_ToolUseID r = blockID \<and> trb_IsError r
       | _ \<Rightarrow> False))"

subsection \<open>A concrete engine\<close>

text \<open>
  Three tools: \<^verbatim>\<open>send_money\<close> requires confirmation, \<^verbatim>\<open>get_balance\<close> does not, and
  \<^verbatim>\<open>get_rates\<close> is a read-only tool whose handler returns neither a result nor an error.
  The model asks for one tool in its first response and answers with text afterwards; the
  input of a tool use is taken to be its thought.
\<close>

definition ex_world :: World where
  "ex_world = \<lparr>ctx_Err = (\<lambda>n. None), uuid_New = (\<lambda>n. ''id''), time_Now = (\<lambda>n. 1000),
               time_Since_ms = (\<lambda>n. 5), json_Unmarshal_thought = (\<lambda>s. Inr s),
               json_Marshal_raw = (\<lambda>s. s), json_Marshal_data = (\<lambda>d. ''{}''), Sprintf_v = (\<lambda>d. ''v''),
               strings_TrimSpace = (\<lambda>s. s), strings_ToLower = (\<lambda>s. s),
               GenerateIdempotencyKey = (\<lambda>u t i. u @ t @ i),
               ToAPITools = [''send_money'', ''get_balance'', ''get_rates''],
               ToAPIToolsFiltered = (\<lambda>names. names), DefaultSystemPrompt = ''You are Nim.''\<rparr>"

definition ex_tool :: "bool \<Rightarrow> (ToolResult option \<times> string option) \<Rightarrow> Tool" where
  "ex_tool confirm outcome =
     \<lparr>RequiresConfirmation = confirm, Execute = (\<lambda>n params. outcome),
      GetSummary = (\<lambda>i. ''Send money''), FormatObservation = None\<rparr>"

definition ex_registry :: "string \<rightharpoonup> Tool" where
  "ex_registry =
     [''send_money'' \<mapsto> ex_tool True (Some \<lparr>Success = True, Data = DataString ''sent'', Error = ''''\<rparr>, None),
      ''get_balance'' \<mapsto> ex_tool False (Some \<lparr>Success = True, Data = DataString ''100.00'', Error = ''''\<rparr>, None),
      ''get_rates'' \<mapsto> ex_tool False (None, None)]"

definition ex_client :: "string \<Rightarrow> string \<Rightarrow> nat \<Rightarrow> Request \<Rightarrow> string + Response" where
  "ex_client toolName toolInput n req =
     (if length (req_Messages req) \<le> 1
      then Inr \<lparr>resp_Content = [TextBlock ''Let me do that.'', ToolUseBlock ''blk1'' toolName toolInput],
                usage_InputTokens = 10, usage_OutputTokens = 5\<rparr>
      else Inr \<lparr>resp_Content = [TextBlock ''Done.''], usage_InputTokens = 20, usage_OutputTokens = 3\<rparr>)"

definition ex_engine :: "string \<Rightarrow> string \<Rightarrow> Engine" where
  "ex_engine toolName toolInput =
     \<lparr>client = ex_client toolName toolInput, registry = ex_registry, guardrails = None,
      audit = True, memory = None\<rparr>"

definition ex_input :: "bool \<Rightarrow> Input" where
  "ex_input canConfirm =
     \<lparr>in_UserMessage = ''Send $50 to @alice'',
      in_Context = Some \<lparr>ctx_UserID = ''owner'', ctx_ConversationID = ''c1'',
                         ctx_Limits = Some \<lparr>MaxTurns = 5, CanConfirm = canConfirm, Timeout = 0\<rparr>,
                         AuditParentID = None\<rparr>,
      in_History = [], in_SystemPrompt = '''', in_Model = '''', in_MaxTokens = 0,
      in_AgentName = '''', in_AvailableTools = [], in_StreamCallback = False\<rparr>"

definition ex_pending :: PendingAction where
  "ex_pending = \<lparr>pa_ID = ''id'', IdempotencyKey = ''k'', pa_SessionID = ''id'', pa_UserID = ''owner'',
                 pa_Tool = ''send_money'', pa_Input = ''user asked to send'',
                 pa_Thought = ''user asked to send'', Summary = ''Send money'', BlockID = ''blk1'',
                 pa_CreatedAt = 1000, ExpiresAt = 1600\<rparr>"




text \<open>A registry none of whose tools ever returns neither a result nor an error.\<close>

definition returns_something :: "Engine \<Rightarrow> bool" where
  "returns_something eng =
     (\<forall>name tool n params. registry eng name = Some tool \<longrightarrow> Execute tool n params \<noteq> (None, None))"

text \<open>
  The errors met while one tool use is processed: the input does not decode, the tool is
  unknown, the thought of a write operation is missing, or a read-only tool fails.
\<close>

definition block_error :: "Engine \<Rightarrow> World \<Rightarrow> run_state \<Rightarrow> string \<Rightarrow> string \<Rightarrow> bool" where
  "block_error eng w st toolName toolInput =
     (case json_Unmarshal_thought w toolInput of
        Inl err \<Rightarrow> True
      | Inr thought \<Rightarrow>
          (case registry eng toolName of
             None \<Rightarrow> True
           | Some tool \<Rightarrow>
               if RequiresConfirmation tool then strings_TrimSpace w thought = ''''
               else (case Execute tool (clock st + 3)
                            \<lparr>tp_UserID = sess_UserID st,
                             tp_Input = json_Marshal_raw w toolInput,
                             tp_ConfirmationID = '''', tp_RequestID = sess_ID st\<rparr> of
                       (result, Some e) \<Rightarrow> True
                     | (Some r, None) \<Rightarrow> \<not> Success r
                     | (None, None) \<Rightarrow> False)))"

text \<open>A call that ends by returning an output, whatever its type.\<close>

definition proper_outcome :: "run_outcome \<Rightarrow> bool" where
  "proper_outcome r = (case r of Returned out err \<Rightarrow> True | _ \<Rightarrow> False)"

section \<open>Scheduled payments (hackathon-starter: store, tools and scheduler)\<close>

subsection \<open>Numbers and library functions\<close>

text \<open>
  Amounts and balances are Go \<^verbatim>\<open>float64\<close> values and SQLite \<^verbatim>\<open>REAL\<close>s. The model leaves
  the number type \<open>'f\<close> and its operations open: whatever they are, the handlers below
  compute with them as written. \<^verbatim>\<open>ParseFloat\<close> returns the value together with whether
  parsing succeeded (Go returns a value in either case); \<open>sql_sum_real\<close> is SQLite's
  \<^verbatim>\<open>SUM(CAST(amount AS REAL))\<close> over the amount texts of a group; \<open>format_2f\<close> is the
  \<^verbatim>\<open>%.2f\<close> verb.
\<close>

record 'f floats =
  ParseFloat :: "string \<Rightarrow> 'f \<times> bool"
  fzero :: 'f
  fless :: "'f \<Rightarrow> 'f \<Rightarrow> bool"
  fle :: "'f \<Rightarrow> 'f \<Rightarrow> bool"
  fminus :: "'f \<Rightarrow> 'f \<Rightarrow> 'f"
  sql_sum_real :: "string list \<Rightarrow> 'f"
  format_2f :: "'f \<Rightarrow> string"

text \<open>A decoded JSON value as \<^verbatim>\<open>parseBalanceFromResponse\<close> inspects it.\<close>

datatype 'f jvalue =
  JVString string
| JVNumber 'f
| JVArray "'f jvalue list"
| JVObject "(string \<times> 'f jvalue) list"
| JVOther

record ExecuteRequest =
  rq_UserID :: string
  rq_Tool :: string
  rq_Input :: string
  rq_RequestID :: string

record ExecuteResponse =
  er_Success :: bool
  er_Data :: string
  er_Error :: string

record schedule_params =
  prm_Recipient :: string
  prm_Amount :: string
  prm_Currency :: string
  prm_ScheduledAt :: string
  prm_Note :: string

text \<open>
  The surroundings of a handler call: the executor of the Liminal API (\<open>Inl\<close> is the Go
  error), JSON decoding of the tool input (into the handler's parameter struct; the send
  wrapper's struct has no \<^verbatim>\<open>scheduled_at\<close>), of the search response (whether it holds an
  empty \<^verbatim>\<open>users\<close> array) and of the balance response (into an object), JSON encoding of the
  one-entry request objects and of the scheduler's send request, time parsing and
  formatting, the clock at the two places where the
  schedule handler reads it, a fresh UUID, and whether the database fails on a query or on
  an insert or on an update. Times are seconds since the epoch.
\<close>

record 'f pay_env =
  executor_Execute :: "ExecuteRequest \<Rightarrow> string + ExecuteResponse"
  executor_ExecuteWrite :: "ExecuteRequest \<Rightarrow> string + ExecuteResponse"
  decode_params :: "string \<Rightarrow> string + schedule_params"
  users_empty :: "string \<Rightarrow> bool"
  decode_object :: "string \<Rightarrow> (string \<times> 'f jvalue) list option"
  encode_entry :: "string \<Rightarrow> string \<Rightarrow> string"
  parse_RFC3339 :: "string \<Rightarrow> string + int"
  format_RFC3339 :: "int \<Rightarrow> string"
  time_Now_check :: int
  time_Now_created :: int
  pay_uuid :: string
  format_display :: "int \<Rightarrow> string"
  encode_send :: "string \<Rightarrow> string \<Rightarrow> string \<Rightarrow> string \<Rightarrow> string \<Rightarrow> string"
  db_query_error :: "string option"
  db_insert_error :: "string option"
  db_update_error :: "string option"

subsection \<open>The store\<close>

record ScheduledPayment =
  sp_ID :: string
  sp_Recipient :: string
  sp_Amount :: string
  sp_Currency :: string
  sp_Note :: string
  sp_ScheduledAt :: int
  sp_CreatedAt :: int
  sp_Status :: string
  sp_Error :: string

text \<open>
  The table \<^verbatim>\<open>scheduled_payments\<close>, its rows in insertion order. Every method of
  \<^verbatim>\<open>PaymentStore\<close> holds the store's lock for the one statement it runs, so each is one
  atomic step on the table.
\<close>

type_synonym payment_table = "ScheduledPayment list"

text \<open>\<^verbatim>\<open>Add\<close>: the insert fails if the database fails or the primary key exists.\<close>

definition Add :: "'f pay_env \<Rightarrow> payment_table \<Rightarrow> ScheduledPayment \<Rightarrow> payment_table \<times> string option" where
  "Add env rows p =
     (case db_insert_error env of
        Some err \<Rightarrow> (rows, Some err)
      | None \<Rightarrow>
          if sp_ID p \<in> set (map sp_ID rows)
          then (rows, Some ''UNIQUE constraint failed: scheduled_payments.id'')
          else (rows @ [p\<lparr>sp_Error := ''''\<rparr>], None))"

text \<open>\<^verbatim>\<open>GetDue\<close>: the pending rows whose time has come, by scheduled time.\<close>

definition GetDue :: "'f pay_env \<Rightarrow> int \<Rightarrow> payment_table \<Rightarrow> string + ScheduledPayment list" where
  "GetDue env now rows =
     (case db_query_error env of
        Some err \<Rightarrow> Inl err
      | None \<Rightarrow>
          Inr (sort_key sp_ScheduledAt
                 (filter (\<lambda>p. sp_Status p = ''pending'' \<and> sp_ScheduledAt p \<le> now) rows)))"

text \<open>
  \<^verbatim>\<open>GetPendingTotalByCurrency\<close>: one total for each currency that has a pending row. A
  currency without one is absent from the Go map and reads as zero.
\<close>

definition pending_amounts :: "payment_table \<Rightarrow> string \<Rightarrow> string list" where
  "pending_amounts rows currency =
     map sp_Amount (filter (\<lambda>p. sp_Status p = ''pending'' \<and> sp_Currency p = currency) rows)"

definition GetPendingTotalByCurrency ::
  "'f floats \<Rightarrow> 'f pay_env \<Rightarrow> payment_table \<Rightarrow> string + (string \<times> 'f) list" where
  "GetPendingTotalByCurrency fl env rows =
     (case db_query_error env of
        Some err \<Rightarrow> Inl err
      | None \<Rightarrow>
          Inr (map (\<lambda>currency. (currency, sql_sum_real fl (pending_amounts rows currency)))
                 (remdups (map sp_Currency (filter (\<lambda>p. sp_Status p = ''pending'') rows)))))"

definition total_of :: "'f floats \<Rightarrow> (string \<times> 'f) list \<Rightarrow> string \<Rightarrow> 'f" where
  "total_of fl totals currency = (case map_of totals currency of None \<Rightarrow> fzero fl | Some t \<Rightarrow> t)"

text \<open>\<^verbatim>\<open>UpdateStatus\<close>: the status and error of the row with the id, whatever its status.\<close>

definition UpdateStatus ::
  "'f pay_env \<Rightarrow> payment_table \<Rightarrow> string \<Rightarrow> string \<Rightarrow> string \<Rightarrow> payment_table \<times> string option" where
  "UpdateStatus env rows id' status errMsg =
     (case db_update_error env of
        Some err \<Rightarrow> (rows, Some err)
      | None \<Rightarrow>
          (map (\<lambda>p. if sp_ID p = id' then p\<lparr>sp_Status := status, sp_Error := errMsg\<rparr> else p) rows,
           None))"

text \<open>\<^verbatim>\<open>Cancel\<close>: only a pending row is changed; an error if no row was.\<close>

definition Cancel :: "'f pay_env \<Rightarrow> payment_table \<Rightarrow> string \<Rightarrow> payment_table \<times> string option" where
  "Cancel env rows id' =
     (case db_update_error env of
        Some err \<Rightarrow> (rows, Some err)
      | None \<Rightarrow>
          (let rows' = map (\<lambda>p. if sp_ID p = id' \<and> sp_Status p = ''pending''
                                 then p\<lparr>sp_Status := ''cancelled''\<rparr> else p) rows;
               n = length (filter (\<lambda>p. sp_ID p = id' \<and> sp_Status p = ''pending'') rows)
           in if n = 0 then (rows', Some (''payment '' @ id' @ '' not found or not in pending status''))
              else (rows', None)))"

subsection \<open>The balance reported by \<^verbatim>\<open>get_balance\<close>\<close>

text \<open>A positive balance under a field of a balance entry (a string that parses, or a number).\<close>

definition positive_field :: "'f floats \<Rightarrow> (string \<times> 'f jvalue) list \<Rightarrow> string \<Rightarrow> 'f option" where
  "positive_field fl bMap field =
     (case map_of bMap field of
        Some (JVString bal) \<Rightarrow>
          (let f = fst (ParseFloat fl bal) in if fless fl (fzero fl) f then Some f else None)
      | Some (JVNumber bal) \<Rightarrow> if fless fl (fzero fl) bal then Some bal else None
      | _ \<Rightarrow> None)"

fun first_positive :: "'f floats \<Rightarrow> (string \<times> 'f jvalue) list \<Rightarrow> string list \<Rightarrow> 'f option" where
  "first_positive fl bMap [] = None"
| "first_positive fl bMap (field # fs) =
     (case positive_field fl bMap field of
        Some f \<Rightarrow> Some f
      | None \<Rightarrow> first_positive fl bMap fs)"

fun scan_balances :: "'f floats \<Rightarrow> string \<Rightarrow> 'f jvalue list \<Rightarrow> 'f option" where
  "scan_balances fl currency [] = None"
| "scan_balances fl currency (b # balances) =
     (case b of
        JVObject bMap \<Rightarrow>
          (if (case map_of bMap ''currency'' of Some (JVString cur) \<Rightarrow> cur | _ \<Rightarrow> '''') = currency
           then (case first_positive fl bMap [''amount'', ''balance''] of
                   Some f \<Rightarrow> Some f
                 | None \<Rightarrow> scan_balances fl currency balances)
           else scan_balances fl currency balances)
      | _ \<Rightarrow> scan_balances fl currency balances)"

definition parseBalanceFromResponse :: "'f floats \<Rightarrow> 'f pay_env \<Rightarrow> string \<Rightarrow> string \<Rightarrow> 'f" where
  "parseBalanceFromResponse fl env data' currency =
     (case decode_object env data' of
        None \<Rightarrow> fzero fl
      | Some response \<Rightarrow>
          (case (case map_of response ''balances'' of
                   Some (JVArray balances) \<Rightarrow> scan_balances fl currency balances
                 | _ \<Rightarrow> None) of
             Some f \<Rightarrow> f
           | None \<Rightarrow>
               (case map_of response ''balance'' of
                  Some (JVString bal) \<Rightarrow> fst (ParseFloat fl bal)
                | Some (JVNumber bal) \<Rightarrow> bal
                | _ \<Rightarrow>
                    (case map_of response currency of
                       Some (JVString bal) \<Rightarrow> fst (ParseFloat fl bal)
                     | Some (JVNumber bal) \<Rightarrow> bal
                     | _ \<Rightarrow> fzero fl))))"

subsection \<open>The tools\<close>

definition failed :: "string \<Rightarrow> ToolResult" where
  "failed msg = \<lparr>Success = False, Data = DataNil, Error = msg\<rparr>"

definition TrimPrefix :: "string \<Rightarrow> string \<Rightarrow> string" where
  "TrimPrefix s p = (if has_prefix s p then drop (length p) s else s)"

text \<open>
  The handler of \<^verbatim>\<open>schedule_payment\<close>, in the order of the source: saving the payment
  (lines 686 to 713), the balance check before it (lines 653 to 684), the recipient check
  before that (lines 629 to 651), and the handler from its start. Each part returns the
  tool result, the table as it leaves it, and the write requests passed on to the executor
  (this handler passes none).
\<close>

definition schedule_save ::
  "'f pay_env \<Rightarrow> payment_table \<Rightarrow> schedule_params \<Rightarrow> int
     \<Rightarrow> ToolResult \<times> payment_table \<times> ExecuteRequest list" where
  "schedule_save env rows params scheduledAt =
     (let payment = \<lparr>sp_ID = pay_uuid env, sp_Recipient = prm_Recipient params,
                      sp_Amount = prm_Amount params, sp_Currency = prm_Currency params,
                      sp_Note = prm_Note params, sp_ScheduledAt = scheduledAt,
                      sp_CreatedAt = time_Now_created env, sp_Status = ''pending'',
                      sp_Error = ''''\<rparr>
      in case Add env rows payment of
           (rows', Some err) \<Rightarrow> (failed (''failed to save payment: '' @ err), rows', [])
         | (rows', None) \<Rightarrow>
             (\<lparr>Success = True,
               Data = DataMap
                 [(''payment_id'', JString (sp_ID payment)),
                  (''recipient'', JString (sp_Recipient payment)),
                  (''amount'', JString (sp_Amount payment)),
                  (''currency'', JString (sp_Currency payment)),
                  (''scheduled_at'', JString (format_RFC3339 env scheduledAt)),
                  (''status'', JString ''pending''),
                  (''message'',
                     JString (''Payment of '' @ sp_Amount payment @ '' '' @ sp_Currency payment @
                              '' to '' @ sp_Recipient payment @ '' scheduled for '' @
                              format_display env scheduledAt))],
               Error = ''''\<rparr>,
              rows', []))"

definition balance_request :: "'f pay_env \<Rightarrow> ToolParams \<Rightarrow> string \<Rightarrow> ExecuteRequest" where
  "balance_request env toolParams currency =
     \<lparr>rq_UserID = tp_UserID toolParams, rq_Tool = ''get_balance'',
      rq_Input = encode_entry env ''currency'' currency, rq_RequestID = tp_RequestID toolParams\<rparr>"

definition schedule_check_balance ::
  "'f floats \<Rightarrow> 'f pay_env \<Rightarrow> payment_table \<Rightarrow> ToolParams \<Rightarrow> schedule_params \<Rightarrow> 'f \<Rightarrow> int
     \<Rightarrow> ToolResult \<times> payment_table \<times> ExecuteRequest list" where
  "schedule_check_balance fl env rows toolParams params amountFloat scheduledAt =
     (case executor_Execute env (balance_request env toolParams (prm_Currency params)) of
        Inl err \<Rightarrow> (failed (''failed to check balance: '' @ err), rows, [])
      | Inr balanceResp \<Rightarrow>
          if \<not> er_Success balanceResp then (failed ''failed to retrieve balance'', rows, [])
          else
            (let currentBalance =
                   parseBalanceFromResponse fl env (er_Data balanceResp) (prm_Currency params)
             in case GetPendingTotalByCurrency fl env rows of
                  Inl err \<Rightarrow> (failed (''failed to check pending payments: '' @ err), rows, [])
                | Inr pendingTotals \<Rightarrow>
                    (let pending = total_of fl pendingTotals (prm_Currency params);
                         available = fminus fl currentBalance pending
                     in if fless fl available amountFloat
                        then (failed (''insufficient available balance: '' @
                                format_2f fl currentBalance @ '' '' @ prm_Currency params @ '' ('' @
                                format_2f fl pending @ '' reserved in scheduled payments)''),
                              rows, [])
                        else schedule_save env rows params scheduledAt)))"

definition schedule_check_recipient ::
  "'f floats \<Rightarrow> 'f pay_env \<Rightarrow> payment_table \<Rightarrow> ToolParams \<Rightarrow> schedule_params \<Rightarrow> 'f \<Rightarrow> int
     \<Rightarrow> ToolResult \<times> payment_table \<times> ExecuteRequest list" where
  "schedule_check_recipient fl env rows toolParams params amountFloat scheduledAt =
     (case executor_Execute env
             \<lparr>rq_UserID = tp_UserID toolParams, rq_Tool = ''search_users'',
              rq_Input = encode_entry env ''query'' (TrimPrefix (prm_Recipient params) ''@''),
              rq_RequestID = tp_RequestID toolParams\<rparr> of
        Inl err \<Rightarrow> (failed (''failed to validate recipient: '' @ err), rows, [])
      | Inr searchResp \<Rightarrow>
          if \<not> er_Success searchResp
          then (failed (''recipient not found: '' @ prm_Recipient params), rows, [])
          else if users_empty env (er_Data searchResp)
          then (failed (''recipient not found: '' @ prm_Recipient params), rows, [])
          else schedule_check_balance fl env rows toolParams params amountFloat scheduledAt)"

definition schedule_payment ::
  "'f floats \<Rightarrow> 'f pay_env \<Rightarrow> payment_table \<Rightarrow> ToolParams
     \<Rightarrow> ToolResult \<times> payment_table \<times> ExecuteRequest list" where
  "schedule_payment fl env rows toolParams =
     (case decode_params env (tp_Input toolParams) of
        Inl err \<Rightarrow> (failed (''invalid input: '' @ err), rows, [])
      | Inr params \<Rightarrow>
          (case ParseFloat fl (prm_Amount params) of
             (amountFloat, ok) \<Rightarrow>
               if \<not> ok \<or> fle fl amountFloat (fzero fl)
               then (failed ''amount must be a positive number'', rows, [])
               else
                 (case parse_RFC3339 env (prm_ScheduledAt params) of
                    Inl err \<Rightarrow> (failed (''invalid date format, expected ISO 8601: '' @ err), rows, [])
                  | Inr scheduledAt \<Rightarrow>
                      if scheduledAt < time_Now_check env
                      then (failed ''scheduled date must be in the future'', rows, [])
                      else schedule_check_recipient fl env rows toolParams params amountFloat
                             scheduledAt)))"

text \<open>
  The handler of the \<^verbatim>\<open>send_money\<close> wrapper: delegating the send (lines 997 to 1015), the
  balance check before it (lines 963 to 995), and the handler from its start. It does not
  write to the table; the write requests are the sends it delegates.
\<close>

definition send_delegate ::
  "'f pay_env \<Rightarrow> payment_table \<Rightarrow> ToolParams \<Rightarrow> ToolResult \<times> payment_table \<times> ExecuteRequest list" where
  "send_delegate env rows toolParams =
     (let request = \<lparr>rq_UserID = tp_UserID toolParams, rq_Tool = ''send_money'',
                      rq_Input = tp_Input toolParams, rq_RequestID = tp_RequestID toolParams\<rparr>
      in case executor_ExecuteWrite env request of
           Inl err \<Rightarrow> (failed (''send failed: '' @ err), rows, [request])
         | Inr resp \<Rightarrow>
             if \<not> er_Success resp then (failed (er_Error resp), rows, [request])
             else (\<lparr>Success = True, Data = DataOther (er_Data resp), Error = ''''\<rparr>, rows, [request]))"

definition send_check_balance ::
  "'f floats \<Rightarrow> 'f pay_env \<Rightarrow> payment_table \<Rightarrow> ToolParams \<Rightarrow> schedule_params \<Rightarrow> 'f
     \<Rightarrow> ToolResult \<times> payment_table \<times> ExecuteRequest list" where
  "send_check_balance fl env rows toolParams params amountFloat =
     (case executor_Execute env (balance_request env toolParams (prm_Currency params)) of
        Inl err \<Rightarrow> (failed (''failed to check balance: '' @ err), rows, [])
      | Inr balanceResp \<Rightarrow>
          if \<not> er_Success balanceResp then (failed ''failed to retrieve balance'', rows, [])
          else
            (let currentBalance =
                   parseBalanceFromResponse fl env (er_Data balanceResp) (prm_Currency params)
             in case GetPendingTotalByCurrency fl env rows of
                  Inl err \<Rightarrow> (failed (''failed to check pending payments: '' @ err), rows, [])
                | Inr pendingTotals \<Rightarrow>
                    (let pending = total_of fl pendingTotals (prm_Currency params);
                         available = fminus fl currentBalance pending
                     in if fless fl available amountFloat
                        then (failed (''insufficient available balance: you have '' @
                                format_2f fl currentBalance @ '' '' @ prm_Currency params @
                                '' but '' @ format_2f fl pending @
                                '' is reserved for scheduled payments (available: '' @
                                format_2f fl available @ '' '' @ prm_Currency params @ '')''),
                              rows, [])
                        else send_delegate env rows toolParams)))"

definition send_money_wrapper ::
  "'f floats \<Rightarrow> 'f pay_env \<Rightarrow> payment_table \<Rightarrow> ToolParams
     \<Rightarrow> ToolResult \<times> payment_table \<times> ExecuteRequest list" where
  "send_money_wrapper fl env rows toolParams =
     (case decode_params env (tp_Input toolParams) of
        Inl err \<Rightarrow> (failed (''invalid input: '' @ err), rows, [])
      | Inr params \<Rightarrow>
          (case ParseFloat fl (prm_Amount params) of
             (amountFloat, ok) \<Rightarrow>
               if \<not> ok \<or> fle fl amountFloat (fzero fl)
               then (failed ''amount must be a positive number'', rows, [])
               else send_check_balance fl env rows toolParams params amountFloat))"

text \<open>The handler of \<^verbatim>\<open>cancel_scheduled_payment\<close>; the input decodes to the payment id.\<close>

definition cancel_scheduled_payment ::
  "'f pay_env \<Rightarrow> (string \<Rightarrow> string + string) \<Rightarrow> payment_table \<Rightarrow> ToolParams
     \<Rightarrow> ToolResult \<times> payment_table" where
  "cancel_scheduled_payment env decode_id rows toolParams =
     (case decode_id (tp_Input toolParams) of
        Inl err \<Rightarrow> (failed (''invalid input: '' @ err), rows)
      | Inr paymentID \<Rightarrow>
          (case Cancel env rows paymentID of
             (rows', Some err) \<Rightarrow> (failed (''failed to cancel: '' @ err), rows')
           | (rows', None) \<Rightarrow>
               (\<lparr>Success = True,
                 Data = DataMap [(''payment_id'', JString paymentID), (''status'', JString ''cancelled''),
                                 (''message'', JString ''Scheduled payment has been cancelled.'')],
                 Error = ''''\<rparr>,
                rows')))"

subsection \<open>The background scheduler\<close>

definition scheduler_request :: "'f pay_env \<Rightarrow> ScheduledPayment \<Rightarrow> ExecuteRequest" where
  "scheduler_request env p =
     \<lparr>rq_UserID = '''', rq_Tool = ''send_money'',
      rq_Input = encode_send env (sp_Recipient p) (sp_Amount p) (sp_Currency p) (sp_Note p)
                   (''Executing scheduled payment '' @ sp_ID p),
      rq_RequestID = ''''\<rparr>"

text \<open>
  The two writes of the loop body of \<^verbatim>\<open>startScheduler\<close>: marking a due payment as
  executing (line 1041), and recording how the send ended (lines 1060 to 1074; the error
  of this second \<^verbatim>\<open>UpdateStatus\<close> is not looked at).
\<close>

definition scheduler_mark :: "'f pay_env \<Rightarrow> payment_table \<Rightarrow> ScheduledPayment \<Rightarrow> payment_table \<times> string option" where
  "scheduler_mark env rows p = UpdateStatus env rows (sp_ID p) ''executing'' ''''"

definition scheduler_finish :: "'f pay_env \<Rightarrow> payment_table \<Rightarrow> ScheduledPayment \<Rightarrow> payment_table" where
  "scheduler_finish env rows p =
     (case executor_ExecuteWrite env (scheduler_request env p) of
        Inl err \<Rightarrow> fst (UpdateStatus env rows (sp_ID p) ''failed'' (''execution error: '' @ err))
      | Inr resp \<Rightarrow>
          if \<not> er_Success resp
          then fst (UpdateStatus env rows (sp_ID p) ''failed'' (''send_money failed: '' @ er_Error resp))
          else fst (UpdateStatus env rows (sp_ID p) ''executed'' ''''))"

text \<open>The loop over the due payments, and one tick of the scheduler run without interruption.\<close>

fun scheduler_loop :: "'f pay_env \<Rightarrow> payment_table \<Rightarrow> ScheduledPayment list \<Rightarrow> payment_table" where
  "scheduler_loop env rows [] = rows"
| "scheduler_loop env rows (p # due) =
     (case scheduler_mark env rows p of
        (rows, Some err) \<Rightarrow> scheduler_loop env rows due
      | (rows, None) \<Rightarrow> scheduler_loop env (scheduler_finish env rows p) due)"

definition scheduler_tick :: "'f pay_env \<Rightarrow> int \<Rightarrow> payment_table \<Rightarrow> payment_table" where
  "scheduler_tick env now rows =
     (case GetDue env now rows of
        Inl err \<Rightarrow> rows
      | Inr due \<Rightarrow> scheduler_loop env rows due)"

text \<open>
  The scheduler runs in its own goroutine beside the tool handlers, and the store's lock is
  released between any two store calls. So a run of the program is a sequence of atomic
  steps on the table: the scheduler reads the due payments (\<open>Tick\<close>), marks the next one
  (\<open>Mark\<close>), sends it and records the outcome (\<open>Finish\<close>); in between, the handlers of
  \<^verbatim>\<open>cancel_scheduled_payment\<close> (\<open>UserCancel\<close>) and of \<^verbatim>\<open>schedule_payment\<close> (\<open>UserAdd\<close>,
  its insert) may run. The scheduler's own position in its loop is the list of payments
  still to mark, or the payment being sent and the list after it.
\<close>

datatype scheduler_pc =
  Waiting
| Marking "ScheduledPayment list"
| Sending ScheduledPayment "ScheduledPayment list"

record 'f system =
  sys_env :: "'f pay_env"
  sys_table :: payment_table
  sys_scheduler :: scheduler_pc

datatype step = Tick int | Mark | Finish | UserCancel string | UserAdd ScheduledPayment

definition next_due :: "ScheduledPayment list \<Rightarrow> scheduler_pc" where
  "next_due due = (if due = [] then Waiting else Marking due)"

fun apply_step :: "'f system \<Rightarrow> step \<Rightarrow> 'f system" where
  "apply_step s (Tick now) =
     (case sys_scheduler s of
        Waiting \<Rightarrow>
          (case GetDue (sys_env s) now (sys_table s) of
             Inl err \<Rightarrow> s
           | Inr due \<Rightarrow> s\<lparr>sys_scheduler := next_due due\<rparr>)
      | _ \<Rightarrow> s)"
| "apply_step s Mark =
     (case sys_scheduler s of
        Marking (p # due) \<Rightarrow>
          (case scheduler_mark (sys_env s) (sys_table s) p of
             (rows, Some err) \<Rightarrow> s\<lparr>sys_scheduler := next_due due\<rparr>
           | (rows, None) \<Rightarrow> s\<lparr>sys_table := rows, sys_scheduler := Sending p due\<rparr>)
      | _ \<Rightarrow> s)"
| "apply_step s Finish =
     (case sys_scheduler s of
        Sending p due \<Rightarrow>
          s\<lparr>sys_table := scheduler_finish (sys_env s) (sys_table s) p, sys_scheduler := next_due due\<rparr>
      | _ \<Rightarrow> s)"
| "apply_step s (UserCancel id') = s\<lparr>sys_table := fst (Cancel (sys_env s) (sys_table s) id')\<rparr>"
| "apply_step s (UserAdd p) =
     s\<lparr>sys_table := fst (Add (sys_env s) (sys_table s) (p\<lparr>sp_Status := ''pending''\<rparr>))\<rparr>"

text \<open>The status of a payment after each step of a run.\<close>

definition status_of :: "payment_table \<Rightarrow> string \<Rightarrow> string option" where
  "status_of rows id' = map_option sp_Status (find (\<lambda>p. sp_ID p = id') rows)"

fun status_history :: "'f system \<Rightarrow> step list \<Rightarrow> string \<Rightarrow> string option list" where
  "status_history s [] id' = [status_of (sys_table s) id']"
| "status_history s (x # xs) id' = status_of (sys_table s) id' # status_history (apply_step s x) xs id'"

text \<open>The edges of the specification, and whether a history keeps to them.\<close>

definition status_edge :: "string \<Rightarrow> string \<Rightarrow> bool" where
  "status_edge a b =
     ((a = ''pending'' \<and> b = ''executing'') \<or> (a = ''executing'' \<and> b = ''executed'') \<or>
      (a = ''executing'' \<and> b = ''failed'') \<or> (a = ''pending'' \<and> b = ''cancelled''))"

fun follows_edges :: "string option list \<Rightarrow> bool" where
  "follows_edges (Some a # Some b # h) = ((a = b \<or> status_edge a b) \<and> follows_edges (Some b # h))"
| "follows_edges (None # h) = follows_edges h"
| "follows_edges h = True"

text \<open>
  A run in which \<^verbatim>\<open>cancel_scheduled_payment\<close> is only called while the scheduler waits for
  its next tick, what the scheduler's position says about the table in such a run, and a
  change of status that keeps to the edges (a row that appears may have any status).
\<close>

fun quiet_run :: "'f system \<Rightarrow> step list \<Rightarrow> bool" where
  "quiet_run s [] = True"
| "quiet_run s (x # xs) =
     ((case x of UserCancel c \<Rightarrow> sys_scheduler s = Waiting | _ \<Rightarrow> True) \<and>
      quiet_run (apply_step s x) xs)"

definition scheduler_inv :: "'f system \<Rightarrow> bool" where
  "scheduler_inv s =
     (distinct (map sp_ID (sys_table s)) \<and>
      (case sys_scheduler s of
         Waiting \<Rightarrow> True
       | Marking due \<Rightarrow>
           distinct (map sp_ID due) \<and>
           (\<forall>p\<in>set due. status_of (sys_table s) (sp_ID p) = Some ''pending'')
       | Sending p due \<Rightarrow>
           distinct (map sp_ID due) \<and>
           status_of (sys_table s) (sp_ID p) = Some ''executing'' \<and>
           (\<forall>q\<in>set due. status_of (sys_table s) (sp_ID q) = Some ''pending'')))"

definition status_move :: "string option \<Rightarrow> string option \<Rightarrow> bool" where
  "status_move a b =
     (a = b \<or> (case (a, b) of (Some x, Some y) \<Rightarrow> status_edge x y | (None, _) \<Rightarrow> True | _ \<Rightarrow> False))"

subsection \<open>What the claim about the available balance speaks of\<close>

text \<open>
  The live balance that \<^verbatim>\<open>get_balance\<close> reports for a currency, the sum of the amounts of
  the stored pending payments in it, and the available balance.
\<close>

definition live_balance :: "'f floats \<Rightarrow> 'f pay_env \<Rightarrow> ToolParams \<Rightarrow> string \<Rightarrow> 'f" where
  "live_balance fl env toolParams currency =
     (case executor_Execute env (balance_request env toolParams currency) of
        Inl err \<Rightarrow> fzero fl
      | Inr resp \<Rightarrow> parseBalanceFromResponse fl env (er_Data resp) currency)"

definition pending_sum :: "'f floats \<Rightarrow> payment_table \<Rightarrow> string \<Rightarrow> 'f" where
  "pending_sum fl rows currency =
     (if pending_amounts rows currency = [] then fzero fl
      else sql_sum_real fl (pending_amounts rows currency))"

definition available :: "'f floats \<Rightarrow> 'f pay_env \<Rightarrow> payment_table \<Rightarrow> ToolParams \<Rightarrow> string \<Rightarrow> 'f" where
  "available fl env rows toolParams currency =
     fminus fl (live_balance fl env toolParams currency) (pending_sum fl rows currency)"

text \<open>
  A rejection for insufficient available balance: a failed result whose error says so,
  the table as it was, and no send delegated.
\<close>

definition insufficient_rejection ::
  "ToolResult \<times> payment_table \<times> ExecuteRequest list \<Rightarrow> payment_table \<Rightarrow> bool" where
  "insufficient_rejection out rows =
     (case out of
        (r, rows', writes) \<Rightarrow>
          \<not> Success r \<and> has_prefix (Error r) ''insufficient available balance'' \<and>
          rows' = rows \<and> writes = [])"

text \<open>The validations of \<^verbatim>\<open>schedule_payment\<close> that come before its balance check.\<close>

definition recipient_request :: "'f pay_env \<Rightarrow> ToolParams \<Rightarrow> schedule_params \<Rightarrow> ExecuteRequest" where
  "recipient_request env toolParams params =
     \<lparr>rq_UserID = tp_UserID toolParams, rq_Tool = ''search_users'',
      rq_Input = encode_entry env ''query'' (TrimPrefix (prm_Recipient params) ''@''),
      rq_RequestID = tp_RequestID toolParams\<rparr>"

definition schedule_validated :: "'f pay_env \<Rightarrow> ToolParams \<Rightarrow> schedule_params \<Rightarrow> bool" where
  "schedule_validated env toolParams params =
     ((case parse_RFC3339 env (prm_ScheduledAt params) of
         Inl err \<Rightarrow> False
       | Inr scheduledAt \<Rightarrow> \<not> scheduledAt < time_Now_check env) \<and>
      (case executor_Execute env (recipient_request env toolParams params) of
         Inl err \<Rightarrow> False
       | Inr searchResp \<Rightarrow> er_Success searchResp \<and> \<not> users_empty env (er_Data searchResp)))"

subsection \<open>A concrete instance\<close>

text \<open>
  Amounts are whole numbers. The wallet holds 25 USDC; the tool input is the amount text,
  to be sent to \<^verbatim>\<open>@alice\<close> in USDC at the time given.
\<close>

definition ex_floats :: "int floats" where
  "ex_floats = \<lparr>ParseFloat = (\<lambda>s. if s = ''10'' then (10, True) else if s = ''20'' then (20, True)
                                   else (0, False)),
                fzero = 0, fless = (<), fle = (\<le>), fminus = (-),
                sql_sum_real = (\<lambda>xs. sum_list (map (\<lambda>s. if s = ''10'' then 10 else if s = ''20'' then 20 else 0) xs)),
                format_2f = (\<lambda>x. if x = 25 then ''25.00'' else if x = 10 then ''10.00''
                                  else if x = 15 then ''15.00'' else ''0.00'')\<rparr>"

definition ex_pay_env :: "string \<Rightarrow> int pay_env" where
  "ex_pay_env scheduledAt =
     \<lparr>executor_Execute = (\<lambda>rq. if rq_Tool rq = ''get_balance''
                                then Inr \<lparr>er_Success = True, er_Data = ''balance'', er_Error = ''''\<rparr>
                                else Inr \<lparr>er_Success = True, er_Data = ''users'', er_Error = ''''\<rparr>),
      executor_ExecuteWrite = (\<lambda>rq. Inr \<lparr>er_Success = True, er_Data = ''sent'', er_Error = ''''\<rparr>),
      decode_params = (\<lambda>s. Inr \<lparr>prm_Recipient = ''@alice'', prm_Amount = s, prm_Currency = ''USDC'',
                                 prm_ScheduledAt = scheduledAt, prm_Note = ''''\<rparr>),
      users_empty = (\<lambda>s. False),
      decode_object = (\<lambda>s. Some [(''balances'',
                                    JVArray [JVObject [(''currency'', JVString ''USDC''),
                                                       (''amount'', JVNumber 25)]])]),
      encode_entry = (\<lambda>k v. k @ ''='' @ v),
      parse_RFC3339 = (\<lambda>s. if s = ''tomorrow'' then Inr 2000 else if s = ''yesterday'' then Inr 500
                              else Inl ''cannot parse''),
      format_RFC3339 = (\<lambda>t. ''time''), time_Now_check = 1000, time_Now_created = 1000,
      pay_uuid = ''p2'', format_display = (\<lambda>t. ''time''),
      encode_send = (\<lambda>r a c n t. r @ a @ c),
      db_query_error = None, db_insert_error = None, db_update_error = None\<rparr>"

definition ex_payment :: ScheduledPayment where
  "ex_payment = \<lparr>sp_ID = ''p1'', sp_Recipient = ''@alice'', sp_Amount = ''10'', sp_Currency = ''USDC'',
                 sp_Note = '''', sp_ScheduledAt = 900, sp_CreatedAt = 800, sp_Status = ''pending'',
                 sp_Error = ''''\<rparr>"

definition ex_tool_params :: "string \<Rightarrow> ToolParams" where
  "ex_tool_params amount =
     \<lparr>tp_UserID = ''owner'', tp_Input = amount, tp_ConfirmationID = '''', tp_RequestID = ''r1''\<rparr>"

definition ex_system :: "int system" where
  "ex_system = \<lparr>sys_env = ex_pay_env ''tomorrow'', sys_table = [], sys_scheduler = Waiting\<rparr>"

section \<open>Simplifier setup\<close>

text \<open>The equations of the loops defined by general recursion are unfolded by hand.\<close>

declare Query_retry.simps [simp del] containsHelper_from.simps [simp del] decimal.simps [simp del]
  Run_loop.simps [simp del]

section \<open>Properties of the prompt enrichment\<close>

lemma formatMemories_loop_eq:
  "formatMemories_loop fc i mems parts =
     parts @ map (\<lambda>(k, mem). decimal (k + 1) @ ''. '' @ Format mem fc @ [CHR 0x0A]) (enumerate i mems)"
  by (induction mems arbitrary: i parts) simp_all

lemma formatMemories_eq_spec:
  "formatMemories memories owner user_text = enrichment_spec memories owner user_text"
proof (cases "memories = []")
  case True
  then show ?thesis by (simp add: formatMemories_def enrichment_spec_def)
next
  case False
  have clamp: "(if 2000 div int (length memories) < 100 then 100 else 2000 div int (length memories))
                 = max_chars_per_record (length memories)"
    by (simp add: max_chars_per_record_def max_def)
  from False show ?thesis
    by (simp add: formatMemories_def enrichment_spec_def Let_def formatMemories_loop_eq clamp)
qed

text \<open>
  C9. For a non-empty list of retrieved memories the manager's enrichment is the header
  followed by the numbered results of each memory's own \<^verbatim>\<open>Format\<close>, called with the
  owner, the user text and \<open>max 100 (2000 div count)\<close>; for no retrieved memories it is the
  empty string.
\<close>

theorem Retrieve_enrichment:
  assumes "embedder user_text = Inr embedding"
    and "store_query owner embedding 10 = Inr memories"
  shows "Retrieve True embedder store_query owner user_text =
           Inr (if memories = [] then ''''
                else strings_Join
                  ((''=== RELEVANT PAST ACTIONS ==='' @ [CHR 0x0A]) #
                   map (\<lambda>(k, mem). decimal (k + 1) @ ''. '' @
                          Format mem \<lparr>fc_UserID = owner, fc_Query = user_text,
                                       fc_MaxLength = max 100 (2000 div int (length memories))\<rparr> @ [CHR 0x0A])
                       (enumerate 0 memories))
                  [CHR 0x0A])"
  using assms
  by (simp add: Retrieve_def formatMemories_eq_spec enrichment_spec_def max_chars_per_record_def)

theorem Retrieve_enrichment_witness:
  "Retrieve True (\<lambda>t. Inr (0::nat)) (\<lambda>u e n. Inr [memA, memB]) ''alice'' ''hi'' =
     Inr (''=== RELEVANT PAST ACTIONS ==='' @ [CHR 0x0A, CHR 0x0A] @
          ''1. hi/1000'' @ [CHR 0x0A, CHR 0x0A] @ ''2. for alice'' @ [CHR 0x0A])"
  using Retrieve_enrichment [of "\<lambda>t. Inr (0::nat)" "''hi''" 0 "\<lambda>u e n. Inr [memA, memB]"
      "''alice''" "[memA, memB]"]
  by (simp add: memA_def memB_def enumerate_eq_zip upt_rec digit_char_def decimal.simps)

section \<open>Properties of the schema builder\<close>

lemmas schema_defs = WithThought_twice_def WithThought_def ex_schema_def ex_props_def
  StringProperty_def alloc_def ObjectSchema_def map_store_def map_val_def entry_def
  required_list_def

text \<open>
  The first call: the result is a fresh object, and it holds a reference to an allocated
  properties map that is not the result itself.
\<close>

lemma WithThought_first:
  assumes "valid_schema h schema" and "WithThought h schema r = Some (h1, s1)"
  shows "s1 = length h \<and> s1 < length h1 \<and>
         (\<exists>p. (h1 ! s1) ''properties'' = Some (VMap p) \<and> p < length h1 \<and> p \<noteq> s1)"
  using assms
  by (auto simp: WithThought_def valid_schema_def entry_def alloc_def map_store_def
        StringProperty_def Let_def nth_append nth_list_update
      split: option.splits val.splits if_splits)

text \<open>A call on a schema that already has a properties map other than itself.\<close>

lemma WithThought_second:
  assumes "s1 < length h1" and "(h1 ! s1) ''properties'' = Some (VMap p)"
    and "p < length h1" and "p \<noteq> s1"
  shows "\<exists>h2. WithThought h1 (Some s1) r = Some (h2, length h1) \<and> h2 ! s1 = h1 ! s1 \<and>
     h2 ! length h1 =
       (if r then (h1 ! s1)(''required'' \<mapsto> VStrings (required_list h1 s1 @ [''thought'']))
        else h1 ! s1)"
  using assms
  by (auto simp: WithThought_def entry_def alloc_def map_store_def StringProperty_def
        required_list_def Let_def nth_append nth_list_update
      split: option.splits val.splits if_splits)

text \<open>
  C7, as amended. Applying \<^verbatim>\<open>WithThought\<close> to its own result gives a schema with the entries
  of the once-extended schema (the same properties map among them) when \<open>requireThought\<close>
  is false; when it is true, the entries agree except for \<^verbatim>\<open>required\<close>, which is the
  once-extended list with a further \<^verbatim>\<open>"thought"\<close> appended.
\<close>

theorem WithThought_twice_vs_once:
  assumes "valid_schema h schema" and "WithThought h schema r \<noteq> None"
  shows "twice_vs_once h schema r"
proof -
  from assms(2) obtain h1 s1 where w1: "WithThought h schema r = Some (h1, s1)" by auto
  from WithThought_first [OF assms(1) w1] obtain p where
    p: "s1 < length h1" "(h1 ! s1) ''properties'' = Some (VMap p)" "p < length h1" "p \<noteq> s1"
    by auto
  from WithThought_second [OF p, of r] obtain h2 where
    h2: "WithThought h1 (Some s1) r = Some (h2, length h1)" "h2 ! s1 = h1 ! s1"
      "h2 ! length h1 =
         (if r then (h1 ! s1)(''required'' \<mapsto> VStrings (required_list h1 s1 @ [''thought'']))
          else h1 ! s1)"
    by auto
  have "required_list h2 s1 = required_list h1 s1"
    using h2(2) by (simp add: required_list_def entry_def)
  with w1 h2 show ?thesis
    by (simp add: twice_vs_once_def WithThought_twice_def)
qed

theorem WithThought_twice_vs_once_witness:
  "valid_schema (fst ex_schema) (Some (snd ex_schema)) \<and>
   WithThought (fst ex_schema) (Some (snd ex_schema)) False \<noteq> None \<and>
   twice_vs_once (fst ex_schema) (Some (snd ex_schema)) False \<and>
   twice_same_as_once (fst ex_schema) (Some (snd ex_schema)) False"
proof -
  have v: "valid_schema (fst ex_schema) (Some (snd ex_schema))"
    by (simp add: valid_schema_def schema_defs)
  have w: "WithThought (fst ex_schema) (Some (snd ex_schema)) False \<noteq> None"
    by (simp add: schema_defs)
  from WithThought_twice_vs_once [OF v w] v w show ?thesis
    by (auto simp: twice_vs_once_def twice_same_as_once_def split: option.splits prod.splits)
qed

text \<open>
  With \<open>requireThought\<close> the claim as stated fails: on the example schema the once-extended
  \<^verbatim>\<open>required\<close> list is \<^verbatim>\<open>[recipient, thought]\<close>, the twice-extended one
  \<^verbatim>\<open>[recipient, thought, thought]\<close>.
\<close>

theorem WithThought_twice_counterexample:
  "\<not> twice_same_as_once (fst ex_schema) (Some (snd ex_schema)) True \<and>
   required_after_twice (fst ex_schema) (Some (snd ex_schema)) True =
     Some ([''recipient'', ''thought''], [''recipient'', ''thought'', ''thought''])"
  by (simp add: twice_same_as_once_def required_after_twice_def schema_defs fun_eq_iff)

text \<open>
  What \<^verbatim>\<open>WithThought\<close> leaves alone: the entries of its argument's own map object (the
  \<^verbatim>\<open>required\<close> list among them), unless the argument is its own properties map.
\<close>

lemma WithThought_input_entries:
  assumes "valid_schema h (Some s)" and "entry h s ''properties'' \<noteq> Some (VMap s)"
    and "WithThought h (Some s) r = Some (h', result)"
  shows "h' ! s = h ! s"
  using assms
  by (auto simp: WithThought_def valid_schema_def entry_def alloc_def map_store_def
        StringProperty_def Let_def nth_append nth_list_update
      split: option.splits val.splits if_splits)


section \<open>Properties of the vector store\<close>

lemma store_inv_New: "store_inv lib M New"
  by (simp add: store_inv_def New_def)

lemma store_inv_mono: "store_inv lib M s \<Longrightarrow> M \<subseteq> M' \<Longrightarrow> store_inv lib M' s"
  unfolding store_inv_def by blast

lemma getOrCreateCollection_inv:
  assumes "store_inv lib M s" and "getOrCreateCollection s u = Inr (s', a)"
  shows "store_inv lib M s' \<and> map_of (collections s') u = Some a"
proof (cases "map_of (collections s) u")
  case (Some b)
  with assms show ?thesis by (simp add: getOrCreateCollection_def)
next
  case None
  with assms(2) have s': "s' = s\<lparr>objects := objects s @ [[]],
        db_collections := AList.update (if u = '''' then ''global'' else ''user_'' @ u) (length (objects s)) (db_collections s),
        collections := AList.update u (length (objects s)) (collections s)\<rparr>"
    and a: "a = length (objects s)"
    by (auto simp: getOrCreateCollection_def CreateCollection_def Let_def split: if_splits)
  from assms(1) have old: "\<And>v b. map_of (collections s) v = Some b \<Longrightarrow> b < length (objects s)"
    by (auto simp: store_inv_def)
  have old': "\<And>v b. map_of (collections s) v = Some b \<Longrightarrow> b < Suc (length (objects s))"
    using old less_SucI by blast
  show ?thesis
    unfolding store_inv_def s' a using assms(1) old old'
    by (auto simp: store_inv_def update_conv' nth_append split: if_splits)
qed

lemma set_update_subset: "set (AList.update k v al) \<subseteq> insert (k, v) (set al)"
  by (induction al) auto

lemma AddDocument_docs:
  assumes "AddDocument lib col doc = Inr c" and "d \<in> snd ` set c"
  shows "d \<in> snd ` set col \<or>
         (doc_ID d = doc_ID doc \<and> doc_Metadata d = doc_Metadata doc \<and> doc_Content d = doc_Content doc)"
proof -
  from assms(1) obtain d0 where c: "c = AList.update (doc_ID doc) d0 col"
    and d0: "doc_ID d0 = doc_ID doc" "doc_Metadata d0 = doc_Metadata doc"
      "doc_Content d0 = doc_Content doc"
    by (auto simp: AddDocument_def split: if_splits option.splits)
  from assms(2) obtain k where "(k, d) \<in> set c" by auto
  with c set_update_subset [of "doc_ID doc" d0 col]
  have "(k, d) = (doc_ID doc, d0) \<or> (k, d) \<in> set col" by auto
  with d0 show ?thesis by force
qed

lemma Store_inv:
  assumes "store_inv lib M s"
  shows "store_inv lib (insert mem M) (fst (Store lib s mem))"
proof (cases "getOrCreateCollection s (OwnerID mem)")
  case (Inl err)
  with assms show ?thesis by (simp add: Store_def store_inv_mono [OF assms] subset_insertI)
next
  case (Inr r)
  obtain s1 a where r: "r = (s1, a)" by (cases r)
  from getOrCreateCollection_inv [OF assms Inr [unfolded r]]
  have inv1: "store_inv lib M s1" and a: "map_of (collections s1) (OwnerID mem) = Some a" by auto
  have inv1': "store_inv lib (insert mem M) s1"
    using inv1 by (rule store_inv_mono) auto
  show ?thesis
  proof (cases "serializeMemory lib mem")
    case (Inl err)
    with Inr r inv1' show ?thesis by (simp add: Store_def)
  next
    case ser: (Inr stored)
    let ?doc = "\<lparr>doc_ID = ID mem, doc_Metadata = sm_Metadata stored,
                 doc_Embedding = Embedding mem, doc_Content = ContentJSON stored\<rparr>"
    show ?thesis
    proof (cases "AddDocument lib (objects s1 ! a) ?doc")
      case (Inl err)
      with Inr r ser inv1' show ?thesis by (simp add: Store_def)
    next
      case add: (Inr c)
      have fst: "fst (Store lib s mem) = s1\<lparr>objects := (objects s1)[a := c]\<rparr>"
        using Inr r ser add by (simp add: Store_def)
      from inv1 a have alen: "a < length (objects s1)" by (auto simp: store_inv_def)
      have new: "\<And>d. d \<in> snd ` set c \<Longrightarrow> d \<in> snd ` set (objects s1 ! a) \<or> stored_doc lib mem d"
        using AddDocument_docs [OF add] ser by (fastforce simp: stored_doc_def)
      show ?thesis
        unfolding fst store_inv_def
      proof (intro conjI allI impI)
        fix u b
        assume "map_of (collections (s1\<lparr>objects := (objects s1)[a := c]\<rparr>)) u = Some b"
        then show "b < length (objects (s1\<lparr>objects := (objects s1)[a := c]\<rparr>))"
          using inv1 by (auto simp: store_inv_def)
      next
        fix u v b
        assume "map_of (collections (s1\<lparr>objects := (objects s1)[a := c]\<rparr>)) u = Some b"
          and "map_of (collections (s1\<lparr>objects := (objects s1)[a := c]\<rparr>)) v = Some b"
        then show "u = v" using inv1 by (auto simp: store_inv_def)
      next
        fix u b d
        assume ub: "map_of (collections (s1\<lparr>objects := (objects s1)[a := c]\<rparr>)) u = Some b"
          and d: "d \<in> snd ` set (objects (s1\<lparr>objects := (objects s1)[a := c]\<rparr>) ! b)"
        from ub have ub': "map_of (collections s1) u = Some b" by simp
        show "\<exists>m\<in>insert mem M. OwnerID m = u \<and> stored_doc lib m d"
        proof (cases "b = a")
          case True
          with ub' a inv1 have u: "u = OwnerID mem" by (auto simp: store_inv_def)
          from d True alen have "d \<in> snd ` set c" by simp
          from new [OF this] show ?thesis
          proof
            assume "d \<in> snd ` set (objects s1 ! a)"
            with inv1 a obtain m where "m \<in> M" "OwnerID m = OwnerID mem" "stored_doc lib m d"
              unfolding store_inv_def by blast
            with u show ?thesis by auto
          next
            assume "stored_doc lib mem d"
            with u show ?thesis by auto
          qed
        next
          case False
          with d have "d \<in> snd ` set (objects s1 ! b)" by simp
          with inv1 ub' obtain m where "m \<in> M" "OwnerID m = u" "stored_doc lib m d"
            unfolding store_inv_def by blast
          then show ?thesis by auto
        qed
      qed
    qed
  qed
qed

lemma Query_state:
  "fst (Query lib s u e l) = s \<or> (\<exists>a. getOrCreateCollection s u = Inr (fst (Query lib s u e l), a))"
  by (auto simp: Query_def Let_def split: sum.splits prod.splits)

lemma Query_inv:
  assumes "store_inv lib M s"
  shows "store_inv lib M (fst (Query lib s u e l))"
  using Query_state [of lib s u e l] getOrCreateCollection_inv [OF assms] assms by metis

lemma apply_store_op_inv:
  assumes "store_inv lib M s"
  shows "store_inv lib (M \<union> {mem. op = OpStore mem}) (apply_store_op lib s op)"
proof (cases op)
  case (OpStore mem)
  with Store_inv [OF assms, of mem] show ?thesis by simp
next
  case (OpQuery u e l)
  with Query_inv [OF assms] show ?thesis by simp
qed

lemma foldl_store_ops_inv:
  "store_inv lib M s \<Longrightarrow>
   store_inv lib (M \<union> {mem. OpStore mem \<in> set ops}) (foldl (apply_store_op lib) s ops)"
proof (induction ops arbitrary: M s)
  case Nil
  then show ?case by simp
next
  case (Cons op ops)
  from Cons.IH [OF apply_store_op_inv [OF Cons.prems, of op]]
  have "store_inv lib (M \<union> {mem. op = OpStore mem} \<union> {mem. OpStore mem \<in> set ops})
          (foldl (apply_store_op lib) s (op # ops))" by simp
  then show ?case
    by (rule store_inv_mono) auto
qed

lemma run_store_ops_inv: "store_inv lib {mem. OpStore mem \<in> set ops} (run_store_ops lib ops)"
  using foldl_store_ops_inv [OF store_inv_New, of lib "{}" ops] by (simp add: run_store_ops_def)

lemma QueryEmbedding_results:
  assumes "QueryEmbedding lib col q n wh = Inr results" and "d \<in> set results"
  shows "d \<in> snd ` set col \<and> matches_where wh d"
proof -
  let ?f = "filter (matches_where wh) (map snd col)"
  from assms have "d \<in> set ?f"
    by (auto simp: QueryEmbedding_def Let_def split: if_splits option.splits dest!: in_set_takeD)
  then show ?thesis by auto
qed

lemma Query_retry_results:
  "Query_retry lib col q wh n = Inr results \<Longrightarrow> d \<in> set results \<Longrightarrow>
   d \<in> snd ` set col \<and> matches_where wh d"
proof (induction lib col q wh n rule: Query_retry.induct)
  case (1 lib col embedding wh currentLimit)
  note unfold = Query_retry.simps [of lib col embedding wh currentLimit]
  show ?case
  proof (cases "currentLimit \<ge> 1")
    case False
    with "1.prems" unfold show ?thesis by simp
  next
    case lim: True
    show ?thesis
    proof (cases "QueryEmbedding lib col embedding currentLimit wh")
      case (Inr rs)
      with "1.prems"(1) unfold lim have "results = rs" by simp
      with "1.prems"(2) Inr QueryEmbedding_results show ?thesis by fastforce
    next
      case (Inl err)
      show ?thesis
      proof (cases "isInsufficientDocsError err \<and> currentLimit \<noteq> 1")
        case True
        with "1.prems"(1) unfold lim Inl
        have "Query_retry lib col embedding wh (currentLimit - 1) = Inr results" by simp
        from "1.IH" [OF lim Inl _ _ this "1.prems"(2)] True show ?thesis by simp
      next
        case False
        with "1.prems" unfold lim Inl show ?thesis by (auto split: if_splits)
      qed
    qed
  qed
qed

lemma convert_results_mem:
  "m \<in> set (convert_results lib results acc) \<Longrightarrow>
   m \<in> set acc \<or> (\<exists>d\<in>set results. deserializeMemory lib d = Inr m)"
proof (induction results arbitrary: acc)
  case Nil
  then show ?case by simp
next
  case (Cons r results)
  show ?case
  proof (cases "deserializeMemory lib r")
    case (Inl err)
    with Cons.prems Cons.IH [of acc] show ?thesis by auto
  next
    case (Inr x)
    with Cons.prems Cons.IH [of "acc @ [x]"] show ?thesis by auto
  qed
qed

lemma deserializeMemory_owner:
  "deserializeMemory lib d = Inr m \<Longrightarrow>
   TraceMemory_OwnerID m = lookup_str (doc_Metadata d) ''owner_id''"
  by (auto simp: deserializeMemory_def deserializeTraceMemory_def NewTraceMemoryFromStorage_def
        TraceMemory_OwnerID_def Let_def
      split: if_splits option.splits)

text \<open>
  C3. Whatever memories have been stored and whatever queries have been made before, a
  query against an owner yields only records whose owner is that owner, and each of them
  is the stored form of a memory that was stored for that owner: the records of another
  owner, and those stored without an owner (the global collection) when the query names
  one, are never among the results.
\<close>

theorem Query_owner_partition:
  assumes "Query lib (run_store_ops lib ops) owner embedding limit = (s', Inr memories)"
    and "m \<in> set memories"
  shows "TraceMemory_OwnerID m = owner \<and>
         (\<exists>mem d. OpStore mem \<in> set ops \<and> OwnerID mem = owner \<and> stored_doc lib mem d \<and>
                  deserializeMemory lib d = Inr m)"
proof -
  let ?s = "run_store_ops lib ops"
  let ?M = "{mem. OpStore mem \<in> set ops}"
  from assms(1) obtain s1 a results where
    g: "getOrCreateCollection ?s owner = Inr (s1, a)"
    and q: "Query_retry lib (objects s1 ! a) embedding [(''owner_id'', owner)] limit = Inr results"
    and ms: "memories = convert_results lib results []"
    by (auto simp: Query_def Let_def split: sum.splits prod.splits)
  from getOrCreateCollection_inv [OF run_store_ops_inv g]
  have inv: "store_inv lib ?M s1" and a: "map_of (collections s1) owner = Some a" by auto
  from assms(2) ms convert_results_mem [of m lib results "[]"]
  obtain d where d: "d \<in> set results" and des: "deserializeMemory lib d = Inr m" by auto
  from Query_retry_results [OF q d]
  have din: "d \<in> snd ` set (objects s1 ! a)" and w: "matches_where [(''owner_id'', owner)] d" by auto
  from w have "lookup_str (doc_Metadata d) ''owner_id'' = owner" by (simp add: matches_where_def)
  with deserializeMemory_owner [OF des] have own: "TraceMemory_OwnerID m = owner" by simp
  from inv a din obtain mem where "mem \<in> ?M" "OwnerID mem = owner" "stored_doc lib mem d"
    unfolding store_inv_def by blast
  with own des show ?thesis by auto
qed

lemmas chromem_defs = Query_def run_store_ops_def ex_ops_def ex_lib_def ex_memory_def Store_def
  getOrCreateCollection_def CreateCollection_def New_def serializeMemory_def add_custom_def
  AddDocument_def Query_retry.simps QueryEmbedding_def matches_where_def lookup_str_def
  isInsufficientDocsError_def contains_def containsHelper_def containsHelper_from.simps
  deserializeMemory_def deserializeTraceMemory_def NewTraceMemoryFromStorage_def as_string_def
  as_bool_def ex_trace_memory_def ex_content_def ex_content_json_def ex_contents_def
  sum_squares_def TraceMemory_OwnerID_def

text \<open>
  The instance: Alice's query for three memories is answered with her two, the more
  similar first and the second with its embedding as normalised when it was stored; the
  memories of Bob and the memory without an owner are not among them.
\<close>

lemma ex_query_alice:
  "snd (Query ex_lib (run_store_ops ex_lib ex_ops) ''alice'' [1, 0] 3) =
     Inr [ex_trace_memory ''a1'' ''alice'' (''paid bob'', ''send_money'', ''sent'') [1, 0],
          ex_trace_memory ''a2'' ''alice'' (''asked balance'', ''get_balance'', ''5 USDC'') [0, 1]]"
  by (simp add: chromem_defs Let_def)

theorem Query_owner_partition_witness:
  "snd (Query ex_lib (run_store_ops ex_lib ex_ops) ''alice'' [1, 0] 3) =
     Inr [ex_trace_memory ''a1'' ''alice'' (''paid bob'', ''send_money'', ''sent'') [1, 0],
          ex_trace_memory ''a2'' ''alice'' (''asked balance'', ''get_balance'', ''5 USDC'') [0, 1]] \<and>
   TraceMemory_OwnerID
     (ex_trace_memory ''a2'' ''alice'' (''asked balance'', ''get_balance'', ''5 USDC'') [0, 1]) = ''alice'' \<and>
   (\<exists>mem d. OpStore mem \<in> set ex_ops \<and> OwnerID mem = ''alice'' \<and> stored_doc ex_lib mem d \<and>
            deserializeMemory ex_lib d =
              Inr (ex_trace_memory ''a2'' ''alice'' (''asked balance'', ''get_balance'', ''5 USDC'') [0, 1]))"
proof -
  let ?q = "Query ex_lib (run_store_ops ex_lib ex_ops) ''alice'' [1, 0] 3"
  let ?a1 = "ex_trace_memory ''a1'' ''alice'' (''paid bob'', ''send_money'', ''sent'') [1, 0]"
  let ?a2 = "ex_trace_memory ''a2'' ''alice'' (''asked balance'', ''get_balance'', ''5 USDC'') [0, 1]"
  have q: "snd ?q = Inr [?a1, ?a2]" by (rule ex_query_alice)
  then have q': "?q = (fst ?q, Inr [?a1, ?a2])"
    by (metis prod.collapse)
  have m: "?a2 \<in> set [?a1, ?a2]" by simp
  from Query_owner_partition [OF q' m] q show ?thesis by simp
qed

section \<open>Properties of the agent loop engine\<close>

lemma run_inv_advance [simp]: "run_inv eng c (advance n st) = run_inv eng c st"
  by (simp add: run_inv_def advance_def)

lemma run_inv_AddMessage [simp]: "run_inv eng c (AddMessage m st) = run_inv eng c st"
  by (simp add: run_inv_def AddMessage_def)

lemma run_inv_totalTokens [simp]: "run_inv eng c (st\<lparr>totalTokens := x\<rparr>) = run_inv eng c st"
  by (simp add: run_inv_def)

lemma run_inv_emit:
  "run_inv eng c (emit e st) = (run_inv eng c st \<and> \<not> executes_confirmation_tool eng e)"
  by (auto simp: run_inv_def emit_def)

lemma run_inv_AddTrace:
  "run_inv eng c (AddTrace t st) =
     (run_inv eng c st \<and>
      (confirmation_trace eng t \<longrightarrow> (if c then awaiting_confirmation t else blocked_confirmation t)))"
  by (auto simp: run_inv_def AddTrace_def)

lemma confirmation_trace_Action:
  "Action t = name \<Longrightarrow> registry eng name = Some tool \<Longrightarrow>
   confirmation_trace eng t = RequiresConfirmation tool"
  by (simp add: confirmation_trace_def)

lemma confirmation_blocked_inv:
  assumes "run_inv eng False st" and "confirmation_blocked blockID trace st bs = (st', bs')"
  shows "run_inv eng False st'"
  using assms
  by (auto simp: confirmation_blocked_def Let_def run_inv_AddTrace blocked_confirmation_def
        lookup_str_def update_conv')

lemma confirmation_pending_inv:
  assumes "run_inv eng True st"
    and "confirmation_pending w tool blockID toolName inputBytes thought trace st bs = (st', bs')"
  shows "run_inv eng True st'"
  using assms
  by (auto simp: confirmation_pending_def Let_def run_inv_AddTrace awaiting_confirmation_def)

lemma Action_observed_trace [simp]: "Action (observed_trace w tool n result err trace) = Action trace"
  by (simp add: observed_trace_def Let_def)

lemma execute_read_only_inv:
  assumes "run_inv eng c st" and "registry eng toolName = Some tool" and "\<not> RequiresConfirmation tool"
    and "Action trace = toolName"
    and "execute_read_only eng w cfg tool blockID toolName toolInput inputBytes trace st bs = (st', bs')"
  shows "run_inv eng c st'"
proof -
  have ev: "\<And>p. \<not> executes_confirmation_tool eng (EvExecute toolName p)"
    using assms(2,3) by (simp add: executes_confirmation_tool_def)
  have au: "\<And>a. \<not> executes_confirmation_tool eng (EvAudit a)"
    by (simp add: executes_confirmation_tool_def)
  have tr: "\<And>t. Action t = toolName \<Longrightarrow> \<not> confirmation_trace eng t"
    using assms(2,3) by (simp add: confirmation_trace_def)
  from assms(1,5) show ?thesis
    unfolding assms(4) [symmetric]
    by (auto simp: execute_read_only_def Let_def run_inv_emit run_inv_AddTrace
          ev [unfolded assms(4) [symmetric]] au tr [unfolded assms(4) [symmetric]]
        split: prod.splits)
qed

lemma Action_new_trace [simp]: "Action (new_trace w st turn thought toolName inputBytes) = toolName"
  by (simp add: new_trace_def)

lemma trace_Metadata_new_trace [simp]:
  "trace_Metadata (new_trace w st turn thought toolName inputBytes) = []"
  by (simp add: new_trace_def)

lemma process_tool_use_inv:
  assumes "run_inv eng (cfg_canConfirm cfg) st"
    and "process_tool_use eng w cfg turn blockID toolName toolInput st bs = (st', bs')"
  shows "run_inv eng (cfg_canConfirm cfg) st'"
proof (cases "json_Unmarshal_thought w toolInput")
  case (Inl err)
  with assms show ?thesis by (simp add: process_tool_use_def)
next
  case (Inr raw)
  show ?thesis
  proof (cases "registry eng toolName")
    case None
    with assms Inr show ?thesis by (simp add: process_tool_use_def Let_def)
  next
    case (Some tool)
    let ?thought = "strings_TrimSpace w raw"
    let ?trace = "new_trace w st turn ?thought toolName (json_Marshal_raw w toolInput)"
    have inv2: "run_inv eng (cfg_canConfirm cfg) (advance 2 st)" using assms(1) by simp
    show ?thesis
    proof (cases "RequiresConfirmation tool")
      case False
      with assms(2) Inr Some
      have "execute_read_only eng w cfg tool blockID toolName toolInput (json_Marshal_raw w toolInput)
              ?trace (advance 2 st) bs = (st', bs')"
        by (simp add: process_tool_use_def Let_def)
      from execute_read_only_inv [OF inv2 Some False _ this] show ?thesis by simp
    next
      case True
      show ?thesis
      proof (cases "?thought = []")
        case empty: True
        with assms Inr Some True show ?thesis by (simp add: process_tool_use_def Let_def)
      next
        case nonempty: False
        show ?thesis
        proof (cases "cfg_canConfirm cfg")
          case can: True
          with assms(2) Inr Some True nonempty
          have pend: "confirmation_pending w tool blockID toolName (json_Marshal_raw w toolInput) ?thought
                  ?trace (advance 2 st) bs = (st', bs')"
            by (simp add: process_tool_use_def Let_def)
          from inv2 can have "run_inv eng True (advance 2 st)" by simp
          from confirmation_pending_inv [OF this pend] can show ?thesis by simp
        next
          case cannot: False
          with assms(2) Inr Some True nonempty
          have blk: "confirmation_blocked blockID ?trace (advance 2 st) bs = (st', bs')"
            by (simp add: process_tool_use_def Let_def)
          from inv2 cannot have "run_inv eng False (advance 2 st)" by simp
          from confirmation_blocked_inv [OF this blk] cannot show ?thesis by simp
        qed
      qed
    qed
  qed
qed

lemma process_block_inv:
  assumes "run_inv eng (cfg_canConfirm cfg) st"
    and "process_block eng w cfg turn b st bs = (st', bs')"
  shows "run_inv eng (cfg_canConfirm cfg) st'"
proof (cases b)
  case (TextBlock str)
  with assms show ?thesis by (simp add: process_block_def)
next
  case (ToolUseBlock i n inp)
  with assms process_tool_use_inv show ?thesis by (simp add: process_block_def)
next
  case (OtherBlock ty)
  with assms show ?thesis by (simp add: process_block_def)
qed

lemma process_blocks_inv:
  "run_inv eng (cfg_canConfirm cfg) st \<Longrightarrow> process_blocks eng w cfg turn blocks st bs = (st', bs') \<Longrightarrow>
   run_inv eng (cfg_canConfirm cfg) st'"
proof (induction blocks arbitrary: st bs)
  case Nil
  then show ?case by simp
next
  case (Cons b blocks)
  obtain st1 bs1 where pb: "process_block eng w cfg turn b st bs = (st1, bs1)"
    by (cases "process_block eng w cfg turn b st bs")
  from process_block_inv [OF Cons.prems(1) pb] have inv1: "run_inv eng (cfg_canConfirm cfg) st1" .
  show ?case
  proof (cases "panicked bs1 \<or> confirmationNeeded bs1 \<noteq> None")
    case True
    with Cons.prems(2) pb inv1 show ?thesis by auto
  next
    case False
    with Cons.prems(2) pb have "process_blocks eng w cfg turn blocks st1 bs1 = (st', bs')" by simp
    from Cons.IH [OF inv1 this] show ?thesis .
  qed
qed

lemma complete_run_inv:
  assumes "run_inv eng c st" and "complete_run eng input bs st = (out, st')"
  shows "run_inv eng c st'"
proof -
  have ne: "\<And>u. \<not> executes_confirmation_tool eng (EvRecordSuccess u)"
    "\<And>u ts. \<not> executes_confirmation_tool eng (EvRecordTraces u ts)"
    "\<And>u a b. \<not> executes_confirmation_tool eng (EvRecordConversation u a b)"
    "\<not> executes_confirmation_tool eng EvStreamDone"
    by (simp_all add: executes_confirmation_tool_def)
  from assms show ?thesis
    by (auto simp: complete_run_def Let_def run_inv_emit ne split: option.splits)
qed

lemma Run_loop_inv:
  "run_inv eng (cfg_canConfirm cfg) st \<Longrightarrow> Run_loop eng w input cfg turn st = (out, st') \<Longrightarrow>
   run_inv eng (cfg_canConfirm cfg) st'"
proof (induction eng w input cfg turn st rule: Run_loop.induct)
  case (1 eng w input cfg turn st)
  note unfold = Run_loop.simps [of eng w input cfg turn st]
  let ?req = "\<lparr>req_Model = cfg_model cfg, req_MaxTokens = cfg_maxTokens cfg,
               req_Messages = sess_Messages st, req_System = cfg_systemPrompt cfg,
               req_Tools = cfg_apiTools cfg, req_Streaming = in_StreamCallback input\<rparr>"
  show ?case
  proof (cases "ctx_Err w (clock st)")
    case (Some e)
    with "1.prems" unfold show ?thesis by auto
  next
    case None
    show ?thesis
    proof (cases "turn \<ge> cfg_maxTurns cfg")
      case True
      with "1.prems" unfold None show ?thesis by auto
    next
      case turns: False
      show ?thesis
      proof (cases "client eng (clock st + 1) ?req")
        case (Inl err)
        with "1.prems" unfold None turns show ?thesis by auto
      next
        case (Inr resp)
        let ?st0 = "(advance 2 st)\<lparr>totalTokens :=
                       \<lparr>InputTokens = InputTokens (totalTokens st) + usage_InputTokens resp,
                        OutputTokens = OutputTokens (totalTokens st) + usage_OutputTokens resp\<rparr>\<rparr>"
        obtain st1 bs1 where pb:
          "process_blocks eng w cfg (turn + 1) (resp_Content resp) ?st0 empty_block_state = (st1, bs1)"
          by (cases "process_blocks eng w cfg (turn + 1) (resp_Content resp) ?st0 empty_block_state")
        have "run_inv eng (cfg_canConfirm cfg) ?st0" using "1.prems"(1) by simp
        from process_blocks_inv [OF this pb] have inv1: "run_inv eng (cfg_canConfirm cfg) st1" .
        have res: "Run_loop eng w input cfg turn st =
            (if panicked bs1 then (Panic, st1)
             else if confirmationNeeded bs1 \<noteq> None then
               (Returned \<lparr>out_Type = OutputConfirmationNeeded, out_Text = textResponse bs1,
                          out_PendingAction = confirmationNeeded bs1, out_ToolsUsed = toolsUsed bs1,
                          out_ResponseBlocks = responseToBlocks w (resp_Content resp),
                          out_TokensUsed = totalTokens st1, out_Error = None\<rparr> None,
                AddMessage (MsgAssistantResponse resp) st1)
             else if length (toolResults bs1) = 0 then complete_run eng input bs1 st1
             else Run_loop eng w input cfg (turn + 1)
                    (AddMessage (MsgToolResults (toolResults bs1))
                       (AddMessage (MsgAssistantResponse resp) st1)))"
          using unfold None turns Inr pb by simp
        show ?thesis
        proof (cases "panicked bs1 \<or> confirmationNeeded bs1 \<noteq> None")
          case True
          with "1.prems"(2) res inv1 show ?thesis by (auto split: if_splits)
        next
          case cont: False
          show ?thesis
          proof (cases "length (toolResults bs1) = 0")
            case True
            with "1.prems"(2) res cont have "complete_run eng input bs1 st1 = (out, st')" by simp
            from complete_run_inv [OF inv1 this] show ?thesis .
          next
            case False
            with "1.prems"(2) res cont
            have rec: "Run_loop eng w input cfg (turn + 1)
                    (AddMessage (MsgToolResults (toolResults bs1))
                       (AddMessage (MsgAssistantResponse resp) st1)) = (out, st')" by simp
            from cont False have c1: "\<not> panicked bs1" "\<not> confirmationNeeded bs1 \<noteq> None"
              "length (toolResults bs1) \<noteq> 0" by auto
            show ?thesis
              by (rule "1.IH" [OF None turns Inr pb [symmetric] c1 _ rec]) (simp add: inv1)
          qed
        qed
      qed
    qed
  qed
qed

lemmas engine_defs = Run_def Run_loop.simps admission_def retrieve_enrichment_def make_config_def
  start_session_def NewSession_def RestoreHistory_def AddMessage_def AddTrace_def emit_def advance_def
  init_state_def process_block_def process_tool_use_def new_trace_def confirmation_blocked_def
  confirmation_pending_def execute_read_only_def observed_trace_def execution_error_def
  audit_entry_def read_only_tool_result_def failure_metadata_def execution_succeeded_def
  formatObservation_def categorizeError_def generatePrevention_def preventionMap_def
  add_tool_result_def NewToolResultBlock_def empty_block_state_def complete_run_def
  error_output_def ex_world_def ex_tool_def ex_registry_def ex_client_def ex_engine_def
  ex_input_def lookup_str_def RunConfirmedAction_def confirmed_trace_def confirmed_act_def confirmed_tool_result_def
  confirmed_execution_def confirmed_record_def confirmed_close_def ex_pending_def

lemma run_inv_init: "run_inv eng c init_state"
  by (simp add: run_inv_def init_state_def)

lemma run_inv_start_session: "run_inv eng c (start_session w input st) = run_inv eng c (st\<lparr>Traces := []\<rparr>)"
  by (simp add: run_inv_def start_session_def RestoreHistory_def NewSession_def Let_def)

lemma admission_state: "admission eng input st = (out, st') \<Longrightarrow> st' = st \<or> st' = advance 1 st"
  by (auto simp: admission_def split: option.splits sum.splits prod.splits if_splits)

lemma retrieve_enrichment_state:
  "retrieve_enrichment eng input st = (enr, st') \<Longrightarrow> st' = st \<or> st' = advance 1 st"
  by (auto simp: retrieve_enrichment_def split: option.splits sum.splits prod.splits if_splits)

lemma cfg_canConfirm_make_config [simp]:
  "cfg_canConfirm (make_config w input enrichment) = input_canConfirm input"
  by (simp add: make_config_def input_canConfirm_def Let_def split: option.splits)

lemma run_inv_no_traces: "run_inv eng c st \<Longrightarrow> run_inv eng c (st\<lparr>Traces := []\<rparr>)"
  by (simp add: run_inv_def)

lemma Run_inv: "run_inv eng (input_canConfirm input) (snd (Run eng w input))"
proof -
  obtain out0 st0 where adm: "admission eng input init_state = (out0, st0)"
    by (cases "admission eng input init_state")
  from admission_state [OF adm] have inv0: "run_inv eng (input_canConfirm input) st0"
    using run_inv_init [of eng "input_canConfirm input"] by auto
  show ?thesis
  proof (cases out0)
    case (Some out)
    with adm inv0 show ?thesis by (simp add: Run_def)
  next
    case None
    obtain enr st1 where ret: "retrieve_enrichment eng input st0 = (enr, st1)"
      by (cases "retrieve_enrichment eng input st0")
    from retrieve_enrichment_state [OF ret] inv0
    have inv1: "run_inv eng (input_canConfirm input) st1" by auto
    let ?cfg = "make_config w input enr"
    let ?st2 = "start_session w input st1"
    let ?st3 = "if in_UserMessage input \<noteq> [] then AddMessage (MsgUser (in_UserMessage input)) ?st2 else ?st2"
    have inv3: "run_inv eng (cfg_canConfirm ?cfg) ?st3"
      using run_inv_no_traces [OF inv1] by (simp add: run_inv_start_session)
    have run: "Run eng w input = Run_loop eng w input ?cfg 0 ?st3"
      using adm None ret by (simp add: Run_def Let_def)
    obtain out st' where loop: "Run_loop eng w input ?cfg 0 ?st3 = (out, st')"
      by (cases "Run_loop eng w input ?cfg 0 ?st3")
    from Run_loop_inv [OF inv3 loop] run loop show ?thesis by simp
  qed
qed

lemma map_of_update_other: "k \<noteq> k' \<Longrightarrow> map_of (AList.update k v al) k' = map_of al k'"
  by (simp add: update_conv')

lemma carries_confirmed_observed:
  "carries_confirmed trace \<Longrightarrow> carries_confirmed (observed_trace w tool n result err trace)"
  by (simp add: carries_confirmed_def observed_trace_def failure_metadata_def Let_def update_conv'
      split: option.splits)

lemma Traces_start_session [simp]: "Traces (start_session w input st) = []"
  by (simp add: start_session_def RestoreHistory_def NewSession_def Let_def)

lemma carries_confirmed_confirmed_trace: "carries_confirmed (confirmed_trace w action st)"
  by (simp add: carries_confirmed_def confirmed_trace_def Let_def update_conv')

lemma confirmed_act_traces:
  "confirmed_act w tool action st = (st', result, toolErr, durationMs) \<Longrightarrow>
   Traces st' = Traces st @ [observed_trace w tool (pa_Tool action) result toolErr (confirmed_trace w action st)]"
  by (auto simp: confirmed_act_def Let_def AddTrace_def emit_def advance_def split: prod.splits)

lemma Traces_confirmed_record [simp]: "Traces (confirmed_record eng input txt' st) = Traces st"
  by (auto simp: confirmed_record_def Let_def emit_def split: option.splits)

lemma confirmed_close_traces:
  "confirmed_close eng w input action result toolErr durationMs toolResult st = (out, st') \<Longrightarrow>
   Traces st' = Traces st"
  by (auto simp: confirmed_close_def Let_def AddMessage_def advance_def split: sum.splits)

lemma RunConfirmedAction_traces:
  assumes "t \<in> set (Traces (snd (RunConfirmedAction eng w input action)))"
  shows "carries_confirmed t"
proof (cases "registry eng (pa_Tool action)")
  case None
  with assms show ?thesis by (simp add: RunConfirmedAction_def Let_def)
next
  case (Some tool)
  let ?st = "start_session w input init_state"
  obtain st1 result toolErr durationMs where
    act: "confirmed_act w tool action ?st = (st1, result, toolErr, durationMs)"
    by (cases "confirmed_act w tool action ?st") auto
  from confirmed_act_traces [OF act]
  have tr1: "Traces st1 = [observed_trace w tool (pa_Tool action) result toolErr (confirmed_trace w action ?st)]"
    by simp
  have "Traces (snd (RunConfirmedAction eng w input action)) = Traces st1"
  proof (cases "confirmed_tool_result w action result toolErr")
    case None
    with Some act show ?thesis by (simp add: RunConfirmedAction_def Let_def)
  next
    case (Some toolResult)
    obtain out st2 where
      cl: "confirmed_close eng w input action result toolErr durationMs toolResult st1 = (out, st2)"
      by (cases "confirmed_close eng w input action result toolErr durationMs toolResult st1")
    from confirmed_close_traces [OF cl] \<open>registry eng (pa_Tool action) = Some tool\<close> act Some cl
    show ?thesis by (simp add: RunConfirmedAction_def Let_def)
  qed
  with assms tr1 carries_confirmed_observed [OF carries_confirmed_confirmed_trace]
  show ?thesis by simp
qed

lemma answered_with_error_add:
  "answered_with_error blockID bs (add_tool_result (NewToolResultBlock blockID msg True) bs)"
  by (simp add: answered_with_error_def add_tool_result_def NewToolResultBlock_def)

lemma process_tool_use_confirmation:
  assumes "registry eng toolName = Some tool" and "RequiresConfirmation tool"
    and "process_tool_use eng w cfg turn blockID toolName toolInput st bs = (st', bs')"
  shows "events st' = events st \<and> panicked bs' = panicked bs \<and>
         (if cfg_canConfirm cfg \<and> has_thought w toolInput
          then suspended_on blockID toolName bs bs' else answered_with_error blockID bs bs')"
proof (cases "json_Unmarshal_thought w toolInput")
  case (Inl err)
  with assms(3) answered_with_error_add show ?thesis
    by (auto simp: process_tool_use_def has_thought_def add_tool_result_def)
next
  case (Inr raw)
  show ?thesis
  proof (cases "strings_TrimSpace w raw = []")
    case True
    with assms Inr answered_with_error_add show ?thesis
      by (auto simp: process_tool_use_def has_thought_def Let_def add_tool_result_def)
  next
    case False
    with Inr have ht: "has_thought w toolInput" by (simp add: has_thought_def)
    show ?thesis
    proof (cases "cfg_canConfirm cfg")
      case True
      with assms Inr False ht show ?thesis
        by (auto simp: process_tool_use_def Let_def confirmation_pending_def suspended_on_def
              AddTrace_def advance_def)
    next
      case False
      with assms Inr \<open>strings_TrimSpace w raw \<noteq> []\<close> answered_with_error_add show ?thesis
        by (auto simp: process_tool_use_def Let_def confirmation_blocked_def AddTrace_def advance_def
              add_tool_result_def)
    qed
  qed
qed



text \<open>
  C1, as amended. Every trace that \<^verbatim>\<open>Run\<close> appends for a tool marked confirmation-required
  is unsuccessful and has the observation \<^verbatim>\<open>Awaiting user confirmation\<close> when the run's
  limits allow confirmation, and the observation
  \<^verbatim>\<open>Operation blocked: confirmation not allowed in this context\<close> with metadata
  \<^verbatim>\<open>error = confirmation_disabled\<close> when they do not; every trace that
  \<^verbatim>\<open>RunConfirmedAction\<close> appends carries metadata \<^verbatim>\<open>confirmed = true\<close>.
\<close>

theorem confirmation_traces:
  "(\<forall>t\<in>set (Traces (snd (Run eng w input))). confirmation_trace eng t \<longrightarrow>
       (if input_canConfirm input then awaiting_confirmation t else blocked_confirmation t)) \<and>
   (\<forall>t\<in>set (Traces (snd (RunConfirmedAction eng w input action))). carries_confirmed t)"
  using Run_inv [of eng input w] RunConfirmedAction_traces [of _ eng w input action]
  by (simp add: run_inv_def)

lemma ex_run_pending_traces:
  "map Action (Traces (snd (Run (ex_engine ''send_money'' ''user asked to send'') ex_world (ex_input True))))
     = [''send_money'']"
  by (simp add: engine_defs Let_def)

lemma ex_run_blocked_traces:
  "Traces (snd (Run (ex_engine ''send_money'' ''user asked to send'') ex_world (ex_input False))) =
     [\<lparr>trace_ID = ''id'', trace_SessionID = ''id'', TurnNumber = 1,
       Thought = ''user asked to send'', Action = ''send_money'',
       ActionInput = ''user asked to send'',
       Observation = ''Operation blocked: confirmation not allowed in this context'',
       trace_Success = False, Timestamp = 1000,
       trace_Metadata = [(''error'', ''confirmation_disabled'')]\<rparr>]"
  by (simp add: engine_defs Let_def)

lemma ex_confirmed_traces:
  "map Action (Traces (snd (RunConfirmedAction (ex_engine ''send_money'' ''user asked to send'')
      ex_world (ex_input True) ex_pending))) = [''send_money'']"
  by (simp add: engine_defs Let_def)

lemma ex_confirmation_trace:
  "Action t = ''send_money'' \<Longrightarrow> confirmation_trace (ex_engine n i) t"
  by (simp add: confirmation_trace_def ex_engine_def ex_registry_def ex_tool_def)

theorem confirmation_traces_witness:
  "confirmation_trace (ex_engine ''send_money'' ''user asked to send'')
     (hd (Traces (snd (Run (ex_engine ''send_money'' ''user asked to send'') ex_world (ex_input True))))) \<and>
   awaiting_confirmation
     (hd (Traces (snd (Run (ex_engine ''send_money'' ''user asked to send'') ex_world (ex_input True))))) \<and>
   carries_confirmed
     (hd (Traces (snd (RunConfirmedAction (ex_engine ''send_money'' ''user asked to send'')
                         ex_world (ex_input True) ex_pending))))"
proof -
  let ?E = "ex_engine ''send_money'' ''user asked to send''"
  let ?T = "Traces (snd (Run ?E ex_world (ex_input True)))"
  let ?C = "Traces (snd (RunConfirmedAction ?E ex_world (ex_input True) ex_pending))"
  from ex_run_pending_traces have t: "hd ?T \<in> set ?T" and a: "Action (hd ?T) = ''send_money''"
    by (auto simp: map_eq_Cons_conv)
  from ex_confirmed_traces have c: "hd ?C \<in> set ?C"
    by (auto simp: map_eq_Cons_conv)
  have can: "input_canConfirm (ex_input True)"
    by (simp add: input_canConfirm_def ex_input_def)
  from confirmation_traces [of ?E ex_world "ex_input True" ex_pending] t c can
    ex_confirmation_trace [OF a]
  show ?thesis by auto
qed

text \<open>
  The claim as stated fails where the limits do not allow confirmation: the trace that
  \<^verbatim>\<open>Run\<close> appends for \<^verbatim>\<open>send_money\<close> is neither pending nor confirmed.
\<close>

theorem confirmation_traces_counterexample:
  "map (confirmation_trace (ex_engine ''send_money'' ''user asked to send''))
     (Traces (snd (Run (ex_engine ''send_money'' ''user asked to send'') ex_world (ex_input False))))
     = [True] \<and>
   map pending_or_confirmed
     (Traces (snd (Run (ex_engine ''send_money'' ''user asked to send'') ex_world (ex_input False))))
     = [False] \<and>
   map Observation
     (Traces (snd (Run (ex_engine ''send_money'' ''user asked to send'') ex_world (ex_input False))))
     = [''Operation blocked: confirmation not allowed in this context'']"
  by (simp add: ex_run_blocked_traces ex_confirmation_trace pending_or_confirmed_def
        awaiting_confirmation_def carries_confirmed_def)




text \<open>
  Errors within one tool use. When no registered tool returns neither a result nor an
  error, processing a tool use never sets \<open>panicked\<close>, and \<^verbatim>\<open>Run\<close> ends by returning an
  output; each of the four errors of a tool use adds an error result for the block.
\<close>

lemma read_only_tool_result_panicked:
  "(result, err) \<noteq> (None, None) \<Longrightarrow>
   panicked (read_only_tool_result w blockID result err execution bs) = panicked bs"
  by (auto simp: read_only_tool_result_def add_tool_result_def split: option.splits)

lemma execute_read_only_result:
  assumes "execute_read_only eng w cfg tool blockID toolName toolInput inputBytes trace st bs = (st', bs')"
    and "Execute tool (clock st + 1)
           \<lparr>tp_UserID = sess_UserID st, tp_Input = inputBytes, tp_ConfirmationID = '''',
            tp_RequestID = sess_ID st\<rparr> = (result, err)"
  shows "\<exists>execution. bs' = read_only_tool_result w blockID result err execution bs"
  using assms by (auto simp: execute_read_only_def Let_def)

lemma process_tool_use_read_only:
  assumes "json_Unmarshal_thought w toolInput = Inr raw"
    and "registry eng toolName = Some tool" and "\<not> RequiresConfirmation tool"
    and "process_tool_use eng w cfg turn blockID toolName toolInput st bs = (st', bs')"
    and "Execute tool (clock st + 3)
           \<lparr>tp_UserID = sess_UserID st, tp_Input = json_Marshal_raw w toolInput,
            tp_ConfirmationID = '''', tp_RequestID = sess_ID st\<rparr> = (result, err)"
  shows "\<exists>execution. bs' = read_only_tool_result w blockID result err execution bs"
proof -
  have c: "clock (advance 2 st) + 1 = clock st + 3"
    and u: "sess_UserID (advance 2 st) = sess_UserID st"
    and i: "sess_ID (advance 2 st) = sess_ID st"
    by (simp_all add: advance_def)
  from assms(1-4) have "execute_read_only eng w cfg tool blockID toolName toolInput
      (json_Marshal_raw w toolInput)
      (new_trace w st turn (strings_TrimSpace w raw) toolName (json_Marshal_raw w toolInput))
      (advance 2 st) bs = (st', bs')"
    by (simp add: process_tool_use_def Let_def)
  moreover from assms(5) have "Execute tool (clock (advance 2 st) + 1)
           \<lparr>tp_UserID = sess_UserID (advance 2 st), tp_Input = json_Marshal_raw w toolInput,
            tp_ConfirmationID = '''', tp_RequestID = sess_ID (advance 2 st)\<rparr> = (result, err)"
    unfolding c u i .
  ultimately show ?thesis by (rule execute_read_only_result)
qed

lemma process_tool_use_no_panic:
  assumes "returns_something eng"
    and "process_tool_use eng w cfg turn blockID toolName toolInput st bs = (st', bs')"
  shows "panicked bs' = panicked bs"
proof (cases "json_Unmarshal_thought w toolInput")
  case (Inl err)
  with assms(2) show ?thesis by (auto simp: process_tool_use_def add_tool_result_def)
next
  case (Inr raw)
  show ?thesis
  proof (cases "registry eng toolName")
    case None
    with assms(2) Inr show ?thesis by (auto simp: process_tool_use_def Let_def add_tool_result_def)
  next
    case (Some tool)
    show ?thesis
    proof (cases "RequiresConfirmation tool")
      case True
      from process_tool_use_confirmation [OF Some True assms(2)] show ?thesis by simp
    next
      case False
      let ?params = "\<lparr>tp_UserID = sess_UserID st, tp_Input = json_Marshal_raw w toolInput,
                      tp_ConfirmationID = '''', tp_RequestID = sess_ID st\<rparr>"
      obtain result err where ex: "Execute tool (clock st + 3) ?params = (result, err)"
        by (cases "Execute tool (clock st + 3) ?params")
      from assms(1) Some ex have "(result, err) \<noteq> (None, None)"
        unfolding returns_something_def by metis
      with process_tool_use_read_only [OF Inr Some False assms(2) ex]
        read_only_tool_result_panicked
      show ?thesis by blast
    qed
  qed
qed

lemma process_blocks_no_panic:
  "returns_something eng \<Longrightarrow> process_blocks eng w cfg turn blocks st bs = (st', bs') \<Longrightarrow>
   \<not> panicked bs \<Longrightarrow> \<not> panicked bs'"
proof (induction blocks arbitrary: st bs)
  case Nil
  then show ?case by simp
next
  case (Cons b blocks)
  obtain st1 bs1 where pb: "process_block eng w cfg turn b st bs = (st1, bs1)"
    by (cases "process_block eng w cfg turn b st bs")
  have p1: "\<not> panicked bs1"
  proof (cases b)
    case (TextBlock str)
    with pb Cons.prems(3) show ?thesis by (auto simp: process_block_def)
  next
    case (ToolUseBlock i n inp)
    with pb have "process_tool_use eng w cfg turn i n inp st bs = (st1, bs1)"
      by (simp add: process_block_def)
    from process_tool_use_no_panic [OF Cons.prems(1) this] Cons.prems(3) show ?thesis by simp
  next
    case (OtherBlock ty)
    with pb Cons.prems(3) show ?thesis by (auto simp: process_block_def)
  qed
  show ?case
  proof (cases "confirmationNeeded bs1 \<noteq> None")
    case True
    with Cons.prems(2) pb p1 show ?thesis by auto
  next
    case False
    with Cons.prems(2) pb p1 have "process_blocks eng w cfg turn blocks st1 bs1 = (st', bs')" by simp
    from Cons.IH [OF Cons.prems(1) this p1] show ?thesis .
  qed
qed

lemma complete_run_outcome: "proper_outcome (fst (complete_run eng input bs st))"
  by (simp add: complete_run_def Let_def proper_outcome_def)

lemma Run_loop_outcome:
  "returns_something eng \<Longrightarrow> proper_outcome (fst (Run_loop eng w input cfg turn st))"
proof (induction eng w input cfg turn st rule: Run_loop.induct)
  case (1 eng w input cfg turn st)
  note unfold = Run_loop.simps [of eng w input cfg turn st]
  let ?req = "\<lparr>req_Model = cfg_model cfg, req_MaxTokens = cfg_maxTokens cfg,
               req_Messages = sess_Messages st, req_System = cfg_systemPrompt cfg,
               req_Tools = cfg_apiTools cfg, req_Streaming = in_StreamCallback input\<rparr>"
  show ?case
  proof (cases "ctx_Err w (clock st)")
    case (Some e)
    with unfold show ?thesis by (simp add: proper_outcome_def)
  next
    case None
    show ?thesis
    proof (cases "turn \<ge> cfg_maxTurns cfg")
      case True
      with unfold None show ?thesis by (simp add: proper_outcome_def)
    next
      case turns: False
      show ?thesis
      proof (cases "client eng (clock st + 1) ?req")
        case (Inl err)
        with unfold None turns show ?thesis by (simp add: proper_outcome_def)
      next
        case (Inr resp)
        let ?st0 = "(advance 2 st)\<lparr>totalTokens :=
                       \<lparr>InputTokens = InputTokens (totalTokens st) + usage_InputTokens resp,
                        OutputTokens = OutputTokens (totalTokens st) + usage_OutputTokens resp\<rparr>\<rparr>"
        obtain st1 bs1 where pb:
          "process_blocks eng w cfg (turn + 1) (resp_Content resp) ?st0 empty_block_state = (st1, bs1)"
          by (cases "process_blocks eng w cfg (turn + 1) (resp_Content resp) ?st0 empty_block_state")
        from process_blocks_no_panic [OF "1.prems" pb] have np: "\<not> panicked bs1"
          by (simp add: empty_block_state_def)
        have res: "Run_loop eng w input cfg turn st =
            (if confirmationNeeded bs1 \<noteq> None then
               (Returned \<lparr>out_Type = OutputConfirmationNeeded, out_Text = textResponse bs1,
                          out_PendingAction = confirmationNeeded bs1, out_ToolsUsed = toolsUsed bs1,
                          out_ResponseBlocks = responseToBlocks w (resp_Content resp),
                          out_TokensUsed = totalTokens st1, out_Error = None\<rparr> None,
                AddMessage (MsgAssistantResponse resp) st1)
             else if length (toolResults bs1) = 0 then complete_run eng input bs1 st1
             else Run_loop eng w input cfg (turn + 1)
                    (AddMessage (MsgToolResults (toolResults bs1))
                       (AddMessage (MsgAssistantResponse resp) st1)))"
          using unfold None turns Inr pb np by simp
        show ?thesis
        proof (cases "confirmationNeeded bs1 \<noteq> None")
          case True
          with res show ?thesis by (simp add: proper_outcome_def)
        next
          case nc: False
          show ?thesis
          proof (cases "length (toolResults bs1) = 0")
            case True
            with res nc complete_run_outcome show ?thesis by simp
          next
            case False
            from "1.IH" [OF None turns Inr pb [symmetric] np nc False "1.prems"] res nc False
            show ?thesis by simp
          qed
        qed
      qed
    qed
  qed
qed

lemma Run_outcome: "returns_something eng \<Longrightarrow> proper_outcome (fst (Run eng w input))"
proof -
  assume rs: "returns_something eng"
  obtain out0 st0 where adm: "admission eng input init_state = (out0, st0)"
    by (cases "admission eng input init_state")
  show ?thesis
  proof (cases out0)
    case (Some out)
    with adm show ?thesis by (simp add: Run_def proper_outcome_def)
  next
    case None
    obtain enr st1 where ret: "retrieve_enrichment eng input st0 = (enr, st1)"
      by (cases "retrieve_enrichment eng input st0")
    from adm None ret Run_loop_outcome [OF rs] show ?thesis
      by (simp add: Run_def Let_def)
  qed
qed

lemma process_tool_use_block_error:
  assumes "block_error eng w st toolName toolInput"
    and "process_tool_use eng w cfg turn blockID toolName toolInput st bs = (st', bs')"
  shows "answered_with_error blockID bs bs' \<and> panicked bs' = panicked bs"
proof (cases "json_Unmarshal_thought w toolInput")
  case (Inl err)
  with assms(2) answered_with_error_add show ?thesis
    by (auto simp: process_tool_use_def add_tool_result_def)
next
  case (Inr raw)
  show ?thesis
  proof (cases "registry eng toolName")
    case None
    with assms(2) Inr answered_with_error_add show ?thesis
      by (auto simp: process_tool_use_def Let_def add_tool_result_def)
  next
    case (Some tool)
    show ?thesis
    proof (cases "RequiresConfirmation tool")
      case True
      with assms(1) Inr Some have "\<not> has_thought w toolInput"
        by (simp add: block_error_def has_thought_def)
      with process_tool_use_confirmation [OF Some True assms(2)] show ?thesis by simp
    next
      case False
      let ?params = "\<lparr>tp_UserID = sess_UserID st, tp_Input = json_Marshal_raw w toolInput,
                      tp_ConfirmationID = '''', tp_RequestID = sess_ID st\<rparr>"
      obtain result err where ex: "Execute tool (clock st + 3) ?params = (result, err)"
        by (cases "Execute tool (clock st + 3) ?params")
      from assms(1) Inr Some False ex
      have bad: "err \<noteq> None \<or> (\<exists>r. result = Some r \<and> \<not> Success r)"
        by (auto simp: block_error_def split: option.splits)
      from process_tool_use_read_only [OF Inr Some False assms(2) ex]
      obtain execution where bs': "bs' = read_only_tool_result w blockID result err execution bs"
        by blast
      from bad show ?thesis
        unfolding bs'
        by (auto simp: read_only_tool_result_def answered_with_error_def add_tool_result_def
              NewToolResultBlock_def split: option.splits)
    qed
  qed
qed

text \<open>
  C4. A read-only tool whose handler returns neither a result nor an error ends the run
  with a panic: the trace is completed as a failure with the observation
  \<^verbatim>\<open>No result returned\<close>, and then the tool result is built from \<^verbatim>\<open>result.Data\<close>.
\<close>

theorem Run_panics_on_nil_result:
  "registry (ex_engine ''get_rates'' ''{}'') ''get_rates'' = Some (ex_tool False (None, None)) \<and>
   fst (Run (ex_engine ''get_rates'' ''{}'') ex_world (ex_input True)) = Panic \<and>
   map Observation (Traces (snd (Run (ex_engine ''get_rates'' ''{}'') ex_world (ex_input True))))
     = [''No result returned'']"
  by (simp add: engine_defs Let_def)

section \<open>Properties of the scheduled payments\<close>











lemmas pay_defs = schedule_payment_def schedule_check_recipient_def schedule_check_balance_def
  schedule_save_def send_money_wrapper_def send_check_balance_def send_delegate_def
  balance_request_def recipient_request_def schedule_validated_def available_def live_balance_def
  pending_sum_def pending_amounts_def parseBalanceFromResponse_def positive_field_def
  GetPendingTotalByCurrency_def total_of_def Add_def failed_def TrimPrefix_def
  insufficient_rejection_def ex_floats_def ex_pay_env_def ex_payment_def ex_tool_params_def
  ex_system_def Cancel_def UpdateStatus_def GetDue_def scheduler_mark_def scheduler_finish_def
  scheduler_request_def next_due_def status_of_def status_edge_def



text \<open>
  The status changes of the store operations. \<^verbatim>\<open>Cancel\<close> changes only a pending row;
  \<^verbatim>\<open>UpdateStatus\<close> writes the status whatever the row's status is. The steps of the
  scheduler, run without a step of a handler in between, are one tick of \<^verbatim>\<open>startScheduler\<close>;
  and when no payment is cancelled between the scheduler's read of the due payments and its
  last write for them, every status history keeps to the edges.
\<close>

lemma find_map_id:
  "(\<And>p. sp_ID (f p) = sp_ID p) \<Longrightarrow>
   find (\<lambda>p. sp_ID p = i) (map f rows) = map_option f (find (\<lambda>p. sp_ID p = i) rows)"
  by (induction rows) auto

lemma Cancel_status:
  "status_of (fst (Cancel env rows c)) i = status_of rows i \<or>
   (i = c \<and> status_of rows i = Some ''pending'' \<and>
    status_of (fst (Cancel env rows c)) i = Some ''cancelled'')"
proof (cases "db_update_error env")
  case (Some err)
  then show ?thesis by (simp add: Cancel_def)
next
  case None
  let ?f = "\<lambda>p. if sp_ID p = c \<and> sp_Status p = ''pending'' then p\<lparr>sp_Status := ''cancelled''\<rparr> else p"
  have rows': "fst (Cancel env rows c) = map ?f rows"
    using None by (simp add: Cancel_def Let_def)
  have "find (\<lambda>p. sp_ID p = i) (map ?f rows) = map_option ?f (find (\<lambda>p. sp_ID p = i) rows)"
    by (rule find_map_id) simp
  then show ?thesis
    unfolding rows' status_of_def
    by (cases "find (\<lambda>p. sp_ID p = i) rows") (auto dest: find_Some_iff [THEN iffD1])
qed

lemma UpdateStatus_status:
  assumes "db_update_error env = None"
  shows "status_of (fst (UpdateStatus env rows j b e)) i =
           (if i = j then map_option (\<lambda>a. b) (status_of rows i) else status_of rows i)"
proof -
  let ?f = "\<lambda>p. if sp_ID p = j then p\<lparr>sp_Status := b, sp_Error := e\<rparr> else p"
  have rows': "fst (UpdateStatus env rows j b e) = map ?f rows"
    using assms by (simp add: UpdateStatus_def)
  have "find (\<lambda>p. sp_ID p = i) (map ?f rows) = map_option ?f (find (\<lambda>p. sp_ID p = i) rows)"
    by (rule find_map_id) simp
  then show ?thesis
    unfolding rows' status_of_def
    by (cases "find (\<lambda>p. sp_ID p = i) rows") (auto dest: find_Some_iff [THEN iffD1])
qed

lemma UpdateStatus_ids: "map sp_ID (fst (UpdateStatus env rows j b e)) = map sp_ID rows"
  by (auto simp: UpdateStatus_def split: option.splits)

lemma Cancel_ids: "map sp_ID (fst (Cancel env rows c)) = map sp_ID rows"
  by (auto simp: Cancel_def Let_def split: option.splits)

lemma find_append:
  "find P (xs @ ys) = (case find P xs of None \<Rightarrow> find P ys | Some x \<Rightarrow> Some x)"
  by (induction xs) auto

lemma find_None_ids: "i \<notin> set (map sp_ID rows) \<Longrightarrow> find (\<lambda>p. sp_ID p = i) rows = None"
  by (induction rows) auto

lemma Add_status:
  "status_of (fst (Add env rows p)) i = status_of rows i \<or>
   (status_of rows i = None \<and> i = sp_ID p \<and> status_of (fst (Add env rows p)) i = Some (sp_Status p))"
  by (auto simp: Add_def status_of_def find_append split: option.splits)

lemma Add_ids: "distinct (map sp_ID rows) \<Longrightarrow> distinct (map sp_ID (fst (Add env rows p)))"
  by (auto simp: Add_def split: option.splits)

lemma status_move_refl [simp]: "status_move a a"
  by (simp add: status_move_def)

lemma GetDue_pending:
  assumes "GetDue env now rows = Inr due" and "distinct (map sp_ID rows)"
  shows "distinct (map sp_ID due) \<and> (\<forall>p\<in>set due. status_of rows (sp_ID p) = Some ''pending'')"
proof -
  let ?P = "\<lambda>p. sp_Status p = ''pending'' \<and> sp_ScheduledAt p \<le> now"
  from assms(1) have due: "due = sort_key sp_ScheduledAt (filter ?P rows)"
    by (auto simp: GetDue_def split: option.splits)
  from assms(2) have d: "distinct rows" and inj: "inj_on sp_ID (set rows)"
    by (simp_all add: distinct_map)
  have sub: "set due \<subseteq> set rows" by (auto simp: due)
  have "distinct due" using d by (simp add: due)
  moreover from inj sub have "inj_on sp_ID (set due)" by (rule inj_on_subset)
  ultimately have "distinct (map sp_ID due)" by (simp add: distinct_map)
  moreover have "status_of rows (sp_ID p) = Some ''pending''" if "p \<in> set due" for p
  proof -
    from that have p: "p \<in> set rows" "sp_Status p = ''pending''" by (auto simp: due)
    have "find (\<lambda>q. sp_ID q = sp_ID p) rows = Some p"
      using p(1) inj d
    proof (induction rows)
      case Nil
      then show ?case by simp
    next
      case (Cons r rows)
      then show ?case by (auto simp: inj_on_def)
    qed
    with p(2) show ?thesis by (simp add: status_of_def)
  qed
  ultimately show ?thesis by blast
qed

lemma scheduler_inv_next_due:
  "scheduler_inv (s\<lparr>sys_scheduler := Marking due\<rparr>) \<Longrightarrow> scheduler_inv (s\<lparr>sys_scheduler := next_due due\<rparr>)"
  by (auto simp: scheduler_inv_def next_due_def)

lemma apply_step_quiet:
  assumes "scheduler_inv s"
    and "case x of UserCancel c \<Rightarrow> sys_scheduler s = Waiting | _ \<Rightarrow> True"
  shows "scheduler_inv (apply_step s x) \<and>
         status_move (status_of (sys_table s) i) (status_of (sys_table (apply_step s x)) i)"
proof (cases x)
  case (Tick now)
  show ?thesis
  proof (cases "sys_scheduler s")
    case Waiting
    show ?thesis
    proof (cases "GetDue (sys_env s) now (sys_table s)")
      case (Inl err)
      with Tick Waiting assms(1) show ?thesis by simp
    next
      case (Inr due)
      from assms(1) have "distinct (map sp_ID (sys_table s))" by (simp add: scheduler_inv_def)
      from GetDue_pending [OF Inr this] assms(1)
      have "scheduler_inv (s\<lparr>sys_scheduler := Marking due\<rparr>)" by (simp add: scheduler_inv_def)
      then have "scheduler_inv (s\<lparr>sys_scheduler := next_due due\<rparr>)" by (rule scheduler_inv_next_due)
      with Tick Waiting Inr show ?thesis by simp
    qed
  next
    case (Marking due)
    with Tick assms(1) show ?thesis by simp
  next
    case (Sending p due)
    with Tick assms(1) show ?thesis by simp
  qed
next
  case Mark
  show ?thesis
  proof (cases "sys_scheduler s")
    case Waiting
    with Mark assms(1) show ?thesis by simp
  next
    case (Sending p due)
    with Mark assms(1) show ?thesis by simp
  next
    case (Marking due0)
    show ?thesis
    proof (cases due0)
      case Nil
      with Mark Marking assms(1) show ?thesis by simp
    next
      case (Cons p due)
      from assms(1) Marking Cons
      have inv: "distinct (map sp_ID (sys_table s))" "distinct (map sp_ID due)"
        "sp_ID p \<notin> sp_ID ` set due" "status_of (sys_table s) (sp_ID p) = Some ''pending''"
        "\<forall>q\<in>set due. status_of (sys_table s) (sp_ID q) = Some ''pending''"
        by (auto simp: scheduler_inv_def)
      show ?thesis
      proof (cases "db_update_error (sys_env s)")
        case (Some err)
        then have st: "apply_step s x = s\<lparr>sys_scheduler := next_due due\<rparr>"
          using Mark Marking Cons by (simp add: scheduler_mark_def UpdateStatus_def)
        from inv have "scheduler_inv (s\<lparr>sys_scheduler := Marking due\<rparr>)"
          by (simp add: scheduler_inv_def)
        then have "scheduler_inv (s\<lparr>sys_scheduler := next_due due\<rparr>)" by (rule scheduler_inv_next_due)
        then show ?thesis by (simp add: st)
      next
        case None
        let ?rows = "fst (UpdateStatus (sys_env s) (sys_table s) (sp_ID p) ''executing'' '''')"
        from None have st: "apply_step s x = s\<lparr>sys_table := ?rows, sys_scheduler := Sending p due\<rparr>"
          using Mark Marking Cons by (simp add: scheduler_mark_def UpdateStatus_def)
        note us = UpdateStatus_status [OF None, of "sys_table s" "sp_ID p" "''executing''" "''''"]
        have ne: "sp_ID q \<noteq> sp_ID p" if "q \<in> set due" for q
          using inv(3) that by (metis imageI)
        have "scheduler_inv (s\<lparr>sys_table := ?rows, sys_scheduler := Sending p due\<rparr>)"
          using inv(1,2,4,5) ne by (simp add: scheduler_inv_def us UpdateStatus_ids)
        moreover have "status_move (status_of (sys_table s) i) (status_of ?rows i)"
          using inv(4) by (auto simp: us status_move_def status_edge_def)
        ultimately show ?thesis by (simp add: st)
      qed
    qed
  qed
next
  case Finish
  show ?thesis
  proof (cases "sys_scheduler s")
    case Waiting
    with Finish assms(1) show ?thesis by simp
  next
    case (Marking due)
    with Finish assms(1) show ?thesis by simp
  next
    case (Sending p due)
    from assms(1) Sending
    have inv: "distinct (map sp_ID (sys_table s))" "distinct (map sp_ID due)"
      "status_of (sys_table s) (sp_ID p) = Some ''executing''"
      "\<forall>q\<in>set due. status_of (sys_table s) (sp_ID q) = Some ''pending''"
      by (auto simp: scheduler_inv_def)
    let ?rows = "scheduler_finish (sys_env s) (sys_table s) p"
    have st: "apply_step s x = s\<lparr>sys_table := ?rows, sys_scheduler := next_due due\<rparr>"
      using Finish Sending by simp
    have ids: "map sp_ID ?rows = map sp_ID (sys_table s)"
      by (auto simp: scheduler_finish_def UpdateStatus_ids split: sum.splits)
    have fin: "status_of ?rows i = status_of (sys_table s) i \<or>
               (i = sp_ID p \<and> (status_of ?rows i = Some ''executed'' \<or> status_of ?rows i = Some ''failed''))"
    proof (cases "db_update_error (sys_env s)")
      case (Some err)
      then show ?thesis by (auto simp: scheduler_finish_def UpdateStatus_def split: sum.splits)
    next
      case None
      note us = UpdateStatus_status [OF None, of "sys_table s" "sp_ID p"]
      from inv(3) show ?thesis
        by (auto simp: scheduler_finish_def us split: sum.splits)
    qed
    have others: "status_of ?rows (sp_ID q) = Some ''pending''" if "q \<in> set due" for q
    proof -
      from inv(3,4) that have "sp_ID q \<noteq> sp_ID p" by auto
      moreover have "status_of ?rows j = status_of (sys_table s) j \<or> j = sp_ID p" for j
      proof (cases "db_update_error (sys_env s)")
        case (Some err)
        then show ?thesis by (auto simp: scheduler_finish_def UpdateStatus_def split: sum.splits)
      next
        case None
        note us = UpdateStatus_status [OF None, of "sys_table s" "sp_ID p"]
        show ?thesis by (auto simp: scheduler_finish_def us split: sum.splits)
      qed
      ultimately show ?thesis using inv(4) that by metis
    qed
    have "scheduler_inv (s\<lparr>sys_table := ?rows, sys_scheduler := Marking due\<rparr>)"
      using inv others by (simp add: scheduler_inv_def ids)
    then have "scheduler_inv (s\<lparr>sys_table := ?rows, sys_scheduler := next_due due\<rparr>)"
      using scheduler_inv_next_due [where s = "s\<lparr>sys_table := ?rows\<rparr>" and due = due] by simp
    moreover have "status_move (status_of (sys_table s) i) (status_of ?rows i)"
      using fin inv(3) by (auto simp: status_move_def status_edge_def)
    ultimately show ?thesis by (simp add: st)
  qed
next
  case (UserCancel c)
  with assms(2) have w: "sys_scheduler s = Waiting" by simp
  from assms(1) w have "scheduler_inv (apply_step s x)"
    by (simp add: UserCancel scheduler_inv_def Cancel_ids)
  moreover have "status_move (status_of (sys_table s) i) (status_of (sys_table (apply_step s x)) i)"
    using Cancel_status [of "sys_env s" "sys_table s" c i]
    by (auto simp: UserCancel status_move_def status_edge_def)
  ultimately show ?thesis by simp
next
  case (UserAdd p)
  let ?rows = "fst (Add (sys_env s) (sys_table s) (p\<lparr>sp_Status := ''pending''\<rparr>))"
  have st: "apply_step s x = s\<lparr>sys_table := ?rows\<rparr>" by (simp add: UserAdd)
  have keep: "status_of ?rows j = Some a" if "status_of (sys_table s) j = Some a" for j a
    using Add_status [of "sys_env s" "sys_table s" "p\<lparr>sp_Status := ''pending''\<rparr>" j] that by auto
  from assms(1) have "scheduler_inv (s\<lparr>sys_table := ?rows\<rparr>)"
    by (auto simp: scheduler_inv_def Add_ids keep split: scheduler_pc.splits)
  moreover have "status_move (status_of (sys_table s) i) (status_of ?rows i)"
    using Add_status [of "sys_env s" "sys_table s" "p\<lparr>sp_Status := ''pending''\<rparr>" i]
    by (auto simp: status_move_def)
  ultimately show ?thesis by (simp add: st)
qed

lemma status_history_hd: "\<exists>h. status_history s xs i = status_of (sys_table s) i # h"
  by (cases xs) auto

lemma follows_edges_Cons:
  "status_move a b \<Longrightarrow> follows_edges (b # h) \<Longrightarrow> follows_edges (a # b # h)"
  by (cases a; cases b) (auto simp: status_move_def)

lemma quiet_run_follows_edges:
  "scheduler_inv s \<Longrightarrow> quiet_run s xs \<Longrightarrow> follows_edges (status_history s xs i)"
proof (induction xs arbitrary: s)
  case Nil
  then show ?case by (cases "status_of (sys_table s) i") auto
next
  case (Cons x xs)
  from Cons.prems have q: "case x of UserCancel c \<Rightarrow> sys_scheduler s = Waiting | _ \<Rightarrow> True"
    and q': "quiet_run (apply_step s x) xs" by simp_all
  from apply_step_quiet [OF Cons.prems(1) q, of i]
  have inv': "scheduler_inv (apply_step s x)"
    and mv: "status_move (status_of (sys_table s) i) (status_of (sys_table (apply_step s x)) i)"
    by simp_all
  from Cons.IH [OF inv' q'] have fe: "follows_edges (status_history (apply_step s x) xs i)" .
  obtain h where h: "status_history (apply_step s x) xs i = status_of (sys_table (apply_step s x)) i # h"
    using status_history_hd by blast
  from follows_edges_Cons [OF mv fe [unfolded h]] show ?case by (simp add: h)
qed

lemma scheduler_mark_error: "scheduler_mark env rows p = (rows', Some e) \<Longrightarrow> rows' = rows"
  by (auto simp: scheduler_mark_def UpdateStatus_def split: option.splits)

lemma scheduler_loop_steps:
  "\<exists>xs. set xs \<subseteq> {Mark, Finish} \<and>
        foldl apply_step (s\<lparr>sys_scheduler := next_due due\<rparr>) xs =
          s\<lparr>sys_table := scheduler_loop (sys_env s) (sys_table s) due, sys_scheduler := Waiting\<rparr>"
proof (induction due arbitrary: s)
  case Nil
  have "foldl apply_step (s\<lparr>sys_scheduler := next_due []\<rparr>) [] =
          s\<lparr>sys_table := scheduler_loop (sys_env s) (sys_table s) [], sys_scheduler := Waiting\<rparr>"
    by (simp add: next_due_def)
  then show ?case by (intro exI [of _ "[]"]) simp
next
  case (Cons p due)
  obtain rows err where m: "scheduler_mark (sys_env s) (sys_table s) p = (rows, err)"
    by (cases "scheduler_mark (sys_env s) (sys_table s) p")
  show ?case
  proof (cases err)
    case (Some e)
    from Cons.IH [of s] obtain xs where xs: "set xs \<subseteq> {Mark, Finish}"
      "foldl apply_step (s\<lparr>sys_scheduler := next_due due\<rparr>) xs =
         s\<lparr>sys_table := scheduler_loop (sys_env s) (sys_table s) due, sys_scheduler := Waiting\<rparr>"
      by blast
    have "foldl apply_step (s\<lparr>sys_scheduler := next_due (p # due)\<rparr>) (Mark # xs) =
            s\<lparr>sys_table := scheduler_loop (sys_env s) (sys_table s) (p # due), sys_scheduler := Waiting\<rparr>"
      using m Some xs(2) scheduler_mark_error [of "sys_env s" "sys_table s" p rows e]
      by (simp add: next_due_def)
    with xs(1) show ?thesis by (intro exI [of _ "Mark # xs"]) simp
  next
    case None
    let ?s = "s\<lparr>sys_table := scheduler_finish (sys_env s) rows p\<rparr>"
    from Cons.IH [of ?s] obtain xs where xs: "set xs \<subseteq> {Mark, Finish}"
      "foldl apply_step (?s\<lparr>sys_scheduler := next_due due\<rparr>) xs =
         ?s\<lparr>sys_table := scheduler_loop (sys_env ?s) (sys_table ?s) due, sys_scheduler := Waiting\<rparr>"
      by blast
    have "foldl apply_step (s\<lparr>sys_scheduler := next_due (p # due)\<rparr>) (Mark # Finish # xs) =
            s\<lparr>sys_table := scheduler_loop (sys_env s) (sys_table s) (p # due), sys_scheduler := Waiting\<rparr>"
      using m None xs(2) by (simp add: next_due_def)
    with xs(1) show ?thesis by (intro exI [of _ "Mark # Finish # xs"]) simp
  qed
qed

lemma scheduler_tick_steps:
  assumes "sys_scheduler s = Waiting"
  shows "\<exists>xs. set xs \<subseteq> {Mark, Finish} \<and>
           foldl apply_step s (Tick now # xs) =
             s\<lparr>sys_table := scheduler_tick (sys_env s) now (sys_table s)\<rparr>"
proof (cases "GetDue (sys_env s) now (sys_table s)")
  case (Inl err)
  with assms have "foldl apply_step s (Tick now # []) =
      s\<lparr>sys_table := scheduler_tick (sys_env s) now (sys_table s)\<rparr>"
    by (simp add: scheduler_tick_def)
  then show ?thesis by (intro exI [of _ "[]"]) simp
next
  case (Inr due)
  from scheduler_loop_steps [where s = s and due = due] obtain xs where xs: "set xs \<subseteq> {Mark, Finish}"
    "foldl apply_step (s\<lparr>sys_scheduler := next_due due\<rparr>) xs =
       s\<lparr>sys_table := scheduler_loop (sys_env s) (sys_table s) due, sys_scheduler := Waiting\<rparr>"
    by blast
  have "s\<lparr>sys_table := scheduler_loop (sys_env s) (sys_table s) due, sys_scheduler := Waiting\<rparr> =
        s\<lparr>sys_table := scheduler_loop (sys_env s) (sys_table s) due\<rparr>"
    using assms by (cases s) simp
  with xs(2) Inr assms have "foldl apply_step s (Tick now # xs) =
      s\<lparr>sys_table := scheduler_tick (sys_env s) now (sys_table s)\<rparr>"
    by (simp add: scheduler_tick_def)
  with xs(1) show ?thesis by blast
qed

text \<open>
  C6. A payment that is cancelled after the scheduler has read the due payments and before
  it marks this one goes from \<^verbatim>\<open>cancelled\<close> to \<^verbatim>\<open>executing\<close> and on to \<^verbatim>\<open>executed\<close>:
  \<^verbatim>\<open>UpdateStatus\<close> writes the status whatever the row's current status is.
\<close>

theorem cancelled_payment_is_executed:
  "status_history ex_system [UserAdd ex_payment, Tick 1000, UserCancel ''p1'', Mark, Finish] ''p1'' =
     [None, Some ''pending'', Some ''pending'', Some ''cancelled'', Some ''executing'', Some ''executed''] \<and>
   \<not> follows_edges
       (status_history ex_system [UserAdd ex_payment, Tick 1000, UserCancel ''p1'', Mark, Finish] ''p1'')"
  by (simp add: pay_defs Let_def)

end
